theory Spec2Isabelle
  imports Main "HOL-Library.Word" "HOL-Library.Char_ord" "HOL-Library.List_Lexorder" "HOL-Library.FSet"
begin

section \<open>Compile-time strings\<close>

text \<open>
  The header builds every signature at compile time from \<open>std::string_view\<close> constants.
  A \<open>string_view\<close> is modelled by a HOL \<open>string\<close>.
\<close>

text \<open>\<open>num_digits\<close>: the number of decimal digits of \<open>n\<close>.\<close>

function num_digits :: "nat \<Rightarrow> nat" where
  "num_digits n = (if n < 10 then 1 else num_digits (n div 10) + 1)"
  by pat_completeness auto
termination
  by (relation "measure (\<lambda>n. n)") auto

declare num_digits.simps [simp del]

text \<open>
  \<open>integer_to_digits<N>::impl\<close>: the loop \<open>while (i > 0) { --i; arr[i] = '0' + (n % 10); n /= 10; }\<close>
  over an array of \<open>len = num_digits(N)\<close> characters.
\<close>

fun integer_to_digits_loop :: "nat \<Rightarrow> nat \<Rightarrow> string \<Rightarrow> string" where
  "integer_to_digits_loop 0 n arr = arr"
| "integer_to_digits_loop (Suc i) n arr =
     integer_to_digits_loop i (n div 10) (arr[i := char_of (48 + n mod 10)])"

definition integer_to_digits :: "nat \<Rightarrow> string" where
  "integer_to_digits N =
     (let len = num_digits N
      in integer_to_digits_loop len N (replicate len (CHR 0x00)))"

text \<open>\<open>replace<S, O, N>\<close>: every occurrence of the character \<open>O\<close> in \<open>S\<close> becomes \<open>N\<close>.\<close>

definition replace :: "string \<Rightarrow> char \<Rightarrow> char \<Rightarrow> string" where
  "replace S O' N = map (\<lambda>c. if c = O' then N else c) S"

text \<open>\<open>join<Strs...>\<close>: the concatenation of a pack of strings.\<close>

definition join :: "string list \<Rightarrow> string" where
  "join Strs = concat Strs"

subsection \<open>Zero-terminated strings and views\<close>

text \<open>
  A \<open>const char*\<close> read as a zero-terminated string: the bytes before the first zero byte.
\<close>

definition c_str :: "string \<Rightarrow> string" where
  "c_str bytes = takeWhile (\<lambda>c. c \<noteq> CHR 0x00) bytes"

text \<open>
  A \<open>std::string_view\<close> is a pointer and a length. The model keeps the characters it
  views and, for what \<open>data()\<close> yields when it is read as a zero-terminated string, the
  bytes that follow the view in memory, up to the next zero byte.
  \<open>string_view_data\<close> is \<open>data()\<close> read in that way, and \<open>string_view_of\<close> is the
  constructor \<open>std::string_view(const char*)\<close>, which measures the string with \<open>strlen\<close>.
\<close>

record string_view =
  characters :: string
  following :: string

definition string_view_data :: "string_view \<Rightarrow> string" where
  "string_view_data sv = c_str (characters sv @ following sv)"

definition string_view_of :: "string \<Rightarrow> string_view" where
  "string_view_of s = \<lparr>characters = c_str s, following = []\<rparr>"

section \<open>Native types and their wire signatures\<close>

text \<open>
  The primary template \<open>ArgType<T>\<close> fails a \<open>static_assert\<close>; only its specialisations
  exist in a program that compiles. The types below are those specialisations.
  \<open>int16_t\<close>, \<open>int32_t\<close> and \<open>int64_t\<close> are aliases of \<open>short\<close>, \<open>int\<close> and
  \<open>long\<close> on the LP64 platform that the repository's tests assume
  (\<open>returns_long\<close> is expected to yield 9223372036854775807).
\<close>

datatype fundamental =
    bool_t | char_t | signed_char_t | unsigned_char_t | uint16_t | short_t
  | int_t | long_t | long_long_t | unsigned_int_t | unsigned_long_t | unsigned_long_long_t
  | float_t | double_t

datatype cpp_type =
    Void
  | Fundamental fundamental
  | Array cpp_type
  | Object
  | StdString
  | StdVector cpp_type
  | StdList cpp_type
  | StdSet cpp_type
  | StdUnorderedSet cpp_type
  | StdMap cpp_type cpp_type
  | StdUnorderedMap cpp_type cpp_type
  | StdFunction cpp_type "cpp_type list"
  | DataClass string
  | NativeClass string

text \<open>
  \<open>DataClass q\<close> and \<open>NativeClass q\<close> are the types declared with
  \<open>DECLARE_DATA_CLASS(T, q)\<close> and \<open>DECLARE_NATIVE_CLASS(T, q)\<close>, where \<open>q\<close> is the
  qualified Java class name.
\<close>

text \<open>\<open>sizeof\<close> of the integer types (LP64), as \<open>IntegerArgType\<close> reads it.\<close>

fun sizeof :: "fundamental \<Rightarrow> nat" where
  "sizeof bool_t = 1"
| "sizeof char_t = 1"
| "sizeof signed_char_t = 1"
| "sizeof unsigned_char_t = 1"
| "sizeof uint16_t = 2"
| "sizeof short_t = 2"
| "sizeof int_t = 4"
| "sizeof long_t = 8"
| "sizeof long_long_t = 8"
| "sizeof unsigned_int_t = 4"
| "sizeof unsigned_long_t = 8"
| "sizeof unsigned_long_long_t = 8"
| "sizeof float_t = 4"
| "sizeof double_t = 8"

text \<open>
  The members \<open>type_sig\<close>, \<open>class_name\<close> and \<open>primitive_type\<close> of the specialisations
  of \<open>ArgType\<close> for the fundamental types. \<open>IntegerArgType<T>\<close> selects
  \<open>Int32ArgType<T>\<close> when \<open>sizeof(T) <= sizeof(int32_t)\<close> and \<open>Int64ArgType<T>\<close> otherwise.
\<close>

fun fundamental_type_sig :: "fundamental \<Rightarrow> string" where
  "fundamental_type_sig bool_t = ''Z''"
| "fundamental_type_sig char_t = ''B''"
| "fundamental_type_sig signed_char_t = ''B''"
| "fundamental_type_sig unsigned_char_t = ''B''"
| "fundamental_type_sig uint16_t = ''C''"
| "fundamental_type_sig short_t = ''S''"
| "fundamental_type_sig float_t = ''F''"
| "fundamental_type_sig double_t = ''D''"
| "fundamental_type_sig T = (if sizeof T \<le> 4 then ''I'' else ''J'')"

fun fundamental_class_name :: "fundamental \<Rightarrow> string" where
  "fundamental_class_name bool_t = ''java/lang/Boolean''"
| "fundamental_class_name char_t = ''java/lang/Byte''"
| "fundamental_class_name signed_char_t = ''java/lang/Byte''"
| "fundamental_class_name unsigned_char_t = ''java/lang/Byte''"
| "fundamental_class_name uint16_t = ''java/lang/Character''"
| "fundamental_class_name short_t = ''java/lang/Short''"
| "fundamental_class_name float_t = ''java/lang/Float''"
| "fundamental_class_name double_t = ''java/lang/Double''"
| "fundamental_class_name T = (if sizeof T \<le> 4 then ''java/lang/Integer'' else ''java/lang/Long'')"

fun fundamental_primitive_type :: "fundamental \<Rightarrow> string" where
  "fundamental_primitive_type bool_t = ''boolean''"
| "fundamental_primitive_type char_t = ''byte''"
| "fundamental_primitive_type signed_char_t = ''byte''"
| "fundamental_primitive_type unsigned_char_t = ''byte''"
| "fundamental_primitive_type uint16_t = ''char''"
| "fundamental_primitive_type short_t = ''short''"
| "fundamental_primitive_type float_t = ''float''"
| "fundamental_primitive_type double_t = ''double''"
| "fundamental_primitive_type T = (if sizeof T \<le> 4 then ''int'' else ''long'')"

text \<open>
  The explicit specialisations \<open>ArgType<std::vector<X>> : FundamentalArgArrayType<X>\<close>.
  There are thirteen of them; \<open>std::vector<bool>\<close> is not among them.
\<close>

fun vector_is_FundamentalArgArrayType :: "cpp_type \<Rightarrow> bool" where
  "vector_is_FundamentalArgArrayType (Fundamental char_t) = True"
| "vector_is_FundamentalArgArrayType (Fundamental signed_char_t) = True"
| "vector_is_FundamentalArgArrayType (Fundamental unsigned_char_t) = True"
| "vector_is_FundamentalArgArrayType (Fundamental uint16_t) = True"
| "vector_is_FundamentalArgArrayType (Fundamental short_t) = True"
| "vector_is_FundamentalArgArrayType (Fundamental int_t) = True"
| "vector_is_FundamentalArgArrayType (Fundamental long_t) = True"
| "vector_is_FundamentalArgArrayType (Fundamental long_long_t) = True"
| "vector_is_FundamentalArgArrayType (Fundamental unsigned_int_t) = True"
| "vector_is_FundamentalArgArrayType (Fundamental unsigned_long_t) = True"
| "vector_is_FundamentalArgArrayType (Fundamental unsigned_long_long_t) = True"
| "vector_is_FundamentalArgArrayType (Fundamental float_t) = True"
| "vector_is_FundamentalArgArrayType (Fundamental double_t) = True"
| "vector_is_FundamentalArgArrayType T = False"

text \<open>
  \<open>class_name\<close> of the composite specialisations (\<open>CompositeArgType\<close> and the classes
  deriving from it). The two macros compute it as \<open>replace_v<qualified_name, '.', '/'>\<close>.
\<close>

fun class_name :: "cpp_type \<Rightarrow> string" where
  "class_name (Fundamental T) = fundamental_class_name T"
| "class_name Object = ''java/lang/Object''"
| "class_name StdString = ''java/lang/String''"
| "class_name (StdVector T) = ''java/util/List''"
| "class_name (StdList T) = ''java/util/List''"
| "class_name (StdSet E) = ''java/util/Set''"
| "class_name (StdUnorderedSet E) = ''java/util/Set''"
| "class_name (StdMap K V) = ''java/util/Map''"
| "class_name (StdUnorderedMap K V) = ''java/util/Map''"
| "class_name (DataClass q) = replace q (CHR ''.'') (CHR ''/'')"
| "class_name (NativeClass q) = replace q (CHR ''.'') (CHR ''/'')"
| "class_name T = []"

text \<open>
  \<open>ArgType<T>::type_sig\<close>. For the composite types it is
  \<open>join_v<class_type_prefix, class_name, class_type_suffix>\<close>; for an array tag and for the
  vectors specialised with \<open>FundamentalArgArrayType\<close> it is
  \<open>join_v<array_type_prefix, ArgType<T>::type_sig>\<close>; for \<open>std::function<R(Args...)>\<close> it is
  \<open>join_v<kotlin_function_type, integer_to_digits<sizeof...(Args)>::value, semicolon>\<close>.
\<close>

definition CompositeArgType_type_sig :: "string \<Rightarrow> string" where
  "CompositeArgType_type_sig cls = join [''L'', cls, '';'']"

fun type_sig :: "cpp_type \<Rightarrow> string" where
  "type_sig Void = ''V''"
| "type_sig (Fundamental T) = fundamental_type_sig T"
| "type_sig (Array T) = join [''['', type_sig T]"
| "type_sig (StdVector T) =
     (if vector_is_FundamentalArgArrayType T then join [''['', type_sig T]
      else CompositeArgType_type_sig (class_name (StdVector T)))"
| "type_sig (StdFunction R Args) =
     join [''Lkotlin/jvm/functions/Function'', integer_to_digits (length Args), '';'']"
| "type_sig T = CompositeArgType_type_sig (class_name T)"

section \<open>Signature derivation\<close>

text \<open>
  A parameter of a function pointer is declared with a type and a way of passing it:
  \<open>T\<close>, \<open>const T\<close>, \<open>T&\<close>, \<open>const T&\<close> or \<open>T&&\<close>. \<open>std::decay_t\<close> removes the reference and the
  \<open>const\<close> before \<open>ArgType\<close> is consulted.
\<close>

datatype passing = ByValue | ByConstValue | ByReference | ByConstReference | ByRvalueReference

datatype arg_type = Parameter (passing: passing) (parameter_type: cpp_type)

fun decay_t :: "arg_type \<Rightarrow> cpp_type" where
  "decay_t (Parameter p T) = T"

text \<open>
  The four shapes \<open>Function\<close> is specialised for: the function type \<open>R(Args...)\<close>, the free
  function pointer \<open>R(*)(Args...)\<close>, the member function pointer \<open>R(T::*)(Args...)\<close> and the
  const-qualified member function pointer \<open>R(T::*)(Args...) const\<close>.
\<close>

datatype callable =
    FunctionType cpp_type "cpp_type list"
  | FreeFunctionPointer cpp_type "arg_type list"
  | MemberFunctionPointer cpp_type cpp_type "arg_type list"
  | ConstMemberFunctionPointer cpp_type cpp_type "arg_type list"

text \<open>\<open>callable_sig<param_sig, return_sig>\<close>.\<close>

definition callable_sig :: "string \<Rightarrow> string \<Rightarrow> string" where
  "callable_sig param_sig return_sig = join [''('', param_sig, '')'', return_sig]"

text \<open>
  \<open>Function<R(Args...)>::signature\<close>, the primary specialisation:
  \<open>param_sig = join_v<ArgType<Args>::type_sig...>\<close>, \<open>return_sig = ArgType<R>::type_sig\<close>.
\<close>

definition Function_type_signature :: "cpp_type \<Rightarrow> cpp_type list \<Rightarrow> string" where
  "Function_type_signature R Args = callable_sig (join (map type_sig Args)) (type_sig R)"

text \<open>
  \<open>Function<...>::signature\<close>, one equation per specialisation; the three pointer
  specialisations delegate to \<open>Function<R(std::decay_t<Args>...)>\<close>.
\<close>

fun Function_signature :: "callable \<Rightarrow> string" where
  "Function_signature (FunctionType R Args) = Function_type_signature R Args"
| "Function_signature (FreeFunctionPointer R Args) =
     Function_type_signature R (map decay_t Args)"
| "Function_signature (MemberFunctionPointer T R Args) =
     Function_type_signature R (map decay_t Args)"
| "Function_signature (ConstMemberFunctionPointer T R Args) =
     Function_type_signature R (map decay_t Args)"

section \<open>The per-thread execution context\<close>

text \<open>
  \<open>struct Environment\<close> has the static member \<open>_vm\<close> (shared by all threads) and the
  members \<open>_env\<close> and \<open>_attached\<close> of the \<open>thread_local\<close> instance \<open>this_thread\<close>.
  A pointer is an \<open>option\<close>, \<open>None\<close> being \<open>nullptr\<close>. The state below is what one thread
  sees: the three members, the Java VM's own record of whether and by whom the thread is
  attached, and the number of \<open>DetachCurrentThread\<close> calls made so far.
\<close>

datatype attachment = Detached | AttachedByHost | AttachedByNative

record Environment =
  Environment_vm :: "nat option"
  Environment_env :: "nat option"
  Environment_attached :: bool
  jvm_thread :: attachment
  detach_calls :: nat

text \<open>
  A \<open>JavaVM*\<close> and what the Java VM answers for the thread: the \<open>JNIEnv\<close> pointer it hands out, whether
  it supports \<open>JNI_VERSION_1_6\<close>, and whether \<open>AttachCurrentThread\<close> succeeds.
\<close>

record JavaVM =
  handle :: nat
  thread_env :: nat
  version_supported :: bool
  attach_succeeds :: bool

definition JNI_OK :: int where "JNI_OK = 0"
definition JNI_ERR :: int where "JNI_ERR = - 1"
definition JNI_EDETACHED :: int where "JNI_EDETACHED = - 2"
definition JNI_EVERSION :: int where "JNI_EVERSION = - 3"
definition JNI_VERSION_1_6 :: int where "JNI_VERSION_1_6 = 65542"

text \<open>
  \<open>JavaVM::GetEnv\<close>, as the JNI specification describes it: \<open>JNI_EDETACHED\<close> for a thread
  that is not attached, \<open>JNI_EVERSION\<close> for an unsupported version, otherwise \<open>JNI_OK\<close>
  and the thread's environment.
\<close>

definition GetEnv :: "JavaVM \<Rightarrow> Environment \<Rightarrow> int \<times> nat option" where
  "GetEnv jvm s =
     (if jvm_thread s = Detached then (JNI_EDETACHED, None)
      else if \<not> version_supported jvm then (JNI_EVERSION, None)
      else (JNI_OK, Some (thread_env jvm)))"

text \<open>
  \<open>JavaVM::AttachCurrentThread\<close>: on success the VM records the thread as attached by
  native code; a thread that is attached already stays as it is.
\<close>

definition AttachCurrentThread :: "JavaVM \<Rightarrow> Environment \<Rightarrow> (int \<times> nat option) \<times> Environment" where
  "AttachCurrentThread jvm s =
     (if attach_succeeds jvm
      then ((JNI_OK, Some (thread_env jvm)),
            (if jvm_thread s = Detached then s\<lparr>jvm_thread := AttachedByNative\<rparr> else s))
      else ((JNI_ERR, None), s))"

definition DetachCurrentThread :: "Environment \<Rightarrow> Environment" where
  "DetachCurrentThread s = s\<lparr>jvm_thread := Detached, detach_calls := detach_calls s + 1\<rparr>"

text \<open>
  The member functions. A failed \<open>assert\<close> aborts the process: the result is \<open>None\<close>.
\<close>

definition load :: "nat \<Rightarrow> Environment \<Rightarrow> Environment option" where
  "load v s = (if Environment_vm s \<noteq> None then None else Some (s\<lparr>Environment_vm := Some v\<rparr>))"

definition unload :: "nat \<Rightarrow> Environment \<Rightarrow> Environment option" where
  "unload v s = (if Environment_vm s = None then None else Some (s\<lparr>Environment_vm := None\<rparr>))"

definition setEnv :: "nat \<Rightarrow> Environment \<Rightarrow> Environment option" where
  "setEnv e s =
     (if Environment_vm s = None then None
      else if \<not> (Environment_env s = None \<or> Environment_env s = Some e) then None
      else Some (s\<lparr>Environment_env := Some e\<rparr>))"

definition getEnv :: "JavaVM \<Rightarrow> Environment \<Rightarrow> (nat option \<times> Environment) option" where
  "getEnv jvm s =
     (if Environment_vm s = None then None
      else if Environment_env s = None then
        (case GetEnv jvm s of (rc, e) \<Rightarrow>
           if rc = JNI_OK then Some (e, s\<lparr>Environment_env := e\<rparr>)
           else if rc = JNI_EDETACHED then
             (case AttachCurrentThread jvm s of ((rc', e'), s') \<Rightarrow>
                if rc' = JNI_OK then
                  (if e' = None then None
                   else Some (e', s'\<lparr>Environment_env := e', Environment_attached := True\<rparr>))
                else Some (None, s'))
           else Some (None, s))
      else Some (Environment_env s, s))"

text \<open>\<open>~Environment\<close>, run when the thread terminates.\<close>

definition Environment_destructor :: "Environment \<Rightarrow> Environment" where
  "Environment_destructor s =
     (if Environment_env s = None then s
      else if Environment_vm s \<noteq> None \<and> Environment_attached s then DetachCurrentThread s
      else s)"

text \<open>
  What can happen to the context during the life of a thread: the library is loaded or
  unloaded (by any thread, \<open>_vm\<close> being static), the load routine stores the environment
  it was given, a callback or a reference deleter asks for the environment, or the host
  attaches the thread by its own means.
\<close>

datatype event = Load nat | Unload nat | SetEnv nat | GetEnvCall | HostAttach

fun step :: "JavaVM \<Rightarrow> event \<Rightarrow> Environment \<Rightarrow> Environment option" where
  "step jvm (Load v) s = load v s"
| "step jvm (Unload v) s = unload v s"
| "step jvm (SetEnv e) s = setEnv e s"
| "step jvm GetEnvCall s = map_option snd (getEnv jvm s)"
| "step jvm HostAttach s =
     Some (if jvm_thread s = Detached then s\<lparr>jvm_thread := AttachedByHost\<rparr> else s)"

fun run :: "JavaVM \<Rightarrow> event list \<Rightarrow> Environment \<Rightarrow> Environment option" where
  "run jvm [] s = Some s"
| "run jvm (e # es) s = (case step jvm e s of None \<Rightarrow> None | Some s' \<Rightarrow> run jvm es s')"

text \<open>A thread that this layer has not touched yet.\<close>

definition new_thread :: "nat option \<Rightarrow> bool \<Rightarrow> Environment" where
  "new_thread v host_attached =
     \<lparr>Environment_vm = v, Environment_env = None, Environment_attached = False,
      jvm_thread = (if host_attached then AttachedByHost else Detached),
      detach_calls = 0\<rparr>"

section \<open>Values on the two sides of the boundary\<close>

text \<open>
  Native values. An integer is the bit pattern of its width, a \<open>float\<close> or \<open>double\<close> the
  bit pattern of its IEEE encoding (the casts between \<open>float\<close> and \<open>jfloat\<close>, and between
  \<open>double\<close> and \<open>jdouble\<close>, are casts between the same type). A \<open>std::string\<close> is its
  bytes. A container is the list of its elements in iteration order; a \<open>struct\<close> declared
  as a data class is the list of its members, by member name. A \<open>std::function\<close> that
  wraps a Java callable is named by the reference it holds.
\<close>

datatype cvalue =
    CVoid
  | CBool bool
  | CInt8 "8 word"
  | CInt16 "16 word"
  | CInt32 "32 word"
  | CInt64 "64 word"
  | CFloat "32 word"
  | CDouble "64 word"
  | CString string
  | CSequence "cvalue list"
  | CSet "cvalue list"
  | CMap "(cvalue \<times> cvalue) list"
  | CStruct "(string \<times> cvalue) list"
  | CFunction nat

text \<open>
  Java values, by content. A \<open>java.lang.String\<close> is the byte sequence that
  \<open>GetStringUTFChars\<close> returns for it. A boxed primitive carries the name of its
  wrapper class. A set or a map carries the name of its concrete class and its elements
  in the order in which they were added. An object of a data class carries its class
  name and its fields, by name and signature. A holder of a native object is a reference
  (its \<open>nativePointer\<close> field is mutable and lives in the environment).
\<close>

datatype jvalue =
    JVoid
  | JNull
  | JBoolean "8 word"
  | JByte "8 word"
  | JChar "16 word"
  | JShort "16 word"
  | JInt "32 word"
  | JLong "64 word"
  | JFloat "32 word"
  | JDouble "64 word"
  | JBoxed string jvalue
  | JString string
  | JArray "jvalue list"
  | JArrayList "jvalue list"
  | JSet string "jvalue list"
  | JMap string "(jvalue \<times> jvalue) list"
  | JObject string "((string \<times> string) \<times> jvalue) list"
  | JHolder nat
  | JFunction nat

section \<open>The JNI environment\<close>

text \<open>
  A Java exception object: its identity, its class and the string that \<open>getMessage()\<close>
  returns; or, for an exception created without a message (\<open>RuntimeException()\<close>), its
  identity and its class, \<open>getMessage()\<close> returning null.
\<close>

datatype jthrowable =
    Throwable (identity: nat) (exception_class: string) (getMessage: string)
  | Throwable_without_message (identity: nat) (exception_class: string)

text \<open>A Java class, as far as the bridge looks at it: its instance fields and its native methods, each by name and signature.\<close>

record jclass =
  instance_fields :: "(string \<times> string) list"
  native_methods :: "(string \<times> string) list"

text \<open>
  The entry points that the registration functions produce: \<open>object_termination<T>()\<close> is
  \<open>DestroyObjectAdapter<T>::invoke\<close>, \<open>object_initialization<T>(types<Args...>)\<close> is
  \<open>CreateObjectAdapter<T, Args...>::invoke\<close>, and \<open>callable<T, func>(types<Args...>)\<close> is
  \<open>MemberAdapter<T, func, Args...>::invoke\<close> for a member function pointer and
  \<open>Adapter<func, Args...>::invoke\<close> otherwise. A function \<open>func\<close> is named by a number.
\<close>

datatype entry_point =
    DestroyObjectAdapter cpp_type
  | CreateObjectAdapter cpp_type "cpp_type list"
  | MemberAdapter cpp_type nat "arg_type list"
  | Adapter nat "arg_type list"

text \<open>\<open>JNINativeMethod\<close>: name, signature and entry point.\<close>

record JNINativeMethod =
  method_name :: string
  method_signature :: string
  fnPtr :: entry_point

text \<open>
  The JNI functions that create, read or write a Java object or invoke a Java method
  are recorded in a log, in the order in which they are called. Lookups of classes,
  methods and fields, and the release of local references, are not recorded.
  \<open>GetField\<close> and \<open>SetField\<close> are the accesses to a field of a holder of a native object, by
  the name of the field; \<open>GetFieldOf\<close> and \<open>SetFieldOf\<close> are the accesses
  (\<open>Get<Type>Field\<close>, \<open>Set<Type>Field\<close>) to a field of an object of a data class, by the class
  of the object and the name of the field.
\<close>

datatype jni_call =
    CallMethod string
  | CallStaticMethod string string
  | NewObject string
  | AllocObject string
  | NewArray nat
  | SetArrayRegion nat
  | GetArrayLength
  | GetArrayRegion nat
  | NewStringUTF
  | GetStringUTFLength
  | GetStringUTFChars
  | GetField string
  | SetField string
  | GetFieldOf string string
  | SetFieldOf string string

text \<open>
  The state behind a \<open>JNIEnv*\<close>: the pending exception, the identity of the next object
  the VM creates, the classes the class loader resolves, the \<open>nativePointer\<close> field of
  every holder object (\<open>None\<close> for an object whose class has no such field), the native
  methods registered so far, the negative code that \<open>RegisterNatives\<close> returns when it
  fails, whether the VM has run out of memory, the order in which an iterator of a Java
  collection of \<open>n\<close> elements visits them (as positions in the order of insertion), and
  the log of calls. \<open>malformed_string\<close> is what this VM makes of a byte sequence that is not
  modified UTF-8 when it is asked to create a string from it (the JNI specification does
  not say), given as the modified UTF-8 encoding of the string created.
  \<open>argument_order\<close> belongs to the compiled native code rather than to the VM: the order
  in which the \<open>n\<close> arguments of a call are evaluated, as positions; C++ leaves it
  unspecified.
  The native heap is threaded with it: \<open>deleted\<close> lists the pointers that \<open>delete\<close> has
  been applied to, in order (a null pointer is not listed, \<open>delete nullptr\<close> does nothing).
\<close>

record JNIEnv =
  pending :: "jthrowable option"
  next_identity :: nat
  classes :: "string \<Rightarrow> jclass option"
  nativePointer :: "nat \<Rightarrow> 64 word option"
  registered :: "(string \<times> JNINativeMethod list) list"
  RegisterNatives_failure :: int
  out_of_memory :: bool
  iteration_order :: "nat \<Rightarrow> nat list"
  calls :: "jni_call list"
  deleted :: "64 word list"
  malformed_string :: "string \<Rightarrow> string"
  argument_order :: "nat \<Rightarrow> nat list"

subsection \<open>Native exceptions\<close>

text \<open>\<open>struct JavaException\<close>: the members \<open>ex\<close> and \<open>message\<close>.\<close>

record JavaException =
  ex :: "jthrowable option"
  message :: string

text \<open>
  What a \<open>throw\<close> can carry as far as the \<open>catch\<close> clauses of the adapters tell apart: a
  \<open>JavaException\<close>, another exception deriving from \<open>std::exception\<close> (with its \<open>what()\<close>),
  or an object of another type. \<open>Undefined_behaviour\<close> is not thrown: it stands for a
  computation that has executed an operation whose behaviour C++ or the JNI specification
  leaves undefined (here: a null reference passed to \<open>GetStringUTFChars\<close>). No \<open>catch\<close>
  clause applies to it and nothing is known of what follows.
\<close>

datatype cpp_exception =
    ThrownJavaException JavaException
  | ThrownStdException string
  | ThrownOther
  | Undefined_behaviour

text \<open>
  A native computation takes the environment and either returns a value or throws; the
  environment it leaves behind is returned in both cases.
\<close>

type_synonym 'a jni = "JNIEnv \<Rightarrow> (cpp_exception + 'a) \<times> JNIEnv"

definition jni_return :: "'a \<Rightarrow> 'a jni" where
  "jni_return x = (\<lambda>env. (Inr x, env))"

definition jni_throw :: "cpp_exception \<Rightarrow> 'a jni" where
  "jni_throw e = (\<lambda>env. (Inl e, env))"

definition jni_bind :: "'a jni \<Rightarrow> ('a \<Rightarrow> 'b jni) \<Rightarrow> 'b jni" where
  "jni_bind m f = (\<lambda>env. case m env of (Inl e, env') \<Rightarrow> (Inl e, env') | (Inr x, env') \<Rightarrow> f x env')"

definition jni_log :: "jni_call \<Rightarrow> unit jni" where
  "jni_log c = (\<lambda>env. (Inr (), env\<lparr>calls := calls env @ [c]\<rparr>))"

text \<open>A loop over a list whose body updates a local variable and may throw.\<close>

fun jni_foldl :: "('s \<Rightarrow> 'a \<Rightarrow> 's jni) \<Rightarrow> 's \<Rightarrow> 'a list \<Rightarrow> 's jni" where
  "jni_foldl body s [] = jni_return s"
| "jni_foldl body s (x # xs) = jni_bind (body s x) (\<lambda>s'. jni_foldl body s' xs)"

subsection \<open>JNI functions on exceptions and classes\<close>

definition ExceptionCheck :: "JNIEnv \<Rightarrow> bool" where
  "ExceptionCheck env = (pending env \<noteq> None)"

definition ExceptionOccurred :: "JNIEnv \<Rightarrow> jthrowable option" where
  "ExceptionOccurred env = pending env"

definition ExceptionClear :: "JNIEnv \<Rightarrow> JNIEnv" where
  "ExceptionClear env = env\<lparr>pending := None\<rparr>"

text \<open>
  \<open>Throw\<close> makes the given exception object pending. The JNI specification does not say
  what \<open>Throw(NULL)\<close> does; the model leaves the environment as it is.
\<close>

definition Throw :: "jthrowable option \<Rightarrow> JNIEnv \<Rightarrow> JNIEnv" where
  "Throw obj env = (case obj of None \<Rightarrow> env | Some e \<Rightarrow> env\<lparr>pending := Some e\<rparr>)"

text \<open>The VM raises an exception of its own: a new object of the given class becomes pending.\<close>

definition raise :: "string \<Rightarrow> string \<Rightarrow> JNIEnv \<Rightarrow> JNIEnv" where
  "raise cls msg env =
     env\<lparr>pending := Some (Throwable (next_identity env) cls msg),
         next_identity := next_identity env + 1\<rparr>"

definition ThrowNew :: "string \<Rightarrow> string \<Rightarrow> JNIEnv \<Rightarrow> JNIEnv" where
  "ThrowNew cls msg env = raise cls msg env"

text \<open>\<open>FindClass\<close>: the class (named by its name) or null with a pending \<open>NoClassDefFoundError\<close>.\<close>

definition FindClass :: "string \<Rightarrow> JNIEnv \<Rightarrow> string option \<times> JNIEnv" where
  "FindClass name env =
     (case classes env name of
        None \<Rightarrow> (None, raise ''java/lang/NoClassDefFoundError'' name env)
      | Some c \<Rightarrow> (Some name, env))"

text \<open>
  The constructor \<open>JavaException(JNIEnv*)\<close>: when an exception is pending it keeps a
  reference to it, clears it, calls \<open>getMessage()\<close> on it and copies the characters that
  \<open>GetStringUTFChars\<close> returns for the result; otherwise both members keep their initial
  values. The result of \<open>getMessage()\<close> is passed to \<open>GetStringUTFChars\<close> as it is: when it is
  null the behaviour is undefined.
\<close>

definition JavaException_ctor :: "JavaException jni" where
  "JavaException_ctor = (\<lambda>env.
     if ExceptionCheck env then
       (case ExceptionOccurred env of
          Some (Throwable i c m) \<Rightarrow>
            (Inr \<lparr>ex = Some (Throwable i c m), message = m\<rparr>,
             (ExceptionClear env)\<lparr>calls := calls env @ [CallMethod ''getMessage'', GetStringUTFChars]\<rparr>)
        | Some (Throwable_without_message i c) \<Rightarrow>
            (Inl Undefined_behaviour,
             (ExceptionClear env)\<lparr>calls := calls env @ [CallMethod ''getMessage'']\<rparr>)
        | None \<Rightarrow> (Inr \<lparr>ex = None, message = []\<rparr>, ExceptionClear env))
     else (Inr \<lparr>ex = None, message = []\<rparr>, env))"

definition innerException :: "JavaException \<Rightarrow> jthrowable option" where
  "innerException w = ex w"

definition what :: "JavaException \<Rightarrow> string" where
  "what w = message w"

text \<open>\<open>throw JavaException(env)\<close>.\<close>

definition throw_JavaException :: "'a jni" where
  "throw_JavaException = (\<lambda>env.
     case JavaException_ctor env of
       (Inr w, env') \<Rightarrow> (Inl (ThrownJavaException w), env')
     | (Inl undefined_behaviour, env') \<Rightarrow> (Inl undefined_behaviour, env'))"

text \<open>The constructor \<open>LocalClassRef(env, name)\<close>, which throws when the class is not found.\<close>

definition LocalClassRef :: "string \<Rightarrow> string jni" where
  "LocalClassRef name = (\<lambda>env. case FindClass name env of
       (None, env') \<Rightarrow> throw_JavaException env'
     | (Some cls, env') \<Rightarrow> (Inr cls, env'))"

text \<open>\<open>exception_handler\<close>: converts a native exception into a Java exception.\<close>

definition exception_handler :: "string \<Rightarrow> unit jni" where
  "exception_handler ex_what = (\<lambda>env.
     if \<not> ExceptionCheck env then
       (case LocalClassRef ''java/lang/Exception'' env of
          (Inl e, env') \<Rightarrow> (Inl e, env')
        | (Inr cls, env') \<Rightarrow> (Inr (), ThrowNew cls ex_what env'))
     else (Inr (), env))"

section \<open>Call adapters\<close>

text \<open>
  The members of a specialisation of \<open>ArgType<T>\<close> that the adapters and the container
  conversions use: the four conversion functions and the value \<open>java_t<T>()\<close>.
\<close>

record ArgType =
  native_value :: "jvalue \<Rightarrow> cvalue jni"
  java_value :: "cvalue \<Rightarrow> jvalue jni"
  java_box :: "jvalue \<Rightarrow> jvalue jni"
  java_unbox :: "jvalue \<Rightarrow> jvalue jni"
  java_default :: jvalue

text \<open>
  The arguments of the call \<open>func(ArgType<std::decay_t<Args>>::native_value(env, args)...)\<close>:
  each is converted once, in the order in which the compiled code evaluates them, and
  takes its position in the argument list. (Before the first conversion the list holds
  placeholders; every one of them is replaced when the order visits every position.)
\<close>

definition convert_arguments :: "ArgType list \<Rightarrow> jvalue list \<Rightarrow> cvalue list jni" where
  "convert_arguments Args args = (\<lambda>env.
     jni_foldl (\<lambda>native_args i.
                  jni_bind (native_value (Args ! i) (args ! i)) (\<lambda>v.
                  jni_return (native_args[i := v])))
               (replicate (length args) CVoid) (argument_order env (length args)) env)"

text \<open>
  The \<open>try\<close> block of \<open>Adapter<func, Args...>::invoke\<close>. \<open>Args\<close> are the specialisations
  for the decayed parameter types, \<open>result_type\<close> the one for the result type, \<open>None\<close>
  when the result type is \<open>void\<close>.
\<close>

definition Adapter_try ::
  "(cvalue list \<Rightarrow> cvalue jni) \<Rightarrow> ArgType list \<Rightarrow> ArgType option \<Rightarrow> jvalue list \<Rightarrow> jvalue jni" where
  "Adapter_try func Args result_type args =
     (case result_type of
        Some R \<Rightarrow>
          jni_bind (convert_arguments Args args) (\<lambda>native_args.
          jni_bind (func native_args) (\<lambda>result.
          java_value R result))
      | None \<Rightarrow>
          jni_bind (convert_arguments Args args) (\<lambda>native_args.
          jni_bind (func native_args) (\<lambda>result.
          jni_return JVoid)))"

text \<open>\<open>java_t<result_type>()\<close>, the value returned after an exception was caught.\<close>

definition default_result :: "ArgType option \<Rightarrow> jvalue" where
  "default_result result_type = (case result_type of Some R \<Rightarrow> java_default R | None \<Rightarrow> JVoid)"

text \<open>
  The two \<open>catch\<close> clauses shared by the adapters, in their order: \<open>JavaException&\<close>
  first, \<open>std::exception&\<close> second. An exception of another type is not caught, and
  undefined behaviour stays what it is.
\<close>

definition Adapter_catch :: "jvalue \<Rightarrow> jvalue jni \<Rightarrow> jvalue jni" where
  "Adapter_catch dflt body = (\<lambda>env.
     case body env of
       (Inr v, env') \<Rightarrow> (Inr v, env')
     | (Inl (ThrownJavaException w), env') \<Rightarrow> (Inr dflt, Throw (innerException w) env')
     | (Inl (ThrownStdException ex_what), env') \<Rightarrow>
         (case exception_handler ex_what env' of
            (Inl e, env'') \<Rightarrow> (Inl e, env'')
          | (Inr u, env'') \<Rightarrow> (Inr dflt, env''))
     | (Inl ThrownOther, env') \<Rightarrow> (Inl ThrownOther, env')
     | (Inl Undefined_behaviour, env') \<Rightarrow> (Inl Undefined_behaviour, env'))"

text \<open>\<open>Adapter<func, Args...>::invoke\<close>.\<close>

definition Adapter_invoke ::
  "(cvalue list \<Rightarrow> cvalue jni) \<Rightarrow> ArgType list \<Rightarrow> ArgType option \<Rightarrow> jvalue list \<Rightarrow> jvalue jni" where
  "Adapter_invoke func Args result_type args =
     Adapter_catch (default_result result_type) (Adapter_try func Args result_type args)"

text \<open>
  The lookup of the opaque handle that the member, create and destroy adapters share:
  \<open>cls.getField("nativePointer", ArgType<T*>::type_sig)\<close>, which throws when the
  class of the object has no such field, and \<open>ArgType<T*>::native_field_value\<close>, which
  reads it.
\<close>

definition getField_nativePointer :: "nat \<Rightarrow> unit jni" where
  "getField_nativePointer obj = (\<lambda>env.
     case nativePointer env obj of
       None \<Rightarrow> throw_JavaException (raise ''java/lang/NoSuchFieldError'' ''nativePointer'' env)
     | Some p \<Rightarrow> (Inr (), env))"

definition pointer_native_field_value :: "nat \<Rightarrow> 64 word jni" where
  "pointer_native_field_value obj = (\<lambda>env.
     (Inr (the (nativePointer env obj)), env\<lparr>calls := calls env @ [GetField ''nativePointer'']\<rparr>))"

definition pointer_java_field_value :: "nat \<Rightarrow> 64 word \<Rightarrow> unit jni" where
  "pointer_java_field_value obj p = (\<lambda>env.
     (Inr (), env\<lparr>nativePointer := (nativePointer env)(obj := Some p),
                  calls := calls env @ [SetField ''nativePointer'']\<rparr>))"

text \<open>
  \<open>MemberAdapter<T, func, Args...>::invoke\<close>. \<open>T_class_name\<close> is \<open>ArgType<T>::class_name\<close>;
  \<open>func\<close> receives the pointer to the instance and the converted arguments.
\<close>

definition disposed_message :: "string \<Rightarrow> string" where
  "disposed_message T_class_name = ''Object '' @ T_class_name @ '' has already been disposed of.''"

definition MemberAdapter_try ::
  "string \<Rightarrow> (64 word \<Rightarrow> cvalue list \<Rightarrow> cvalue jni) \<Rightarrow> ArgType list \<Rightarrow> ArgType option
     \<Rightarrow> nat \<Rightarrow> jvalue list \<Rightarrow> jvalue jni" where
  "MemberAdapter_try T_class_name func Args result_type obj args =
     jni_bind (getField_nativePointer obj) (\<lambda>field.
     jni_bind (pointer_native_field_value obj) (\<lambda>ptr.
       if ptr = 0 then jni_throw (ThrownStdException (disposed_message T_class_name))
       else Adapter_try (func ptr) Args result_type args))"

definition MemberAdapter_invoke ::
  "string \<Rightarrow> (64 word \<Rightarrow> cvalue list \<Rightarrow> cvalue jni) \<Rightarrow> ArgType list \<Rightarrow> ArgType option
     \<Rightarrow> nat \<Rightarrow> jvalue list \<Rightarrow> jvalue jni" where
  "MemberAdapter_invoke T_class_name func Args result_type obj args =
     Adapter_catch (default_result result_type)
       (MemberAdapter_try T_class_name func Args result_type obj args)"

text \<open>\<open>delete ptr\<close>.\<close>

definition delete :: "64 word \<Rightarrow> unit jni" where
  "delete ptr = (\<lambda>env. (Inr (), if ptr = 0 then env else env\<lparr>deleted := deleted env @ [ptr]\<rparr>))"

text \<open>\<open>DestroyObjectAdapter<T>::invoke\<close>, bound to \<open>close()\<close>.\<close>

definition DestroyObjectAdapter_invoke :: "nat \<Rightarrow> jvalue jni" where
  "DestroyObjectAdapter_invoke obj =
     Adapter_catch JVoid
       (jni_bind (getField_nativePointer obj) (\<lambda>field.
        jni_bind (pointer_native_field_value obj) (\<lambda>ptr.
        jni_bind (delete ptr) (\<lambda>u.
        jni_bind (pointer_java_field_value obj 0) (\<lambda>u.
        jni_return JVoid)))))"

text \<open>
  \<open>ArgType<std::function<R(Args...)>>::java_value\<close>, and the other members of that
  specialisation that an adapter reads. \<open>native_value\<close> hands the reference to the Java
  callable to the native closure it builds.
\<close>

definition Function_java_value :: "cvalue \<Rightarrow> jvalue jni" where
  "Function_java_value v =
     jni_throw (ThrownStdException
       ''C++ functions returning a function object to Java/Kotlin are not supported.'')"

definition Function_native_value :: "jvalue \<Rightarrow> cvalue jni" where
  "Function_native_value v = (case v of JFunction f \<Rightarrow> jni_return (CFunction f))"

definition Function_ArgType :: "ArgType" where
  "Function_ArgType =
     \<lparr>native_value = Function_native_value, java_value = Function_java_value,
      java_box = jni_return, java_unbox = jni_return, java_default = JNull\<rparr>"

text \<open>
  The classes of the Java library that the bridge looks up by name.
\<close>

definition bootstrap_classes :: "string list" where
  "bootstrap_classes =
     [''java/lang/Exception'', ''java/lang/Boolean'', ''java/lang/Byte'', ''java/lang/Character'',
      ''java/lang/Short'', ''java/lang/Integer'', ''java/lang/Long'', ''java/lang/Float'',
      ''java/lang/Double'', ''java/util/ArrayList'', ''java/util/HashSet'', ''java/util/TreeSet'',
      ''java/util/HashMap'', ''java/util/TreeMap'', ''java/util/Set'', ''java/util/Iterator'',
      ''java/util/Map$Entry'']"

text \<open>An environment with nothing pending and nothing registered, for the examples.\<close>

definition example_env :: "JNIEnv" where
  "example_env =
     \<lparr>pending = None, next_identity = 100,
      classes = (\<lambda>n. if n \<in> set bootstrap_classes then Some \<lparr>instance_fields = [], native_methods = []\<rparr> else None),
      nativePointer = (\<lambda>obj. if obj = 1 then Some 4096 else None),
      registered = [], RegisterNatives_failure = - 1, out_of_memory = False,
      iteration_order = (\<lambda>n. rev [0..<n]), calls = [],
      deleted = [], malformed_string = (\<lambda>bytes. []),
      argument_order = (\<lambda>n. rev [0..<n])\<rparr>"

section \<open>The binding registry\<close>

text \<open>
  \<open>struct FunctionBinding\<close> (the member \<open>friendly_signature\<close>, read only by the
  pretty-printer, is left out) and \<open>struct FieldBinding\<close>. The members \<open>name\<close> and
  \<open>signature\<close> are views. A signature is a view of an array that \<open>to_char_array\<close> has
  closed with a zero byte, and the name of a field or of a class is a view made of a
  \<open>const char*\<close> or of a string literal: for these \<open>data()\<close> read as a zero-terminated string is
  the view itself, and the model keeps them as strings. The name of a function is a view
  that the caller of \<open>constructor\<close> passes as it likes. A \<open>Field\<close> is the name and the
  signature it was looked up with. \<open>get_by_value\<close> stores a member of the native object
  into a field of the Java object and \<open>set_by_value\<close> stores a field of the Java object
  into a member of the native object; each returns the object it has written to.
\<close>

record FunctionBinding =
  function_name :: string_view
  function_signature :: string
  is_member :: bool
  function_entry_point :: entry_point

record FieldBinding =
  field_name :: string
  field_signature :: string
  get_by_value :: "jvalue \<Rightarrow> string \<times> string \<Rightarrow> cvalue \<Rightarrow> jvalue jni"
  set_by_value :: "jvalue \<Rightarrow> string \<times> string \<Rightarrow> cvalue \<Rightarrow> cvalue jni"

text \<open>
  \<open>FunctionBindings::value\<close> and \<open>FieldBindings::value\<close> are of type
  \<open>std::map<std::string_view, std::vector<...>>\<close>: a list of entries in ascending order of
  the keys, which is the order in which the map is iterated.
\<close>

record Bindings =
  FunctionBindings :: "(string \<times> FunctionBinding list) list"
  FieldBindings :: "(string \<times> FieldBinding list) list"

text \<open>\<open>value[key].push_back(b)\<close>: \<open>operator[]\<close> inserts an empty vector for a new key.\<close>

fun push_back :: "string \<Rightarrow> 'a \<Rightarrow> (string \<times> 'a list) list \<Rightarrow> (string \<times> 'a list) list" where
  "push_back key b [] = [(key, [b])]"
| "push_back key b ((k, bs) # rest) =
     (if key = k then (k, bs @ [b]) # rest
      else if key < k then (key, [b]) # (k, bs) # rest
      else (k, bs) # push_back key b rest)"

text \<open>\<open>value[key]\<close> when read: the vector stored for the key, empty for a new key.\<close>

definition bindings_of :: "string \<Rightarrow> (string \<times> 'a list) list \<Rightarrow> 'a list" where
  "bindings_of key m = (case map_of m key of None \<Rightarrow> [] | Some bs \<Rightarrow> bs)"

text \<open>
  The constructor of \<open>native_class<T>\<close> and its member functions \<open>constructor<F>\<close>
  and \<open>function<func>\<close> (\<open>function\<close> is a keyword of Isabelle, hence the prefix).
  \<open>constructor\<close> takes the name as a \<open>std::string_view\<close>, \<open>function\<close> as a \<open>const char*\<close>.
\<close>

definition native_class :: "cpp_type \<Rightarrow> Bindings \<Rightarrow> Bindings" where
  "native_class T b =
     b\<lparr>FunctionBindings := push_back (class_name T)
          \<lparr>function_name = string_view_of ''close'',
           function_signature = Function_signature (FunctionType Void []),
           is_member = True,
           function_entry_point = DestroyObjectAdapter T\<rparr>
          (FunctionBindings b)\<rparr>"

fun native_class_constructor :: "cpp_type \<Rightarrow> callable \<Rightarrow> string_view \<Rightarrow> Bindings \<Rightarrow> Bindings" where
  "native_class_constructor T (FunctionType R Args) name b =
     b\<lparr>FunctionBindings := push_back (class_name T)
          \<lparr>function_name = name,
           function_signature = Function_signature (FunctionType R Args),
           is_member = False,
           function_entry_point = CreateObjectAdapter T Args\<rparr>
          (FunctionBindings b)\<rparr>"

fun native_class_function :: "cpp_type \<Rightarrow> nat \<Rightarrow> callable \<Rightarrow> string \<Rightarrow> Bindings \<Rightarrow> Bindings" where
  "native_class_function T func (FreeFunctionPointer R Args) name b =
     b\<lparr>FunctionBindings := push_back (class_name T)
          \<lparr>function_name = string_view_of name,
           function_signature = Function_signature (FreeFunctionPointer R Args),
           is_member = False,
           function_entry_point = Adapter func Args\<rparr>
          (FunctionBindings b)\<rparr>"
| "native_class_function T func (MemberFunctionPointer T' R Args) name b =
     b\<lparr>FunctionBindings := push_back (class_name T)
          \<lparr>function_name = string_view_of name,
           function_signature = Function_signature (MemberFunctionPointer T' R Args),
           is_member = True,
           function_entry_point = MemberAdapter T func Args\<rparr>
          (FunctionBindings b)\<rparr>"
| "native_class_function T func (ConstMemberFunctionPointer T' R Args) name b =
     b\<lparr>FunctionBindings := push_back (class_name T)
          \<lparr>function_name = string_view_of name,
           function_signature = Function_signature (ConstMemberFunctionPointer T' R Args),
           is_member = True,
           function_entry_point = MemberAdapter T func Args\<rparr>
          (FunctionBindings b)\<rparr>"

section \<open>The load entry point\<close>

text \<open>
  \<open>RegisterNatives\<close>: the methods are registered when the class declares each of them as
  a native method with that name and signature; otherwise nothing is registered, a
  \<open>NoSuchMethodError\<close> is pending and the result is negative.
\<close>

definition RegisterNatives :: "string \<Rightarrow> JNINativeMethod list \<Rightarrow> JNIEnv \<Rightarrow> int \<times> JNIEnv" where
  "RegisterNatives cls methods env =
     (case classes env cls of
        None \<Rightarrow> (RegisterNatives_failure env, raise ''java/lang/NoSuchMethodError'' cls env)
      | Some c \<Rightarrow>
          if list_all (\<lambda>m. (method_name m, method_signature m) \<in> set (native_methods c)) methods
          then (JNI_OK, env\<lparr>registered := registered env @ [(cls, methods)]\<rparr>)
          else (RegisterNatives_failure env, raise ''java/lang/NoSuchMethodError'' cls env))"

text \<open>\<open>GetFieldID\<close>: the field, or null with a pending \<open>NoSuchFieldError\<close>.\<close>

definition GetFieldID :: "string \<Rightarrow> string \<Rightarrow> string \<Rightarrow> JNIEnv \<Rightarrow> (string \<times> string) option \<times> JNIEnv" where
  "GetFieldID cls name sig env =
     (case classes env cls of
        None \<Rightarrow> (None, raise ''java/lang/NoSuchFieldError'' name env)
      | Some c \<Rightarrow>
          if (name, sig) \<in> set (instance_fields c) then (Some (name, sig), env)
          else (None, raise ''java/lang/NoSuchFieldError'' name env))"

text \<open>\<open>throw_exception\<close>.\<close>

definition throw_exception :: "string \<Rightarrow> unit jni" where
  "throw_exception reason = (\<lambda>env.
     let env1 = (if ExceptionCheck env then ExceptionClear env else env)
     in case LocalClassRef ''java/lang/Exception'' env1 of
          (Inl e, env2) \<Rightarrow> (Inl e, env2)
        | (Inr exClass, env2) \<Rightarrow> (Inr (), ThrowNew exClass reason env2))"

text \<open>
  The lambda passed to \<open>std::transform\<close>: a \<open>JNINativeMethod\<close> holds \<open>binding.name.data()\<close> and
  \<open>binding.signature.data()\<close>, which \<open>RegisterNatives\<close> reads as zero-terminated strings.
\<close>

definition to_JNINativeMethod :: "FunctionBinding \<Rightarrow> JNINativeMethod" where
  "to_JNINativeMethod binding =
     \<lparr>method_name = string_view_data (function_name binding),
      method_signature = function_signature binding,
      fnPtr = function_entry_point binding\<rparr>"

text \<open>
  The first loop of \<open>java_initialization_impl\<close>, over \<open>FunctionBindings::value\<close>. The result
  is \<open>Some rc\<close> when the loop executes \<open>return rc\<close> and \<open>None\<close> when it runs to its end.
\<close>

fun register_function_bindings :: "(string \<times> FunctionBinding list) list \<Rightarrow> int option jni" where
  "register_function_bindings [] = jni_return None"
| "register_function_bindings ((cname, bindings) # rest) = (\<lambda>env.
     case FindClass cname env of
       (None, env1) \<Rightarrow>
         jni_bind
           (throw_exception (''Cannot find class '' @ [CHR 0x27] @ cname @ [CHR 0x27]
              @ '' registered as a native class in C++ code''))
           (\<lambda>u. jni_return (Some JNI_ERR)) env1
     | (Some cls, env1) \<Rightarrow>
         (case RegisterNatives cls (map to_JNINativeMethod bindings) env1 of
            (rc, env2) \<Rightarrow>
              if rc \<noteq> JNI_OK then (Inr (Some rc), env2)
              else register_function_bindings rest env2))"

text \<open>The inner loop of the second loop: the fields of one class.\<close>

fun check_fields :: "string \<Rightarrow> string \<Rightarrow> FieldBinding list \<Rightarrow> int option jni" where
  "check_fields cname cls [] = jni_return None"
| "check_fields cname cls (binding # rest) = (\<lambda>env.
     case GetFieldID cls (field_name binding) (field_signature binding) env of
       (Some ref, env1) \<Rightarrow> check_fields cname cls rest env1
     | (None, env1) \<Rightarrow>
         jni_bind
           (throw_exception (''Cannot find field '' @ [CHR 0x27] @ field_name binding @ [CHR 0x27]
              @ '' with type signature '' @ [CHR 0x27] @ field_signature binding @ [CHR 0x27]
              @ '' in registered class '' @ [CHR 0x27] @ cname @ [CHR 0x27]))
           (\<lambda>u. jni_return (Some JNI_ERR)) env1)"

text \<open>The second loop, over \<open>FieldBindings::value\<close>.\<close>

fun check_field_bindings :: "(string \<times> FieldBinding list) list \<Rightarrow> int option jni" where
  "check_field_bindings [] = jni_return None"
| "check_field_bindings ((cname, bindings) # rest) = (\<lambda>env.
     case FindClass cname env of
       (None, env1) \<Rightarrow>
         jni_bind
           (throw_exception (''Cannot find class '' @ [CHR 0x27] @ cname @ [CHR 0x27]
              @ '' registered as a data class in C++ code''))
           (\<lambda>u. jni_return (Some JNI_ERR)) env1
     | (Some cls, env1) \<Rightarrow>
         (case check_fields cname cls bindings env1 of
            (Inl e, env2) \<Rightarrow> (Inl e, env2)
          | (Inr (Some rc), env2) \<Rightarrow> (Inr (Some rc), env2)
          | (Inr None, env2) \<Rightarrow> check_field_bindings rest env2))"

text \<open>
  The \<open>try\<close> block of \<open>java_initialization_impl\<close>. The initializer is user code: it changes
  the two registries (static members, which keep what was written to them when it
  throws), may call into the VM and may throw.
\<close>

type_synonym initializer = "Bindings \<Rightarrow> JNIEnv \<Rightarrow> (cpp_exception + unit) \<times> Bindings \<times> JNIEnv"

definition java_initialization_try ::
  "initializer \<Rightarrow> Bindings \<Rightarrow> JNIEnv \<Rightarrow> (cpp_exception + int option) \<times> Bindings \<times> JNIEnv" where
  "java_initialization_try initializer b0 env =
     (case initializer b0 env of
        (Inl x, b, env1) \<Rightarrow> (Inl x, b, env1)
      | (Inr u, b, env1) \<Rightarrow>
          (case register_function_bindings (FunctionBindings b) env1 of
             (Inl x, env2) \<Rightarrow> (Inl x, b, env2)
           | (Inr (Some rc), env2) \<Rightarrow> (Inr (Some rc), b, env2)
           | (Inr None, env2) \<Rightarrow>
               if ExceptionCheck env2 then (Inr (Some JNI_ERR), b, env2)
               else (case check_field_bindings (FieldBindings b) env2 of
                       (r, env3) \<Rightarrow> (r, b, env3))))"

text \<open>
  \<open>java_initialization_impl\<close>. The result is \<open>None\<close> when an \<open>assert\<close> of \<open>Environment\<close>
  fails, an exception that does not derive from \<open>std::exception\<close> leaves the function
  (the process does not survive either) or the behaviour is undefined; otherwise it is the returned code, the execution
  context of the loading thread, the registries and the environment.
\<close>

definition java_initialization_impl ::
  "JavaVM \<Rightarrow> initializer \<Rightarrow> Environment \<Rightarrow> Bindings \<Rightarrow> JNIEnv
     \<Rightarrow> (int \<times> Environment \<times> Bindings \<times> JNIEnv) option" where
  "java_initialization_impl jvm initializer s b0 env =
     (case GetEnv jvm s of (rc, e) \<Rightarrow>
        if rc \<noteq> JNI_OK then Some (rc, s, b0, env)
        else
          (case load (handle jvm) s of
             None \<Rightarrow> None
           | Some s1 \<Rightarrow>
               (case setEnv (thread_env jvm) s1 of
                  None \<Rightarrow> None
                | Some s2 \<Rightarrow>
                    (case java_initialization_try initializer b0 env of
                       (Inr (Some rc'), b, env') \<Rightarrow> Some (rc', s2, b, env')
                     | (Inr None, b, env') \<Rightarrow> Some (JNI_VERSION_1_6, s2, b, env')
                     | (Inl (ThrownJavaException w), b, env') \<Rightarrow> Some (JNI_ERR, s2, b, env')
                     | (Inl (ThrownStdException w), b, env') \<Rightarrow> Some (JNI_ERR, s2, b, env')
                     | (Inl ThrownOther, b, env') \<Rightarrow> None
                     | (Inl Undefined_behaviour, b, env') \<Rightarrow> None))))"

text \<open>\<open>java_termination_impl\<close>.\<close>

definition java_termination_impl :: "JavaVM \<Rightarrow> Environment \<Rightarrow> Environment option" where
  "java_termination_impl jvm s = unload (handle jvm) s"

section \<open>Value conversions\<close>

subsection \<open>Fundamental types\<close>

text \<open>The second template argument \<open>J\<close> of \<open>FundamentalArgType<T, J>\<close> for each fundamental type.\<close>

datatype jprimitive = jboolean | jbyte | jchar | jshort | jint | jlong | jfloat | jdouble

fun java_type :: "fundamental \<Rightarrow> jprimitive" where
  "java_type bool_t = jboolean"
| "java_type char_t = jbyte"
| "java_type signed_char_t = jbyte"
| "java_type unsigned_char_t = jbyte"
| "java_type uint16_t = jchar"
| "java_type short_t = jshort"
| "java_type float_t = jfloat"
| "java_type double_t = jdouble"
| "java_type T = (if sizeof T \<le> 4 then jint else jlong)"

text \<open>
  \<open>static_cast<J>(value)\<close> and \<open>static_cast<T>(value)\<close>. \<open>T\<close> and \<open>J\<close> have the same width in
  every specialisation, and a cast between integer types of one width keeps the bits;
  \<open>jboolean\<close> is an unsigned 8-bit integer.
\<close>

fun static_cast_to_java :: "jprimitive \<Rightarrow> cvalue \<Rightarrow> jvalue" where
  "static_cast_to_java jboolean (CBool b) = JBoolean (if b then 1 else 0)"
| "static_cast_to_java jbyte (CInt8 w) = JByte w"
| "static_cast_to_java jchar (CInt16 w) = JChar w"
| "static_cast_to_java jshort (CInt16 w) = JShort w"
| "static_cast_to_java jint (CInt32 w) = JInt w"
| "static_cast_to_java jlong (CInt64 w) = JLong w"
| "static_cast_to_java jfloat (CFloat w) = JFloat w"
| "static_cast_to_java jdouble (CDouble w) = JDouble w"

fun static_cast_to_native :: "jvalue \<Rightarrow> cvalue" where
  "static_cast_to_native (JBoolean w) = CBool (w \<noteq> 0)"
| "static_cast_to_native (JByte w) = CInt8 w"
| "static_cast_to_native (JChar w) = CInt16 w"
| "static_cast_to_native (JShort w) = CInt16 w"
| "static_cast_to_native (JInt w) = CInt32 w"
| "static_cast_to_native (JLong w) = CInt64 w"
| "static_cast_to_native (JFloat w) = CFloat w"
| "static_cast_to_native (JDouble w) = CDouble w"

text \<open>\<open>J()\<close>, the value-initialised Java primitive.\<close>

fun jprimitive_default :: "jprimitive \<Rightarrow> jvalue" where
  "jprimitive_default jboolean = JBoolean 0"
| "jprimitive_default jbyte = JByte 0"
| "jprimitive_default jchar = JChar 0"
| "jprimitive_default jshort = JShort 0"
| "jprimitive_default jint = JInt 0"
| "jprimitive_default jlong = JLong 0"
| "jprimitive_default jfloat = JFloat 0"
| "jprimitive_default jdouble = JDouble 0"

text \<open>
  \<open>FundamentalArgType<T, J>::java_box\<close> calls the static method \<open>valueOf\<close> of the wrapper
  class and \<open>java_unbox\<close> calls the method \<open>booleanValue\<close>, \<open>intValue\<close>, ... of the wrapper
  object. (The lookups of these methods of the Java library are taken to succeed.)
\<close>

definition Fundamental_java_box :: "fundamental \<Rightarrow> jvalue \<Rightarrow> jvalue jni" where
  "Fundamental_java_box T v =
     jni_bind (LocalClassRef (fundamental_class_name T)) (\<lambda>cls.
     jni_bind (jni_log (CallStaticMethod cls ''valueOf'')) (\<lambda>u.
     jni_return (JBoxed cls v)))"

definition Fundamental_java_unbox :: "fundamental \<Rightarrow> jvalue \<Rightarrow> jvalue jni" where
  "Fundamental_java_unbox T obj =
     (case obj of JBoxed cls v \<Rightarrow>
        jni_bind (jni_log (CallMethod (fundamental_primitive_type T @ ''Value''))) (\<lambda>u.
        jni_return v))"

definition FundamentalArgType :: "fundamental \<Rightarrow> ArgType" where
  "FundamentalArgType T =
     \<lparr>native_value = (\<lambda>v. jni_return (static_cast_to_native v)),
      java_value = (\<lambda>v. jni_return (static_cast_to_java (java_type T) v)),
      java_box = Fundamental_java_box T,
      java_unbox = Fundamental_java_unbox T,
      java_default = jprimitive_default (java_type T)\<rparr>"

subsection \<open>Strings\<close>

text \<open>
  A JNI function that creates an object returns it, or returns null with an
  \<open>OutOfMemoryError\<close> pending.
\<close>

definition allocate :: "jni_call \<Rightarrow> jvalue \<Rightarrow> jvalue jni" where
  "allocate c obj = (\<lambda>env.
     if out_of_memory env then (Inr JNull, raise ''java/lang/OutOfMemoryError'' [] env)
     else (Inr obj, env\<lparr>calls := calls env @ [c]\<rparr>))"

text \<open>
  Modified UTF-8, the encoding of the strings that JNI takes and returns: a code unit
  from 1 to 127 is one byte; the code unit 0 and those from 128 to 2047 are two bytes,
  \<open>110xxxxx 10xxxxxx\<close>; those from 2048 to 65535 (a surrogate is encoded by itself) are three
  bytes, \<open>1110xxxx 10xxxxxx 10xxxxxx\<close>. \<open>modified_utf8\<close> holds of the byte sequences that encode
  a sequence of code units in this way, each in its shortest form. They hold no zero byte
  and no byte from \<open>0xF0\<close> on: the four-byte sequences of standard UTF-8 are not among them.
\<close>

definition continuation_byte :: "char \<Rightarrow> bool" where
  "continuation_byte c = (0x80 \<le> (of_char c :: nat) \<and> (of_char c :: nat) < 0xC0)"

fun modified_utf8 :: "string \<Rightarrow> bool" where
  "modified_utf8 [] = True"
| "modified_utf8 (c # cs) =
     (if 1 \<le> (of_char c :: nat) \<and> (of_char c :: nat) < 0x80 then modified_utf8 cs
      else if 0xC0 \<le> (of_char c :: nat) \<and> (of_char c :: nat) < 0xE0 then
        (case cs of
           c1 # cs' \<Rightarrow>
             continuation_byte c1
             \<and> (0xC2 \<le> (of_char c :: nat) \<or> ((of_char c :: nat) = 0xC0 \<and> (of_char c1 :: nat) = 0x80))
             \<and> modified_utf8 cs'
         | [] \<Rightarrow> False)
      else if 0xE0 \<le> (of_char c :: nat) \<and> (of_char c :: nat) < 0xF0 then
        (case cs of
           c1 # c2 # cs' \<Rightarrow>
             continuation_byte c1 \<and> continuation_byte c2
             \<and> (0xE1 \<le> (of_char c :: nat) \<or> 0xA0 \<le> (of_char c1 :: nat))
             \<and> modified_utf8 cs'
         | _ \<Rightarrow> False)
      else False)"

text \<open>
  \<open>NewStringUTF\<close> reads a zero-terminated string. When the bytes are modified UTF-8 the
  string created is the one they encode, so they are what \<open>GetStringUTFChars\<close> returns for
  it; otherwise the string created is the VM's choice.
\<close>

definition NewStringUTF_string :: "JNIEnv \<Rightarrow> string \<Rightarrow> string" where
  "NewStringUTF_string env bytes =
     (if modified_utf8 (c_str bytes) then c_str bytes else malformed_string env (c_str bytes))"

text \<open>
  \<open>ArgType<std::string>::java_value\<close> passes \<open>value.data()\<close> to \<open>NewStringUTF\<close>.
  \<open>native_value\<close> copies \<open>GetStringUTFLength\<close> bytes out of \<open>GetStringUTFChars\<close>.
\<close>

definition String_java_value :: "cvalue \<Rightarrow> jvalue jni" where
  "String_java_value v =
     (case v of CString bytes \<Rightarrow> (\<lambda>env.
        allocate NewStringUTF (JString (NewStringUTF_string env bytes)) env))"

definition String_native_value :: "jvalue \<Rightarrow> cvalue jni" where
  "String_native_value v =
     (case v of JString bytes \<Rightarrow>
        jni_bind (jni_log GetStringUTFLength) (\<lambda>u.
        if length bytes > 0
        then jni_bind (jni_log GetStringUTFChars) (\<lambda>u. jni_return (CString (take (length bytes) bytes)))
        else jni_return (CString [])))"

text \<open>\<open>CompositeArgType::java_box\<close> and \<open>java_unbox\<close> return their argument.\<close>

definition StringArgType :: "ArgType" where
  "StringArgType =
     \<lparr>native_value = String_native_value, java_value = String_java_value,
      java_box = jni_return, java_unbox = jni_return, java_default = JNull\<rparr>"

subsection \<open>Vectors of numbers as arrays\<close>

text \<open>
  \<open>FundamentalArgArrayType<T>\<close>. \<open>java_value\<close> is \<open>ArgType<T>::java_array_value\<close>: a new
  array of \<open>len\<close> elements, thrown for when it is null, filled by one
  \<open>Set<Type>ArrayRegion\<close>. \<open>native_value\<close> reads the length and fills a vector of that
  length by one \<open>Get<Type>ArrayRegion\<close>. The region functions copy the elements, whose
  native and Java types have the same representation.
\<close>

definition FundamentalArgArrayType_java_value :: "fundamental \<Rightarrow> cvalue \<Rightarrow> jvalue jni" where
  "FundamentalArgArrayType_java_value T v =
     (case v of CSequence arr \<Rightarrow>
        jni_bind (allocate (NewArray (length arr))
                    (JArray (replicate (length arr) (jprimitive_default (java_type T))))) (\<lambda>a.
        if a = JNull then throw_JavaException
        else jni_bind (jni_log (SetArrayRegion (length arr))) (\<lambda>u.
             jni_return (JArray (map (static_cast_to_java (java_type T)) arr)))))"

definition FundamentalArgArrayType_native_value :: "fundamental \<Rightarrow> jvalue \<Rightarrow> cvalue jni" where
  "FundamentalArgArrayType_native_value T v =
     (case v of JArray arr \<Rightarrow>
        jni_bind (jni_log GetArrayLength) (\<lambda>u.
        jni_bind (jni_log (GetArrayRegion (length arr))) (\<lambda>u.
        jni_return (CSequence (map static_cast_to_native arr)))))"

definition FundamentalArgArrayType :: "fundamental \<Rightarrow> ArgType" where
  "FundamentalArgArrayType T =
     \<lparr>native_value = FundamentalArgArrayType_native_value T,
      java_value = FundamentalArgArrayType_java_value T,
      java_box = jni_return, java_unbox = jni_return, java_default = JNull\<rparr>"

subsection \<open>Sequences as lists\<close>

text \<open>
  \<open>ListArgType<L, T>\<close>; \<open>A\<close> is \<open>ArgType<T>\<close>. \<open>native_value\<close> calls \<open>size\<close> once and
  then, for each index, \<open>get\<close>, \<open>java_unbox\<close> and \<open>native_value\<close> of the element type, and
  appends. \<open>java_value\<close> creates an \<open>ArrayList\<close> (without looking at the result) and for
  each element calls \<open>java_value\<close> and \<open>java_box\<close> of the element type and then \<open>add\<close>.
  \<open>native_value\<close> passes a \<open>jobject\<close> to \<open>java_unbox\<close>; the same holds of the sets and
  maps below. For an element type whose \<open>java_unbox\<close> takes a \<open>jarray\<close> (a vector
  specialised with \<open>FundamentalArgArrayType\<close>) that call does not compile: such a type is
  not the element type of a container that is converted inbound.
\<close>

definition ArrayList_add :: "jvalue \<Rightarrow> jvalue \<Rightarrow> jvalue jni" where
  "ArrayList_add arrayList element =
     (case arrayList of JArrayList elements \<Rightarrow>
        jni_bind (jni_log (CallMethod ''add'')) (\<lambda>u. jni_return (JArrayList (elements @ [element]))))"

definition ListArgType_native_value :: "ArgType \<Rightarrow> jvalue \<Rightarrow> cvalue jni" where
  "ListArgType_native_value A v =
     (case v of JArrayList elements \<Rightarrow>
        jni_bind (jni_log (CallMethod ''size'')) (\<lambda>u.
        jni_bind (jni_foldl (\<lambda>nativeList listElement.
                     jni_bind (jni_log (CallMethod ''get'')) (\<lambda>u.
                     jni_bind (java_unbox A listElement) (\<lambda>unboxed.
                     jni_bind (native_value A unboxed) (\<lambda>element.
                     jni_return (nativeList @ [element])))))
                   [] elements) (\<lambda>nativeList.
        jni_return (CSequence nativeList))))"

definition ListArgType_java_value :: "ArgType \<Rightarrow> cvalue \<Rightarrow> jvalue jni" where
  "ListArgType_java_value A v =
     (case v of CSequence nativeList \<Rightarrow>
        jni_bind (LocalClassRef ''java/util/ArrayList'') (\<lambda>arrayListClass.
        jni_bind (allocate (NewObject arrayListClass) (JArrayList [])) (\<lambda>arrayList.
        jni_foldl (\<lambda>arrayList element.
                     jni_bind (java_value A element) (\<lambda>converted.
                     jni_bind (java_box A converted) (\<lambda>arrayListElement.
                     ArrayList_add arrayList arrayListElement)))
                  arrayList nativeList)))"

definition ListArgType :: "ArgType \<Rightarrow> ArgType" where
  "ListArgType A =
     \<lparr>native_value = ListArgType_native_value A, java_value = ListArgType_java_value A,
      java_box = jni_return, java_unbox = jni_return, java_default = JNull\<rparr>"

subsection \<open>Sets\<close>

text \<open>
  The elements of a Java collection in the order in which its iterator visits them.
\<close>

definition iterate :: "JNIEnv \<Rightarrow> 'a list \<Rightarrow> 'a list" where
  "iterate env elements = map (\<lambda>i. elements ! i) (iteration_order env (length elements))"

text \<open>
  \<open>insert\<close> of a native set and \<open>add\<close> of a Java set keep one element of each value.
\<close>

definition set_insert :: "'a \<Rightarrow> 'a list \<Rightarrow> 'a list" where
  "set_insert x xs = (if x \<in> set xs then xs else xs @ [x])"

text \<open>
  \<open>TreeSet.add\<close> and \<open>TreeMap.put\<close> compare the new element or key (with itself when the
  collection is empty): they throw a \<open>NullPointerException\<close> when it is null and a
  \<open>ClassCastException\<close> when its class does not implement \<open>Comparable\<close>, and add nothing.
  Of the Java values that the conversions produce the boxed primitives and the strings
  are \<open>Comparable\<close>; arrays, lists, sets, maps, objects of data classes and the others are
  not.
\<close>

fun Comparable :: "jvalue \<Rightarrow> bool" where
  "Comparable (JBoxed cls v) = True"
| "Comparable (JString bytes) = True"
| "Comparable j = False"

definition not_ordered :: "string \<Rightarrow> jvalue \<Rightarrow> JNIEnv \<Rightarrow> JNIEnv" where
  "not_ordered role j env =
     (if j = JNull then raise ''java/lang/NullPointerException'' [] env
      else raise ''java/lang/ClassCastException'' (role @ '' cannot be cast to class java.lang.Comparable'') env)"

definition Set_add :: "jvalue \<Rightarrow> jvalue \<Rightarrow> jvalue jni" where
  "Set_add s element =
     (case s of JSet cls elements \<Rightarrow>
        jni_bind (jni_log (CallMethod ''add'')) (\<lambda>u.
        if cls = ''java/util/TreeSet'' \<and> \<not> Comparable element
        then (\<lambda>env. (Inr (JSet cls elements), not_ordered ''element'' element env))
        else jni_return (JSet cls (set_insert element elements))))"

text \<open>
  \<open>SetArgType<S, E>\<close>; \<open>A\<close> is \<open>ArgType<E>\<close> and \<open>concrete_class_name\<close> is
  \<open>java/util/HashSet\<close> for \<open>std::unordered_set\<close> and \<open>java/util/TreeSet\<close> for \<open>std::set\<close>.
  The \<open>while\<close> loop of \<open>native_value\<close> runs once for each element that the iterator
  returns, calling \<open>hasNext\<close> before the first and after each.
\<close>

definition SetArgType_native_value :: "ArgType \<Rightarrow> jvalue \<Rightarrow> cvalue jni" where
  "SetArgType_native_value A v =
     (case v of JSet cls elements \<Rightarrow>
        jni_bind (LocalClassRef ''java/util/Iterator'') (\<lambda>iteratorClass.
        jni_bind (jni_log (CallMethod ''iterator'')) (\<lambda>u.
        jni_bind (jni_log (CallMethod ''hasNext'')) (\<lambda>u. (\<lambda>env.
        jni_bind (jni_foldl (\<lambda>nativeSet setElement.
                     jni_bind (jni_log (CallMethod ''next'')) (\<lambda>u.
                     jni_bind (java_unbox A setElement) (\<lambda>element.
                     jni_bind (native_value A element) (\<lambda>converted.
                     jni_bind (jni_log (CallMethod ''hasNext'')) (\<lambda>u.
                     jni_return (set_insert converted nativeSet))))))
                   [] (iterate env elements)) (\<lambda>nativeSet.
        jni_return (CSet nativeSet)) env)))))"

definition SetArgType_java_value :: "string \<Rightarrow> ArgType \<Rightarrow> cvalue \<Rightarrow> jvalue jni" where
  "SetArgType_java_value concrete_class_name A v =
     (case v of CSet nativeSet \<Rightarrow>
        jni_bind (LocalClassRef concrete_class_name) (\<lambda>setClass.
        jni_bind (allocate (NewObject setClass) (JSet setClass [])) (\<lambda>s.
        if s = JNull then throw_JavaException
        else jni_foldl (\<lambda>s item.
                     jni_bind (java_value A item) (\<lambda>converted.
                     jni_bind (java_box A converted) (\<lambda>element.
                     Set_add s element)))
                  s nativeSet)))"

definition SetArgType :: "string \<Rightarrow> ArgType \<Rightarrow> ArgType" where
  "SetArgType concrete_class_name A =
     \<lparr>native_value = SetArgType_native_value A,
      java_value = SetArgType_java_value concrete_class_name A,
      java_box = jni_return, java_unbox = jni_return, java_default = JNull\<rparr>"

subsection \<open>Maps\<close>

text \<open>\<open>nativeMap[key] = value\<close> and \<open>Map.put\<close>: the entry of the key is replaced or added.\<close>

definition map_put :: "'k \<Rightarrow> 'v \<Rightarrow> ('k \<times> 'v) list \<Rightarrow> ('k \<times> 'v) list" where
  "map_put k v m =
     (if k \<in> fst ` set m then map (\<lambda>entry. if fst entry = k then (k, v) else entry) m
      else m @ [(k, v)])"

definition Map_put :: "jvalue \<Rightarrow> jvalue \<Rightarrow> jvalue \<Rightarrow> jvalue jni" where
  "Map_put m key val =
     (case m of JMap cls entries \<Rightarrow>
        jni_bind (jni_log (CallMethod ''put'')) (\<lambda>u.
        if cls = ''java/util/TreeMap'' \<and> \<not> Comparable key
        then (\<lambda>env. (Inr (JMap cls entries), not_ordered ''key'' key env))
        else jni_return (JMap cls (map_put key val entries))))"

text \<open>
  \<open>MapArgType<M, K, V>\<close>; \<open>AK\<close> is \<open>ArgType<K>\<close> and \<open>AV\<close> is \<open>ArgType<V>\<close>. In the assignment
  \<open>nativeMap[ArgType<K>::native_value(env, key)] = ArgType<V>::native_value(env, value)\<close>
  the right operand is evaluated first.
\<close>

definition MapArgType_native_value :: "ArgType \<Rightarrow> ArgType \<Rightarrow> jvalue \<Rightarrow> cvalue jni" where
  "MapArgType_native_value AK AV v =
     (case v of JMap cls entries \<Rightarrow>
        jni_bind (LocalClassRef ''java/util/Set'') (\<lambda>entrySetClass.
        jni_bind (LocalClassRef ''java/util/Iterator'') (\<lambda>iteratorClass.
        jni_bind (LocalClassRef ''java/util/Map$Entry'') (\<lambda>entryClass.
        jni_bind (jni_log (CallMethod ''entrySet'')) (\<lambda>u.
        jni_bind (jni_log (CallMethod ''iterator'')) (\<lambda>u.
        jni_bind (jni_log (CallMethod ''hasNext'')) (\<lambda>u. (\<lambda>env.
        jni_bind (jni_foldl (\<lambda>nativeMap mapEntry.
                     jni_bind (jni_log (CallMethod ''next'')) (\<lambda>u.
                     jni_bind (jni_log (CallMethod ''getKey'')) (\<lambda>u.
                     jni_bind (jni_log (CallMethod ''getValue'')) (\<lambda>u.
                     jni_bind (java_unbox AK (fst mapEntry)) (\<lambda>key.
                     jni_bind (java_unbox AV (snd mapEntry)) (\<lambda>val.
                     jni_bind (native_value AV val) (\<lambda>native_val.
                     jni_bind (native_value AK key) (\<lambda>native_key.
                     jni_bind (jni_log (CallMethod ''hasNext'')) (\<lambda>u.
                     jni_return (map_put native_key native_val nativeMap))))))))))
                   [] (iterate env entries)) (\<lambda>nativeMap.
        jni_return (CMap nativeMap)) env))))))))"

definition MapArgType_java_value :: "string \<Rightarrow> ArgType \<Rightarrow> ArgType \<Rightarrow> cvalue \<Rightarrow> jvalue jni" where
  "MapArgType_java_value concrete_class_name AK AV v =
     (case v of CMap nativeMap \<Rightarrow>
        jni_bind (LocalClassRef concrete_class_name) (\<lambda>mapClass.
        jni_bind (allocate (NewObject mapClass) (JMap mapClass [])) (\<lambda>m.
        if m = JNull then throw_JavaException
        else jni_foldl (\<lambda>m item.
                     jni_bind (java_value AK (fst item)) (\<lambda>converted_key.
                     jni_bind (java_box AK converted_key) (\<lambda>key.
                     jni_bind (java_value AV (snd item)) (\<lambda>converted_value.
                     jni_bind (java_box AV converted_value) (\<lambda>val.
                     Map_put m key val)))))
                  m nativeMap)))"

definition MapArgType :: "string \<Rightarrow> ArgType \<Rightarrow> ArgType \<Rightarrow> ArgType" where
  "MapArgType concrete_class_name AK AV =
     \<lparr>native_value = MapArgType_native_value AK AV,
      java_value = MapArgType_java_value concrete_class_name AK AV,
      java_box = jni_return, java_unbox = jni_return, java_default = JNull\<rparr>"

subsection \<open>Resolution of a specialisation\<close>

text \<open>
  The specialisation of \<open>ArgType\<close> that the compiler selects for a type. \<open>declared\<close> gives
  the specialisations added by \<open>DECLARE_DATA_CLASS\<close> and \<open>DECLARE_NATIVE_CLASS\<close>, by
  qualified name.
\<close>

fun ArgType_of :: "(string \<Rightarrow> ArgType) \<Rightarrow> cpp_type \<Rightarrow> ArgType" where
  "ArgType_of declared (Fundamental T) = FundamentalArgType T"
| "ArgType_of declared StdString = StringArgType"
| "ArgType_of declared (StdVector (Fundamental T)) =
     (if vector_is_FundamentalArgArrayType (Fundamental T) then FundamentalArgArrayType T
      else ListArgType (FundamentalArgType T))"
| "ArgType_of declared (StdVector T) = ListArgType (ArgType_of declared T)"
| "ArgType_of declared (StdList T) = ListArgType (ArgType_of declared T)"
| "ArgType_of declared (StdUnorderedSet E) = SetArgType ''java/util/HashSet'' (ArgType_of declared E)"
| "ArgType_of declared (StdSet E) = SetArgType ''java/util/TreeSet'' (ArgType_of declared E)"
| "ArgType_of declared (StdUnorderedMap K V) =
     MapArgType ''java/util/HashMap'' (ArgType_of declared K) (ArgType_of declared V)"
| "ArgType_of declared (StdMap K V) =
     MapArgType ''java/util/TreeMap'' (ArgType_of declared K) (ArgType_of declared V)"
| "ArgType_of declared (StdFunction R Args) = Function_ArgType"
| "ArgType_of declared (DataClass q) = declared q"
| "ArgType_of declared (NativeClass q) = declared q"


section \<open>Data classes\<close>

text \<open>The value a field of a newly allocated object has, by the signature of the field.\<close>

definition jvm_default :: "string \<Rightarrow> jvalue" where
  "jvm_default sig =
     (if sig = ''Z'' then JBoolean 0
      else if sig = ''B'' then JByte 0
      else if sig = ''C'' then JChar 0
      else if sig = ''S'' then JShort 0
      else if sig = ''I'' then JInt 0
      else if sig = ''J'' then JLong 0
      else if sig = ''F'' then JFloat 0
      else if sig = ''D'' then JDouble 0
      else JNull)"

definition Alloc_Object :: "string \<Rightarrow> jvalue jni" where
  "Alloc_Object cls = (\<lambda>env.
     case classes env cls of
       Some c \<Rightarrow> allocate (AllocObject cls)
                   (JObject cls (map (\<lambda>f. (f, jvm_default (snd f))) (instance_fields c))) env)"

definition getField :: "jvalue \<Rightarrow> string \<Rightarrow> string \<Rightarrow> (string \<times> string) jni" where
  "getField obj name sig =
     (case obj of JObject cls fs \<Rightarrow> (\<lambda>env.
        if (name, sig) \<in> fst ` set fs then (Inr (name, sig), env)
        else throw_JavaException (raise ''java/lang/NoSuchFieldError'' name env)))"

definition Get_Field :: "jvalue \<Rightarrow> string \<times> string \<Rightarrow> jvalue jni" where
  "Get_Field obj fld =
     (case obj of JObject cls fs \<Rightarrow>
        jni_bind (jni_log (GetFieldOf cls (fst fld))) (\<lambda>u.
        jni_return (case map_of fs fld of Some v \<Rightarrow> v)))"

definition Set_Field :: "jvalue \<Rightarrow> string \<times> string \<Rightarrow> jvalue \<Rightarrow> jvalue jni" where
  "Set_Field obj fld v =
     (case obj of JObject cls fs \<Rightarrow>
        jni_bind (jni_log (SetFieldOf cls (fst fld))) (\<lambda>u.
        jni_return (JObject cls (map (\<lambda>entry. if fst entry = fld then (fld, v) else entry) fs))))"

definition native_field_value :: "ArgType \<Rightarrow> jvalue \<Rightarrow> string \<times> string \<Rightarrow> cvalue jni" where
  "native_field_value A obj fld = jni_bind (Get_Field obj fld) (\<lambda>j. native_value A j)"

definition java_field_value :: "ArgType \<Rightarrow> jvalue \<Rightarrow> string \<times> string \<Rightarrow> cvalue \<Rightarrow> jvalue jni" where
  "java_field_value A obj fld v = jni_bind (java_value A v) (\<lambda>j. Set_Field obj fld j)"

definition member_of :: "cvalue \<Rightarrow> string \<Rightarrow> cvalue" where
  "member_of native_object member =
     (case native_object of CStruct ms \<Rightarrow> (case map_of ms member of Some v \<Rightarrow> v))"

definition member_assign :: "cvalue \<Rightarrow> string \<Rightarrow> cvalue \<Rightarrow> cvalue" where
  "member_assign native_object member v =
     (case native_object of CStruct ms \<Rightarrow>
        CStruct (map (\<lambda>entry. if fst entry = member then (member, v) else entry) ms))"

definition field_binding :: "string \<Rightarrow> cpp_type \<Rightarrow> ArgType \<Rightarrow> string \<Rightarrow> FieldBinding" where
  "field_binding member member_type A name =
     \<lparr>field_name = name,
      field_signature = type_sig member_type,
      get_by_value = (\<lambda>obj fld native_object.
         java_field_value A obj fld (member_of native_object member)),
      set_by_value = (\<lambda>obj fld native_object.
         jni_bind (native_field_value A obj fld) (\<lambda>v.
         jni_return (member_assign native_object member v)))\<rparr>"

definition data_class_field ::
  "cpp_type \<Rightarrow> string \<Rightarrow> cpp_type \<Rightarrow> ArgType \<Rightarrow> string \<Rightarrow> Bindings \<Rightarrow> Bindings" where
  "data_class_field T member member_type A name b =
     b\<lparr>FieldBindings := push_back (type_sig T) (field_binding member member_type A name)
          (FieldBindings b)\<rparr>"

definition DataClassArgType_native_value :: "cvalue \<Rightarrow> FieldBinding list \<Rightarrow> jvalue \<Rightarrow> cvalue jni" where
  "DataClassArgType_native_value default_T bindings obj =
     jni_foldl (\<lambda>native_object binding.
                  jni_bind (getField obj (field_name binding) (field_signature binding)) (\<lambda>fld.
                  set_by_value binding obj fld native_object))
               default_T bindings"

definition DataClassArgType_java_value :: "string \<Rightarrow> FieldBinding list \<Rightarrow> cvalue \<Rightarrow> jvalue jni" where
  "DataClassArgType_java_value T_type_sig bindings native_object =
     jni_bind (LocalClassRef T_type_sig) (\<lambda>objClass.
     jni_bind (Alloc_Object objClass) (\<lambda>obj.
     if obj = JNull then throw_JavaException
     else jni_foldl (\<lambda>obj binding.
                  jni_bind (getField obj (field_name binding) (field_signature binding)) (\<lambda>fld.
                  get_by_value binding obj fld native_object))
               obj bindings))"

definition DataClassArgType :: "cpp_type \<Rightarrow> cvalue \<Rightarrow> Bindings \<Rightarrow> ArgType" where
  "DataClassArgType T default_T b =
     \<lparr>native_value = DataClassArgType_native_value default_T (bindings_of (type_sig T) (FieldBindings b)),
      java_value = DataClassArgType_java_value (type_sig T) (bindings_of (type_sig T) (FieldBindings b)),
      java_box = jni_return, java_unbox = jni_return, java_default = JNull\<rparr>"

section \<open>Examples and notions used to state the properties\<close>

text \<open>
  A callback raises \<open>Exception("non-critical error")\<close>; the proxy throws the wrapper and the
  native function lets it through. The exception pending after the adapter is the one
  the callback raised.
\<close>

definition callback_raises :: "cvalue list \<Rightarrow> cvalue jni" where
  "callback_raises native_args =
     (\<lambda>env. throw_JavaException (Throw (Some (Throwable 5 ''java/lang/Exception'' ''non-critical error'')) env))"


text \<open>A native function that returns a function object, whatever it is.\<close>

definition returns_function :: "cvalue list \<Rightarrow> cvalue jni" where
  "returns_function native_args = jni_return (CFunction 0)"

text \<open>
  A registered class resolves when the class loader finds it and it declares every
  native method (for an entry of \<open>FunctionBindings\<close>) under the zero-terminated string that
  starts where the registered name starts, with the registered signature, or every
  field (for an entry of \<open>FieldBindings\<close>) with the registered name and signature.
\<close>

definition function_class_resolves :: "JNIEnv \<Rightarrow> string \<times> FunctionBinding list \<Rightarrow> bool" where
  "function_class_resolves env entry =
     (case classes env (fst entry) of
        None \<Rightarrow> False
      | Some c \<Rightarrow> list_all (\<lambda>binding. (string_view_data (function_name binding), function_signature binding)
                                     \<in> set (native_methods c)) (snd entry))"

definition field_class_resolves :: "JNIEnv \<Rightarrow> string \<times> FieldBinding list \<Rightarrow> bool" where
  "field_class_resolves env entry =
     (case classes env (fst entry) of
        None \<Rightarrow> False
      | Some c \<Rightarrow> list_all (\<lambda>binding. (field_name binding, field_signature binding) \<in> set (instance_fields c)) (snd entry))"

definition installed :: "string \<times> FunctionBinding list \<Rightarrow> string \<times> JNINativeMethod list" where
  "installed entry = (fst entry, map to_JNINativeMethod (snd entry))"

definition resolves :: "JNIEnv \<Rightarrow> Bindings \<Rightarrow> bool" where
  "resolves env b =
     (list_all (function_class_resolves env) (FunctionBindings b)
      \<and> list_all (field_class_resolves env) (FieldBindings b))"

text \<open>
  A load in which two native classes are registered. The class loader knows the class
  \<open>A\<close>, and the class \<open>B\<close> when \<open>with_B\<close> holds; each declares the native method \<open>close\<close>.
\<close>

definition load_env :: "bool \<Rightarrow> JNIEnv" where
  "load_env with_B =
     example_env\<lparr>classes := (\<lambda>n.
        if n \<in> set bootstrap_classes then Some \<lparr>instance_fields = [], native_methods = []\<rparr>
        else if n = ''A'' \<or> (n = ''B'' \<and> with_B)
          then Some \<lparr>instance_fields = [], native_methods = [(''close'', ''()V'')]\<rparr>
        else None)\<rparr>"

definition two_classes :: initializer where
  "two_classes b env = (Inr (), native_class (NativeClass ''B'') (native_class (NativeClass ''A'') b), env)"

definition host_vm :: JavaVM where
  "host_vm = \<lparr>handle = 1, thread_env = 7, version_supported = True, attach_succeeds = True\<rparr>"

definition no_bindings :: Bindings where
  "no_bindings = \<lparr>FunctionBindings = [], FieldBindings = []\<rparr>"

text \<open>
  A VM in which the conversions run to their end: it has memory left, its class loader
  finds the classes of the Java library, and its iterators visit every element of a
  collection once, in the order \<open>ord\<close>.
\<close>

definition vm_ok :: "(nat \<Rightarrow> nat list) \<Rightarrow> JNIEnv \<Rightarrow> bool" where
  "vm_ok ord env =
     (\<not> out_of_memory env
      \<and> list_all (\<lambda>n. classes env n \<noteq> None) bootstrap_classes
      \<and> iteration_order env = ord
      \<and> (\<forall>n. distinct (ord n) \<and> set (ord n) = {0..<n}))"

definition logged :: "JNIEnv \<Rightarrow> jni_call list \<Rightarrow> JNIEnv" where
  "logged env l = env\<lparr>calls := calls env @ l\<rparr>"

text \<open>
  The element conversions used in the examples: of a \<open>std::string\<close> and of an \<open>int\<close>.
\<close>

definition string_to_java :: "cvalue \<Rightarrow> jvalue" where
  "string_to_java x = (case x of CString bytes \<Rightarrow> JString (takeWhile (\<lambda>c. c \<noteq> CHR 0x00) bytes))"

definition string_to_native :: "jvalue \<Rightarrow> cvalue" where
  "string_to_native j = (case j of JString bytes \<Rightarrow> CString bytes)"

definition string_native_log :: "jvalue \<Rightarrow> jni_call list" where
  "string_native_log j =
     (case j of JString bytes \<Rightarrow>
        if length bytes > 0 then [GetStringUTFLength, GetStringUTFChars] else [GetStringUTFLength])"

text \<open>A program that declares no data class and no native class: the argument is never used.\<close>

definition nothing_declared :: "string \<Rightarrow> ArgType" where
  "nothing_declared q = Function_ArgType"

definition reversed :: "nat \<Rightarrow> nat list" where
  "reversed n = rev [0..<n]"

text \<open>
  A callback raises \<open>RuntimeException()\<close>, an exception created without a message; the proxy
  throws the wrapper.
\<close>

definition callback_raises_without_message :: "cvalue list \<Rightarrow> cvalue jni" where
  "callback_raises_without_message native_args =
     (\<lambda>env. throw_JavaException
        (Throw (Some (Throwable_without_message 5 ''java/lang/RuntimeException'')) env))"



text \<open>
  A load in which the class \<open>S\<close> is registered with a constructor whose name is the view
  \<open>name\<close>; the class declares the native methods \<open>close\<close> and \<open>create\<close>.
\<close>

definition one_constructor :: "string_view \<Rightarrow> initializer" where
  "one_constructor name b env =
     (Inr (),
      native_class_constructor (NativeClass ''S'') (FunctionType (NativeClass ''S'') []) name
        (native_class (NativeClass ''S'') b),
      env)"

definition constructor_env :: JNIEnv where
  "constructor_env =
     example_env\<lparr>classes := (\<lambda>n.
        if n \<in> set bootstrap_classes then Some \<lparr>instance_fields = [], native_methods = []\<rparr>
        else if n = ''S''
          then Some \<lparr>instance_fields = [],
                     native_methods = [(''close'', ''()V''), (''create'', ''()LS;'')]\<rparr>
        else None)\<rparr>"

text \<open>
  Equality of native values as C++ compares them: a sequence by its elements in order, a set
  by its elements and a map by its entries, whatever the order in which the lists of the model
  hold them. Two native values are equal when their abstractions are.
\<close>

datatype avalue =
    AValue cvalue
  | ASequence "avalue list"
  | ASet "avalue fset"
  | AMap "(avalue \<times> avalue) fset"

fun abstract :: "cvalue \<Rightarrow> avalue" where
  "abstract (CSequence xs) = ASequence (map abstract xs)"
| "abstract (CSet xs) = ASet (fset_of_list (map abstract xs))"
| "abstract (CMap m) = AMap (fset_of_list (map (\<lambda>(k, v). (abstract k, abstract v)) m))"
| "abstract x = AValue x"


text \<open>
  The values on which the casts of \<open>FundamentalArgType<T, J>\<close> are defined: the values of type \<open>T\<close>.
\<close>

fun has_fundamental :: "jprimitive \<Rightarrow> cvalue \<Rightarrow> bool" where
  "has_fundamental jboolean x = (case x of CBool b \<Rightarrow> True | _ \<Rightarrow> False)"
| "has_fundamental jbyte x = (case x of CInt8 w \<Rightarrow> True | _ \<Rightarrow> False)"
| "has_fundamental jchar x = (case x of CInt16 w \<Rightarrow> True | _ \<Rightarrow> False)"
| "has_fundamental jshort x = (case x of CInt16 w \<Rightarrow> True | _ \<Rightarrow> False)"
| "has_fundamental jint x = (case x of CInt32 w \<Rightarrow> True | _ \<Rightarrow> False)"
| "has_fundamental jlong x = (case x of CInt64 w \<Rightarrow> True | _ \<Rightarrow> False)"
| "has_fundamental jfloat x = (case x of CFloat w \<Rightarrow> True | _ \<Rightarrow> False)"
| "has_fundamental jdouble x = (case x of CDouble w \<Rightarrow> True | _ \<Rightarrow> False)"

text \<open>
  The elements of a native set and the keys of a native map are pairwise different as
  C++ compares them, and a set or map that holds a NaN is not equal to itself. A \<open>float\<close>
  or \<open>double\<close> is its bit pattern: it is a NaN when the bits below the sign exceed those
  of infinity, and the two zeros, which C++ takes to be equal, are the patterns whose
  bits below the sign are all zero. \<open>cpp_key\<close> maps a value to the representative of the
  values that C++ takes to be equal to it.
\<close>

fun not_nan :: "cvalue \<Rightarrow> bool" where
  "not_nan (CFloat w) = (unat w mod 2 ^ 31 \<le> 0x7F800000)"
| "not_nan (CDouble w) = (unat w mod 2 ^ 63 \<le> 0x7FF0000000000000)"
| "not_nan (CSequence xs) = list_all not_nan xs"
| "not_nan x = True"

fun cpp_key :: "cvalue \<Rightarrow> cvalue" where
  "cpp_key (CFloat w) = CFloat (if unat w mod 2 ^ 31 = 0 then 0 else w)"
| "cpp_key (CDouble w) = CDouble (if unat w mod 2 ^ 63 = 0 then 0 else w)"
| "cpp_key (CSequence xs) = CSequence (map cpp_key xs)"
| "cpp_key x = x"

definition keys_ok :: "cvalue list \<Rightarrow> bool" where
  "keys_ok ks = (distinct (map cpp_key ks) \<and> list_all not_nan ks)"

text \<open>
  The types that the round trip is stated for. An element of a container is not a vector
  specialised as an array (the inbound conversion of the container would not compile).
  The elements of a \<open>std::set\<close> and the keys of a \<open>std::map\<close> are of a fundamental type or
  strings: their Java counterparts are \<open>Comparable\<close>. The elements of a
  \<open>std::unordered_set\<close> and the keys of a \<open>std::unordered_map\<close> are of a type with no set and
  no map inside: their Java counterparts are compared by \<open>equals\<close> as C++ compares the
  native values.
\<close>

fun element_type :: "cpp_type \<Rightarrow> bool" where
  "element_type (StdVector T) = (\<not> vector_is_FundamentalArgArrayType T)"
| "element_type T = True"

fun ordered_key :: "cpp_type \<Rightarrow> bool" where
  "ordered_key (Fundamental T) = True"
| "ordered_key StdString = True"
| "ordered_key T = False"

fun hash_key :: "cpp_type \<Rightarrow> bool" where
  "hash_key (Fundamental T) = True"
| "hash_key StdString = True"
| "hash_key (StdVector T) = (\<not> vector_is_FundamentalArgArrayType T \<and> hash_key T)"
| "hash_key (StdList T) = hash_key T"
| "hash_key T = False"

fun covered :: "cpp_type \<Rightarrow> bool" where
  "covered (Fundamental T) = True"
| "covered StdString = True"
| "covered (StdVector T) = (vector_is_FundamentalArgArrayType T \<or> (covered T \<and> element_type T))"
| "covered (StdList T) = (covered T \<and> element_type T)"
| "covered (StdSet E) = ordered_key E"
| "covered (StdUnorderedSet E) = hash_key E"
| "covered (StdMap K V) = (ordered_key K \<and> covered V \<and> element_type V)"
| "covered (StdUnorderedMap K V) = (hash_key K \<and> covered V \<and> element_type V)"
| "covered T = False"

text \<open>
  A value of a type: a string is modified UTF-8 (so it holds no zero byte), and the
  elements of a set and the keys of a map are as said above.
\<close>

fun transferable :: "cpp_type \<Rightarrow> cvalue \<Rightarrow> bool" where
  "transferable (Fundamental T) x = has_fundamental (java_type T) x"
| "transferable StdString x = (case x of CString bytes \<Rightarrow> modified_utf8 bytes | _ \<Rightarrow> False)"
| "transferable (StdVector T) x = (case x of CSequence xs \<Rightarrow> list_all (transferable T) xs | _ \<Rightarrow> False)"
| "transferable (StdList T) x = (case x of CSequence xs \<Rightarrow> list_all (transferable T) xs | _ \<Rightarrow> False)"
| "transferable (StdSet E) x =
     (case x of CSet xs \<Rightarrow> keys_ok xs \<and> list_all (transferable E) xs | _ \<Rightarrow> False)"
| "transferable (StdUnorderedSet E) x =
     (case x of CSet xs \<Rightarrow> keys_ok xs \<and> list_all (transferable E) xs | _ \<Rightarrow> False)"
| "transferable (StdMap K V) x =
     (case x of CMap m \<Rightarrow> keys_ok (map fst m)
                            \<and> list_all (\<lambda>e. transferable K (fst e) \<and> transferable V (snd e)) m
      | _ \<Rightarrow> False)"
| "transferable (StdUnorderedMap K V) x =
     (case x of CMap m \<Rightarrow> keys_ok (map fst m)
                            \<and> list_all (\<lambda>e. transferable K (fst e) \<and> transferable V (snd e)) m
      | _ \<Rightarrow> False)"
| "transferable T x = False"



text \<open>
  The accesses to fields of objects of data classes among the JNI calls made, and those
  to the fields of the objects of one class.
\<close>

definition data_accesses :: "jni_call list \<Rightarrow> jni_call list" where
  "data_accesses l =
     filter (\<lambda>c. case c of GetFieldOf cls n \<Rightarrow> True | SetFieldOf cls n \<Rightarrow> True | _ \<Rightarrow> False) l"

definition field_accesses_of :: "string \<Rightarrow> jni_call list \<Rightarrow> jni_call list" where
  "field_accesses_of cls l =
     filter (\<lambda>c. case c of GetFieldOf cl n \<Rightarrow> cl = cls | SetFieldOf cl n \<Rightarrow> cl = cls | _ \<Rightarrow> False) l"

text \<open>
  What a conversion of a value that holds no object of a data class leaves as it was:
  the pending exception and the accesses to fields of such objects.
\<close>

definition kept :: "JNIEnv \<Rightarrow> JNIEnv \<Rightarrow> bool" where
  "kept env env' =
     (pending env' = pending env \<and> data_accesses (calls env') = data_accesses (calls env))"

text \<open>
  A computation that, in every VM in which the conversions run to their end, returns a value
  that satisfies \<open>Q\<close>, leaves such a VM, raises no exception and accesses no field of an
  object of a data class.
\<close>

definition returns :: "(nat \<Rightarrow> nat list) \<Rightarrow> 'a jni \<Rightarrow> ('a \<Rightarrow> bool) \<Rightarrow> bool" where
  "returns ord m Q =
     (\<forall>env. vm_ok ord env \<longrightarrow>
        (\<exists>r env'. m env = (Inr r, env') \<and> vm_ok ord env' \<and> kept env env' \<and> Q r))"

text \<open>
  \<open>Top\<close>: the inbound conversion of the Java value \<open>j\<close> returns a native value related to \<open>x\<close>;
  \<open>Rep\<close>: so does unboxing \<open>b\<close> and converting the result; \<open>Out\<close>: the outbound conversion of \<open>x\<close>
  returns a Java value with the first property, and boxing it one with the second. The
  relation is equality (\<open>exact\<close>) or equality of the abstractions (\<open>same\<close>); for the entries of a
  map, equality of the keys and the latter for the values.
\<close>

definition Top :: "(nat \<Rightarrow> nat list) \<Rightarrow> (cvalue \<Rightarrow> cvalue \<Rightarrow> bool) \<Rightarrow> ArgType \<Rightarrow> cvalue \<Rightarrow> jvalue \<Rightarrow> bool" where
  "Top ord E A x j = returns ord (native_value A j) (E x)"

definition Rep :: "(nat \<Rightarrow> nat list) \<Rightarrow> (cvalue \<Rightarrow> cvalue \<Rightarrow> bool) \<Rightarrow> ArgType \<Rightarrow> cvalue \<Rightarrow> jvalue \<Rightarrow> bool" where
  "Rep ord E A x b = returns ord (java_unbox A b) (Top ord E A x)"

definition Out :: "(nat \<Rightarrow> nat list) \<Rightarrow> (cvalue \<Rightarrow> cvalue \<Rightarrow> bool) \<Rightarrow> ArgType \<Rightarrow> cvalue \<Rightarrow> bool" where
  "Out ord E A x =
     returns ord (java_value A x) (\<lambda>j. Top ord E A x j \<and> returns ord (java_box A j) (Rep ord E A x))"

text \<open>
  The outbound conversion of \<open>x\<close> followed by boxing yields a \<open>Comparable\<close> object.
\<close>

definition boxes_Comparable :: "(nat \<Rightarrow> nat list) \<Rightarrow> ArgType \<Rightarrow> cvalue \<Rightarrow> bool" where
  "boxes_Comparable ord A x =
     returns ord (java_value A x) (\<lambda>j. returns ord (java_box A j) Comparable)"

definition exact :: "cvalue \<Rightarrow> cvalue \<Rightarrow> bool" where
  "exact x y = (y = x)"

definition same :: "cvalue \<Rightarrow> cvalue \<Rightarrow> bool" where
  "same x y = (abstract y = abstract x)"

definition entry_Rep :: "(nat \<Rightarrow> nat list) \<Rightarrow> ArgType \<Rightarrow> ArgType \<Rightarrow> cvalue \<times> cvalue \<Rightarrow> jvalue \<times> jvalue \<Rightarrow> bool" where
  "entry_Rep ord AK AV e b =
     (Rep ord exact AK (fst e) (fst b) \<and> Rep ord same AV (snd e) (snd b))"

definition entry_same :: "cvalue \<times> cvalue \<Rightarrow> cvalue \<times> cvalue \<Rightarrow> bool" where
  "entry_same e e' = (fst e' = fst e \<and> same (snd e) (snd e'))"

text \<open>
  A registration \<open>data_class<T>().field<&T::member>(name)\<close>, given by the name of the member, its type,
  the conversions of that type and the name of the field; and a chain of such registrations on an
  empty registry.
\<close>

type_synonym field_spec = "string \<times> cpp_type \<times> ArgType \<times> string"

definition binding_of_spec :: "field_spec \<Rightarrow> FieldBinding" where
  "binding_of_spec sp = (case sp of (member, member_type, A, name) \<Rightarrow> field_binding member member_type A name)"

definition spec_member :: "field_spec \<Rightarrow> string" where
  "spec_member sp = fst sp"

definition spec_field :: "field_spec \<Rightarrow> string \<times> string" where
  "spec_field sp = (case sp of (member, member_type, A, name) \<Rightarrow> (name, type_sig member_type))"

definition register_fields :: "cpp_type \<Rightarrow> field_spec list \<Rightarrow> Bindings \<Rightarrow> Bindings" where
  "register_fields T specs b =
     foldl (\<lambda>b sp. case sp of (member, member_type, A, name) \<Rightarrow> data_class_field T member member_type A name b) b specs"

definition spec_ArgType :: "field_spec \<Rightarrow> ArgType" where
  "spec_ArgType sp = (case sp of (member, member_type, A, name) \<Rightarrow> A)"

text \<open>
  A computation that, run in a VM in which the conversions run to their end, leaves such a
  VM and accesses no field of an object of the class \<open>cls\<close>. The conversions of a data
  class are such computations for every class but its own when those of its fields are.
\<close>

definition quiet_on :: "(nat \<Rightarrow> nat list) \<Rightarrow> string \<Rightarrow> 'a jni \<Rightarrow> bool" where
  "quiet_on ord cls m =
     (\<forall>env. vm_ok ord env \<longrightarrow>
        vm_ok ord (snd (m env))
        \<and> field_accesses_of cls (calls (snd (m env))) = field_accesses_of cls (calls env))"

text \<open>
  The data class of the test program, with its eleven registered members, to which a
  member and a field that are not registered are added. \<open>Data_default\<close> is the value that
  the default constructor makes (the sequences shortened), \<open>Data_value\<close> another value, and
  \<open>Data_object\<close> the fields of the Java object of the latter, whatever its field \<open>extra\<close> is.
  The VM knows the class and its iterators visit the elements of a collection in the order
  in which they were added.
\<close>

definition Data_type :: cpp_type where
  "Data_type = DataClass ''com.kheiron.ktbind.Data''"

definition Data_members :: "(string \<times> cpp_type) list" where
  "Data_members =
     [(''b'', Fundamental bool_t),
      (''s'', Fundamental short_t),
      (''i'', Fundamental int_t),
      (''l'', Fundamental long_t),
      (''f'', Fundamental float_t),
      (''d'', Fundamental double_t),
      (''str'', StdString),
      (''short_arr'', StdVector (Fundamental short_t)),
      (''int_arr'', StdVector (Fundamental int_t)),
      (''long_arr'', StdVector (Fundamental long_t)),
      (''map'', StdMap StdString (StdVector StdString))]"

definition Data_specs :: "field_spec list" where
  "Data_specs = map (\<lambda>(member, member_type).
                       (member, member_type, ArgType_of nothing_declared member_type, member))
                    Data_members"

definition Data_default :: "(string \<times> cvalue) list" where
  "Data_default =
     [(''b'', CBool True),
      (''s'', CInt16 82),
      (''i'', CInt32 1024),
      (''l'', CInt64 111000111000),
      (''f'', CFloat 0x40490FDB),
      (''d'', CDouble 0x4005BF0A8B145769),
      (''str'', CString ''sample string in struct''),
      (''short_arr'', CSequence [CInt16 1, CInt16 2, CInt16 3]),
      (''int_arr'', CSequence [CInt32 10, CInt32 20, CInt32 30]),
      (''long_arr'', CSequence [CInt64 100, CInt64 200, CInt64 300]),
      (''map'', CMap [(CString ''four'', CSequence [CString ''l'']),
                     (CString ''one'', CSequence [CString ''a'', CString ''b'', CString ''c'']),
                     (CString ''three'', CSequence []),
                     (CString ''two'', CSequence [CString ''x'', CString ''y'', CString ''z''])]),
      (''unregistered'', CInt32 5)]"

definition Data_value :: "cvalue \<Rightarrow> (string \<times> cvalue) list" where
  "Data_value unregistered =
     [(''b'', CBool False),
      (''s'', CInt16 1),
      (''i'', CInt32 7),
      (''l'', CInt64 2),
      (''f'', CFloat 0x3F800000),
      (''d'', CDouble 0),
      (''str'', CString ''x''),
      (''short_arr'', CSequence [CInt16 4]),
      (''int_arr'', CSequence []),
      (''long_arr'', CSequence [CInt64 5, CInt64 6]),
      (''map'', CMap [(CString ''k'', CSequence [CString ''v'']), (CString ''e'', CSequence [])]),
      (''unregistered'', unregistered)]"

definition Data_fields :: "(string \<times> string) list" where
  "Data_fields =
     [(''b'', ''Z''), (''s'', ''S''), (''i'', ''I''), (''l'', ''J''), (''f'', ''F''), (''d'', ''D''),
      (''str'', ''Ljava/lang/String;''), (''short_arr'', ''[S''), (''int_arr'', ''[I''),
      (''long_arr'', ''[J''), (''map'', ''Ljava/util/Map;''), (''extra'', ''I'')]"

definition data_env :: JNIEnv where
  "data_env =
     example_env\<lparr>classes := (\<lambda>n.
        if n = ''Lcom/kheiron/ktbind/Data;''
        then Some \<lparr>instance_fields = Data_fields, native_methods = []\<rparr>
        else classes example_env n),
       iteration_order := upt 0\<rparr>"

definition Data_ArgType :: ArgType where
  "Data_ArgType = DataClassArgType Data_type (CStruct Data_default)
                    (register_fields Data_type Data_specs no_bindings)"

definition Data_object :: "jvalue \<Rightarrow> ((string \<times> string) \<times> jvalue) list" where
  "Data_object extra =
     [((''b'', ''Z''), JBoolean 0),
      ((''s'', ''S''), JShort 1),
      ((''i'', ''I''), JInt 7),
      ((''l'', ''J''), JLong 2),
      ((''f'', ''F''), JFloat 0x3F800000),
      ((''d'', ''D''), JDouble 0),
      ((''str'', ''Ljava/lang/String;''), JString ''x''),
      ((''short_arr'', ''[S''), JArray [JShort 4]),
      ((''int_arr'', ''[I''), JArray []),
      ((''long_arr'', ''[J''), JArray [JLong 5, JLong 6]),
      ((''map'', ''Ljava/util/Map;''),
       JMap ''java/util/TreeMap'' [(JString ''k'', JArrayList [JString ''v'']),
                                  (JString ''e'', JArrayList [])]),
      ((''extra'', ''I''), extra)]"

text \<open>The definitions that evaluate an adapter on a concrete input.\<close>

lemmas adapter_defs =
  Adapter_try_def convert_arguments_def Adapter_catch_def Adapter_invoke_def MemberAdapter_try_def
  MemberAdapter_invoke_def DestroyObjectAdapter_invoke_def default_result_def
  getField_nativePointer_def pointer_native_field_value_def pointer_java_field_value_def
  delete_def disposed_message_def exception_handler_def LocalClassRef_def FindClass_def
  throw_JavaException_def JavaException_ctor_def innerException_def
  ExceptionCheck_def ExceptionOccurred_def ExceptionClear_def Throw_def ThrowNew_def raise_def
  jni_bind_def jni_return_def jni_throw_def jni_log_def bootstrap_classes_def

text \<open>
  The definitions that evaluate a conversion on a concrete input.
\<close>

lemmas conversion_defs =
  MapArgType_def MapArgType_java_value_def MapArgType_native_value_def Map_put_def map_put_def
  SetArgType_def SetArgType_java_value_def SetArgType_native_value_def Set_add_def set_insert_def
  ListArgType_def ListArgType_java_value_def ListArgType_native_value_def ArrayList_add_def
  StringArgType_def String_java_value_def String_native_value_def NewStringUTF_string_def
  c_str_def continuation_byte_def Comparable.simps not_ordered_def
  allocate_def iterate_def reversed_def

section \<open>Properties of the signature deriver\<close>

text \<open>
  C7. The wire signature derived for a free function pointer, for an instance method and
  for a const-qualified instance method is in each case the opening parenthesis, the
  concatenation of the type signatures of the types of the parameters (whichever way each
  is passed), the closing parenthesis and the type signature of the return type; the
  receiver type \<open>T\<close> does not occur in it.
\<close>

theorem signature_canonical:
  "Function_signature (FreeFunctionPointer R Args)
     = ''('' @ concat (map (\<lambda>a. type_sig (parameter_type a)) Args) @ '')'' @ type_sig R
   \<and> Function_signature (MemberFunctionPointer T R Args)
     = ''('' @ concat (map (\<lambda>a. type_sig (parameter_type a)) Args) @ '')'' @ type_sig R
   \<and> Function_signature (ConstMemberFunctionPointer T R Args)
     = ''('' @ concat (map (\<lambda>a. type_sig (parameter_type a)) Args) @ '')'' @ type_sig R"
proof -
  have d: "decay_t a = parameter_type a" for a
    by (cases a) simp
  have "join (map type_sig (map decay_t Args)) = concat (map (\<lambda>a. type_sig (parameter_type a)) Args)"
    by (simp add: join_def comp_def d)
  then show ?thesis
    by (simp add: Function_type_signature_def callable_sig_def join_def)
qed

text \<open>
  The function of the documentation,
  \<open>bool func(const std::string& str, const std::vector<int>& vec, double d)\<close>, and the member
  functions \<open>void Sample::set_data(const Data& data)\<close> and \<open>Data Sample::get_data() const\<close> of
  the class \<open>com.kheiron.ktbind.Sample\<close>.
\<close>

theorem signature_canonical_witness:
  "Function_signature
     (FreeFunctionPointer (Fundamental bool_t)
        [Parameter ByConstReference StdString,
         Parameter ByConstReference (StdVector (Fundamental int_t)),
         Parameter ByValue (Fundamental double_t)])
     = ''(Ljava/lang/String;[ID)Z''
   \<and> Function_signature
       (MemberFunctionPointer (NativeClass ''com.kheiron.ktbind.Sample'') Void
          [Parameter ByConstReference (DataClass ''com.kheiron.ktbind.Data'')])
     = ''(Lcom/kheiron/ktbind/Data;)V''
   \<and> Function_signature
       (ConstMemberFunctionPointer (NativeClass ''com.kheiron.ktbind.Sample'')
          (DataClass ''com.kheiron.ktbind.Data'') [])
     = ''()Lcom/kheiron/ktbind/Data;''"
  using signature_canonical [of "Fundamental bool_t"
      "[Parameter ByConstReference StdString,
        Parameter ByConstReference (StdVector (Fundamental int_t)),
        Parameter ByValue (Fundamental double_t)]"]
    signature_canonical [of Void "[Parameter ByConstReference (DataClass ''com.kheiron.ktbind.Data'')]"
      "NativeClass ''com.kheiron.ktbind.Sample''"]
    signature_canonical [of "DataClass ''com.kheiron.ktbind.Data''" "[]"
      "NativeClass ''com.kheiron.ktbind.Sample''"]
  by (simp add: join_def CompositeArgType_type_sig_def replace_def)

section \<open>Properties of the load entry point\<close>

lemma throw_exception_keeps:
  "throw_exception reason env = (r, env') \<Longrightarrow>
     registered env' = registered env \<and> classes env' = classes env
     \<and> RegisterNatives_failure env' = RegisterNatives_failure env"
  by (auto simp: throw_exception_def adapter_defs Let_def split: option.splits if_splits prod.splits)

lemma RegisterNatives_result:
  "RegisterNatives_failure env < 0 \<Longrightarrow> classes env cname = Some c \<Longrightarrow>
   RegisterNatives cname (map to_JNINativeMethod bindings) env =
     (if function_class_resolves env (cname, bindings)
      then (JNI_OK, env\<lparr>registered := registered env @ [installed (cname, bindings)]\<rparr>)
      else (RegisterNatives_failure env, raise ''java/lang/NoSuchMethodError'' cname env))"
  by (simp add: RegisterNatives_def function_class_resolves_def installed_def to_JNINativeMethod_def
      list_all_iff)

lemma register_function_bindings_result:
  "register_function_bindings m env = (r, env') \<Longrightarrow> RegisterNatives_failure env < 0 \<Longrightarrow>
     registered env' = registered env @ map installed (takeWhile (function_class_resolves env) m)
     \<and> classes env' = classes env
     \<and> RegisterNatives_failure env' = RegisterNatives_failure env
     \<and> (r = Inr None) = list_all (function_class_resolves env) m
     \<and> (r = Inr None \<longrightarrow> pending env' = pending env)
     \<and> (\<forall>rc. r = Inr (Some rc) \<longrightarrow> rc = JNI_ERR \<or> rc = RegisterNatives_failure env)"
proof (induction m arbitrary: env)
  case Nil
  then show ?case by (auto simp: jni_return_def)
next
  case (Cons entry m)
  obtain cname bindings where entry: "entry = (cname, bindings)" by (cases entry)
  show ?case
  proof (cases "classes env cname")
    case None
    then have nr: "\<not> function_class_resolves env entry"
      by (simp add: function_class_resolves_def entry)
    from None Cons.prems(1) obtain r0 where
      t: "throw_exception (''Cannot find class '' @ [CHR 0x27] @ cname @ [CHR 0x27]
              @ '' registered as a native class in C++ code'')
            (raise ''java/lang/NoClassDefFoundError'' cname env) = (r0, env')"
      and r: "r = (case r0 of Inl e \<Rightarrow> Inl e | Inr u \<Rightarrow> Inr (Some JNI_ERR))"
      by (auto simp: entry FindClass_def jni_bind_def jni_return_def split: prod.splits sum.splits)
    from throw_exception_keeps [OF t] nr r show ?thesis
      by (auto simp: raise_def split: sum.splits)
  next
    case (Some c)
    show ?thesis
    proof (cases "function_class_resolves env entry")
      case True
      let ?env2 = "env\<lparr>registered := registered env @ [installed entry]\<rparr>"
      from Some True Cons.prems have rec: "register_function_bindings m ?env2 = (r, env')"
        by (simp add: entry FindClass_def RegisterNatives_result JNI_OK_def)
      have f: "RegisterNatives_failure ?env2 < 0" using Cons.prems(2) by simp
      have same: "function_class_resolves ?env2 = function_class_resolves env"
        by (rule ext) (simp add: function_class_resolves_def)
      from Cons.IH [OF rec f] True show ?thesis
        by (simp add: same)
    next
      case False
      from Some False Cons.prems have "r = Inr (Some (RegisterNatives_failure env))"
        and "env' = raise ''java/lang/NoSuchMethodError'' cname env"
        by (auto simp: entry FindClass_def RegisterNatives_result JNI_OK_def)
      with False show ?thesis by (simp add: raise_def)
    qed
  qed
qed

lemma GetFieldID_result:
  "classes env cls = Some c \<Longrightarrow>
   GetFieldID cls name sig env =
     (if (name, sig) \<in> set (instance_fields c) then (Some (name, sig), env)
      else (None, raise ''java/lang/NoSuchFieldError'' name env))"
  by (simp add: GetFieldID_def)

lemma check_fields_result:
  "check_fields cname cls bindings env = (r, env') \<Longrightarrow> classes env cls = Some c \<Longrightarrow>
     registered env' = registered env \<and> classes env' = classes env
     \<and> (r = Inr None) = list_all (\<lambda>binding. (field_name binding, field_signature binding) \<in> set (instance_fields c)) bindings
     \<and> (r = Inr None \<longrightarrow> env' = env)
     \<and> (\<forall>rc. r = Inr (Some rc) \<longrightarrow> rc = JNI_ERR)"
proof (induction bindings arbitrary: env)
  case Nil
  then show ?case by (auto simp: jni_return_def)
next
  case (Cons binding bindings)
  show ?case
  proof (cases "(field_name binding, field_signature binding) \<in> set (instance_fields c)")
    case True
    with Cons.prems have rec: "check_fields cname cls bindings env = (r, env')"
      by (simp add: GetFieldID_result)
    from Cons.IH [OF rec Cons.prems(2)] True show ?thesis by simp
  next
    case False
    with Cons.prems obtain r0 where
      t: "throw_exception (''Cannot find field '' @ [CHR 0x27] @ field_name binding @ [CHR 0x27]
              @ '' with type signature '' @ [CHR 0x27] @ field_signature binding @ [CHR 0x27]
              @ '' in registered class '' @ [CHR 0x27] @ cname @ [CHR 0x27])
            (raise ''java/lang/NoSuchFieldError'' (field_name binding) env) = (r0, env')"
      and r: "r = (case r0 of Inl e \<Rightarrow> Inl e | Inr u \<Rightarrow> Inr (Some JNI_ERR))"
      by (auto simp: GetFieldID_result jni_bind_def jni_return_def split: prod.splits sum.splits)
    from throw_exception_keeps [OF t] False r show ?thesis
      by (auto simp: raise_def split: sum.splits)
  qed
qed

lemma check_field_bindings_result:
  "check_field_bindings m env = (r, env') \<Longrightarrow>
     registered env' = registered env \<and> classes env' = classes env
     \<and> (r = Inr None) = list_all (field_class_resolves env) m
     \<and> (r = Inr None \<longrightarrow> env' = env)
     \<and> (\<forall>rc. r = Inr (Some rc) \<longrightarrow> rc = JNI_ERR)"
proof (induction m arbitrary: env)
  case Nil
  then show ?case by (auto simp: jni_return_def)
next
  case (Cons entry m)
  obtain cname bindings where entry: "entry = (cname, bindings)" by (cases entry)
  show ?case
  proof (cases "classes env cname")
    case None
    then have nr: "\<not> field_class_resolves env entry"
      by (simp add: field_class_resolves_def entry)
    from None Cons.prems(1) obtain r0 where
      t: "throw_exception (''Cannot find class '' @ [CHR 0x27] @ cname @ [CHR 0x27]
              @ '' registered as a data class in C++ code'')
            (raise ''java/lang/NoClassDefFoundError'' cname env) = (r0, env')"
      and r: "r = (case r0 of Inl e \<Rightarrow> Inl e | Inr u \<Rightarrow> Inr (Some JNI_ERR))"
      by (auto simp: entry FindClass_def jni_bind_def jni_return_def split: prod.splits sum.splits)
    from throw_exception_keeps [OF t] nr r show ?thesis
      by (auto simp: raise_def split: sum.splits)
  next
    case (Some c)
    obtain r1 env1 where c1: "check_fields cname cname bindings env = (r1, env1)"
      by (cases "check_fields cname cname bindings env")
    note f = check_fields_result [OF c1 Some]
    show ?thesis
    proof (cases "r1 = Inr None")
      case True
      with f have e1: "env1 = env" by simp
      from True c1 Some Cons.prems have rec: "check_field_bindings m env = (r, env')"
        by (simp add: entry FindClass_def e1)
      from f True have ok: "field_class_resolves env entry"
        by (simp add: field_class_resolves_def entry Some)
      from Cons.IH [OF rec] ok show ?thesis by simp
    next
      case False
      with f have nr: "\<not> field_class_resolves env entry"
        by (simp add: field_class_resolves_def entry Some)
      from False c1 Some Cons.prems have "r = r1" "env' = env1"
        by (auto simp: entry FindClass_def split: sum.splits option.splits)
      with f nr False show ?thesis by auto
    qed
  qed
qed

text \<open>
  C1, as the code has it. Let the loading thread be attached and let the initializer
  return. The load returns the success code exactly when every registered class, method
  and field resolves (a method under the zero-terminated string that starts where its
  registered name starts, which is what the code hands to \<open>RegisterNatives\<close>) and the
  initializer has left no exception pending; otherwise it
  returns \<open>JNI_ERR\<close> or the negative code of \<open>RegisterNatives\<close>. In every case the native
  methods registered with the VM at the end are those of the classes that precede, in the
  order of the registry, the first class whose lookup or registration fails: all of them
  after a success, and after a failure those that were installed before it, which the
  code does not take back.
\<close>

theorem load_outcome:
  assumes "GetEnv jvm s = (JNI_OK, e)"
    and "initializer b0 env = (Inr (), b1, env1)"
    and "RegisterNatives_failure env1 < 0"
    and "java_initialization_impl jvm initializer s b0 env = Some (rc, s', b, env')"
  shows "(rc = JNI_VERSION_1_6) = (resolves env1 b1 \<and> pending env1 = None)
       \<and> rc \<in> {JNI_VERSION_1_6, JNI_ERR, RegisterNatives_failure env1}
       \<and> b = b1
       \<and> registered env' = registered env1
            @ map installed (takeWhile (function_class_resolves env1) (FunctionBindings b1))"
proof -
  obtain r1 env2 where l1: "register_function_bindings (FunctionBindings b1) env1 = (r1, env2)"
    by (cases "register_function_bindings (FunctionBindings b1) env1")
  note f1 = register_function_bindings_result [OF l1 assms(3)]
  obtain r2 env3 where l2: "check_field_bindings (FieldBindings b1) env2 = (r2, env3)"
    by (cases "check_field_bindings (FieldBindings b1) env2")
  note f2 = check_field_bindings_result [OF l2]
  have same: "field_class_resolves env2 = field_class_resolves env1"
    using f1 by (intro ext) (simp add: field_class_resolves_def)
  have v: "JNI_VERSION_1_6 \<noteq> JNI_ERR" "JNI_VERSION_1_6 \<noteq> RegisterNatives_failure env1"
    using assms(3) by (simp_all add: JNI_VERSION_1_6_def JNI_ERR_def)
  from assms(1,4) obtain s2 where
    t: "(case java_initialization_try initializer b0 env of
           (Inr (Some rc'), b, env') \<Rightarrow> Some (rc', s2, b, env')
         | (Inr None, b, env') \<Rightarrow> Some (JNI_VERSION_1_6, s2, b, env')
         | (Inl (ThrownJavaException w), b, env') \<Rightarrow> Some (JNI_ERR, s2, b, env')
         | (Inl (ThrownStdException w), b, env') \<Rightarrow> Some (JNI_ERR, s2, b, env')
         | (Inl ThrownOther, b, env') \<Rightarrow> None
         | (Inl Undefined_behaviour, b, env') \<Rightarrow> None) = Some (rc, s', b, env')"
    by (auto simp: java_initialization_impl_def JNI_OK_def split: option.splits)
  have all: "list_all (function_class_resolves env1) (FunctionBindings b1)
     \<Longrightarrow> takeWhile (function_class_resolves env1) (FunctionBindings b1) = FunctionBindings b1"
    by (simp add: list_all_iff)
  show ?thesis
  proof (cases "r1 = Inr None")
    case False
    with t assms(2) l1 f1 v show ?thesis
      by (auto simp: java_initialization_try_def resolves_def
          split: sum.splits option.splits cpp_exception.splits)
  next
    case True
    show ?thesis
    proof (cases "pending env1 = None")
      case False
      with True t assms(2) l1 f1 v show ?thesis
        by (auto simp: java_initialization_try_def resolves_def ExceptionCheck_def)
    next
      case p: True
      with True t assms(2) l1 l2 f1 f2 v same show ?thesis
        by (auto simp: java_initialization_try_def resolves_def ExceptionCheck_def
          split: sum.splits option.splits cpp_exception.splits)
    qed
  qed
qed

lemmas load_defs =
  java_initialization_impl_def java_initialization_try_def host_vm_def two_classes_def
  load_env_def example_env_def new_thread_def no_bindings_def GetEnv_def load_def setEnv_def
  native_class_def replace_def JNI_OK_def JNI_ERR_def JNI_VERSION_1_6_def RegisterNatives_def
  GetFieldID_def to_JNINativeMethod_def Function_type_signature_def callable_sig_def join_def
  throw_exception_def resolves_def function_class_resolves_def field_class_resolves_def
  installed_def Let_def string_view_data_def string_view_of_def c_str_def one_constructor_def
  constructor_env_def CompositeArgType_type_sig_def

theorem load_outcome_witness:
  "java_initialization_impl host_vm two_classes (new_thread None True) no_bindings (load_env True)
     = Some (JNI_VERSION_1_6,
             (new_thread None True)\<lparr>Environment_vm := Some 1, Environment_env := Some 7\<rparr>,
             native_class (NativeClass ''B'') (native_class (NativeClass ''A'') no_bindings),
             (load_env True)\<lparr>registered :=
                [(''A'', [\<lparr>method_name = ''close'', method_signature = ''()V'',
                            fnPtr = DestroyObjectAdapter (NativeClass ''A'')\<rparr>]),
                 (''B'', [\<lparr>method_name = ''close'', method_signature = ''()V'',
                            fnPtr = DestroyObjectAdapter (NativeClass ''B'')\<rparr>])]\<rparr>)
   \<and> resolves (load_env True)
        (native_class (NativeClass ''B'') (native_class (NativeClass ''A'') no_bindings))
   \<and> map_option (\<lambda>(rc, s, b, env). (rc, map fst (registered env)))
        (java_initialization_impl host_vm (one_constructor (string_view_of ''create''))
           (new_thread None True) no_bindings constructor_env)
       = Some (JNI_VERSION_1_6, [''S''])
   \<and> map_option (\<lambda>(rc, s, b, env). (rc, map fst (registered env)))
        (java_initialization_impl host_vm
           (one_constructor \<lparr>characters = ''create'', following = ''_extra''\<rparr>)
           (new_thread None True) no_bindings constructor_env)
       = Some (- 1, [])"
proof -
  let ?b = "native_class (NativeClass ''B'') (native_class (NativeClass ''A'') no_bindings)"
  have g: "GetEnv host_vm (new_thread None True) = (JNI_OK, Some 7)"
    by (simp add: load_defs)
  have i: "two_classes no_bindings (load_env True) = (Inr (), ?b, load_env True)"
    by (simp add: two_classes_def)
  have f: "RegisterNatives_failure (load_env True) < 0"
    by (simp add: load_defs)
  have r: "java_initialization_impl host_vm two_classes (new_thread None True) no_bindings (load_env True)
     = Some (JNI_VERSION_1_6,
             (new_thread None True)\<lparr>Environment_vm := Some 1, Environment_env := Some 7\<rparr>,
             ?b,
             (load_env True)\<lparr>registered :=
                [(''A'', [\<lparr>method_name = ''close'', method_signature = ''()V'',
                            fnPtr = DestroyObjectAdapter (NativeClass ''A'')\<rparr>]),
                 (''B'', [\<lparr>method_name = ''close'', method_signature = ''()V'',
                            fnPtr = DestroyObjectAdapter (NativeClass ''B'')\<rparr>])]\<rparr>)"
    by (simp add: load_defs adapter_defs)
  have c1: "map_option (\<lambda>(rc, s, b, env). (rc, map fst (registered env)))
        (java_initialization_impl host_vm (one_constructor (string_view_of ''create''))
           (new_thread None True) no_bindings constructor_env)
       = Some (JNI_VERSION_1_6, [''S''])"
    by (simp add: load_defs adapter_defs)
  have c2: "map_option (\<lambda>(rc, s, b, env). (rc, map fst (registered env)))
        (java_initialization_impl host_vm
           (one_constructor \<lparr>characters = ''create'', following = ''_extra''\<rparr>)
           (new_thread None True) no_bindings constructor_env)
       = Some (- 1, [])"
    by (simp add: load_defs adapter_defs)
  from load_outcome [OF g i f r] r c1 c2 show ?thesis by simp
qed

text \<open>
  (The last two loads of the witness register a constructor of the class \<open>S\<close>, which
  declares the native method \<open>create\<close>: under the name \<open>create\<close> given as a zero-terminated
  string the load succeeds; under the view of the first six characters of \<open>create_extra\<close>
  the code hands \<open>create_extra\<close> to \<open>RegisterNatives\<close> and the load fails with its code.)
\<close>

text \<open>
  C1 as stated (after a failure no binding remains installed) fails: when the class \<open>B\<close>
  is not found the load returns \<open>JNI_ERR\<close>, and the native method registered for the class
  \<open>A\<close> before the failure is still registered.
\<close>

theorem load_not_atomic_counterexample:
  "map_option (\<lambda>(rc, s, b, env). (rc, map fst (registered env), map fst (FunctionBindings b)))
     (java_initialization_impl host_vm two_classes (new_thread None True) no_bindings (load_env False))
   = Some (JNI_ERR, [''A''], [''A'', ''B''])"
  by (simp add: load_defs adapter_defs)

section \<open>Properties of the sequence conversions\<close>

lemma vm_ok_logged [simp]: "vm_ok ord (logged env l) = vm_ok ord env"
  by (simp add: vm_ok_def logged_def)

lemma logged_logged [simp]: "logged (logged env a) b = logged env (a @ b)"
  by (simp add: logged_def)

lemma logged_Nil [simp]: "logged env [] = env"
  by (simp add: logged_def)

lemma jni_log_logged: "jni_log c env = (Inr (), logged env [c])"
  by (simp add: jni_log_def logged_def)

lemma allocate_ok: "vm_ok ord env \<Longrightarrow> allocate c obj env = (Inr obj, logged env [c])"
  by (simp add: allocate_def vm_ok_def logged_def)

lemma LocalClassRef_ok:
  "vm_ok ord env \<Longrightarrow> n \<in> set bootstrap_classes \<Longrightarrow> LocalClassRef n env = (Inr n, env)"
  by (auto simp: vm_ok_def LocalClassRef_def FindClass_def list_all_iff split: option.splits)

lemma jni_foldl_logged:
  assumes "\<And>acc x env. x \<in> set xs \<Longrightarrow> vm_ok ord env \<Longrightarrow>
             body (rep acc) x env = (Inr (rep (acc @ [g x])), logged env (l x))"
    and "vm_ok ord env"
  shows "jni_foldl body (rep acc) xs env
           = (Inr (rep (acc @ map g xs)), logged env (concat (map l xs)))"
  using assms
proof (induction xs arbitrary: acc env)
  case Nil
  then show ?case by (simp add: jni_return_def)
next
  case (Cons x xs)
  have s: "body (rep acc) x env = (Inr (rep (acc @ [g x])), logged env (l x))"
    using Cons.prems by simp
  have "jni_foldl body (rep (acc @ [g x])) xs (logged env (l x))
           = (Inr (rep ((acc @ [g x]) @ map g xs)), logged (logged env (l x)) (concat (map l xs)))"
    using Cons.prems by (intro Cons.IH) simp_all
  then show ?case by (simp add: jni_bind_def s)
qed

lemma array_java_value:
  "vm_ok ord env \<Longrightarrow>
   java_value (FundamentalArgArrayType F) (CSequence xs) env
     = (Inr (JArray (map (static_cast_to_java (java_type F)) xs)),
        logged env [NewArray (length xs), SetArrayRegion (length xs)])"
  by (simp add: FundamentalArgArrayType_def FundamentalArgArrayType_java_value_def jni_bind_def
      allocate_ok jni_log_logged jni_return_def)

lemma array_native_value:
  "native_value (FundamentalArgArrayType F) (JArray js) env
     = (Inr (CSequence (map static_cast_to_native js)),
        logged env [GetArrayLength, GetArrayRegion (length js)])"
  by (simp add: FundamentalArgArrayType_def FundamentalArgArrayType_native_value_def jni_bind_def
      jni_log_logged jni_return_def)

lemma list_java_value:
  assumes "\<forall>x\<in>set xs. \<forall>env. vm_ok ord env \<longrightarrow>
             java_value A x env = (Inr (jv x), logged env (l1 x))
             \<and> java_box A (jv x) env = (Inr (jb x), logged env (l2 x))"
    and "vm_ok ord env"
  shows "java_value (ListArgType A) (CSequence xs) env
         = (Inr (JArrayList (map jb xs)),
            logged env (NewObject ''java/util/ArrayList''
               # concat (map (\<lambda>x. l1 x @ l2 x @ [CallMethod ''add'']) xs)))"
proof -
  have step: "\<And>acc x env. x \<in> set xs \<Longrightarrow> vm_ok ord env \<Longrightarrow>
      jni_bind (java_value A x) (\<lambda>converted.
        jni_bind (java_box A converted) (\<lambda>arrayListElement.
          ArrayList_add (JArrayList acc) arrayListElement)) env
      = (Inr (JArrayList (acc @ [jb x])), logged env (l1 x @ l2 x @ [CallMethod ''add'']))"
    using assms(1) by (simp add: jni_bind_def ArrayList_add_def jni_log_logged jni_return_def)
  have loop: "vm_ok ord (logged env [NewObject ''java/util/ArrayList'']) \<Longrightarrow>
        jni_foldl (\<lambda>arrayList element.
            jni_bind (java_value A element) (\<lambda>converted.
              jni_bind (java_box A converted) (\<lambda>arrayListElement.
                ArrayList_add arrayList arrayListElement)))
          (JArrayList []) xs (logged env [NewObject ''java/util/ArrayList''])
        = (Inr (JArrayList ([] @ map jb xs)),
           logged (logged env [NewObject ''java/util/ArrayList''])
             (concat (map (\<lambda>x. l1 x @ l2 x @ [CallMethod ''add'']) xs)))"
    by (rule jni_foldl_logged [where rep = JArrayList and g = jb]) (simp_all add: step)
  show ?thesis
    using assms(2) loop
    by (simp add: ListArgType_def ListArgType_java_value_def jni_bind_def
        LocalClassRef_ok [OF assms(2)] bootstrap_classes_def allocate_ok [OF assms(2)])
qed

lemma list_native_value:
  assumes "\<forall>j\<in>set js. \<forall>env. vm_ok ord env \<longrightarrow>
             java_unbox A j env = (Inr (ju j), logged env (l3 j))
             \<and> native_value A (ju j) env = (Inr (nv j), logged env (l4 j))"
    and "vm_ok ord env"
  shows "native_value (ListArgType A) (JArrayList js) env
         = (Inr (CSequence (map nv js)),
            logged env (CallMethod ''size''
               # concat (map (\<lambda>j. CallMethod ''get'' # l3 j @ l4 j) js)))"
proof -
  have step: "\<And>acc j env. j \<in> set js \<Longrightarrow> vm_ok ord env \<Longrightarrow>
      jni_bind (jni_log (CallMethod ''get'')) (\<lambda>u.
        jni_bind (java_unbox A j) (\<lambda>unboxed.
          jni_bind (native_value A unboxed) (\<lambda>element.
            jni_return (acc @ [element])))) env
      = (Inr (acc @ [nv j]), logged env (CallMethod ''get'' # l3 j @ l4 j))"
    using assms(1) by (simp add: jni_bind_def jni_log_logged jni_return_def)
  have loop: "vm_ok ord (logged env [CallMethod ''size'']) \<Longrightarrow>
        jni_foldl (\<lambda>nativeList listElement.
            jni_bind (jni_log (CallMethod ''get'')) (\<lambda>u.
              jni_bind (java_unbox A listElement) (\<lambda>unboxed.
                jni_bind (native_value A unboxed) (\<lambda>element.
                  jni_return (nativeList @ [element])))))
          [] js (logged env [CallMethod ''size''])
        = (Inr ([] @ map nv js),
           logged (logged env [CallMethod ''size''])
             (concat (map (\<lambda>j. CallMethod ''get'' # l3 j @ l4 j) js)))"
    by (rule jni_foldl_logged [where rep = "\<lambda>x. x" and g = nv]) (simp_all add: step)
  show ?thesis
    using assms(2) loop
    by (simp add: ListArgType_def ListArgType_native_value_def jni_bind_def jni_log_logged
        jni_return_def)
qed

lemma vector_dispatch:
  "vector_is_FundamentalArgArrayType T \<Longrightarrow>
     \<exists>F. T = Fundamental F \<and> F \<noteq> bool_t
        \<and> type_sig (StdVector T) = ''['' @ fundamental_type_sig F
        \<and> length (fundamental_type_sig F) = 1
        \<and> ArgType_of declared (StdVector T) = FundamentalArgArrayType F"
  by (induction T rule: vector_is_FundamentalArgArrayType.induct) (simp_all add: join_def)

lemma vector_dispatch_list:
  "\<not> vector_is_FundamentalArgArrayType T \<Longrightarrow>
     type_sig (StdVector T) = ''Ljava/util/List;''
     \<and> ArgType_of declared (StdVector T) = ListArgType (ArgType_of declared T)"
  by (induction T rule: vector_is_FundamentalArgArrayType.induct)
     (simp_all add: join_def CompositeArgType_type_sig_def)

lemma list_dispatch:
  "type_sig (StdList T) = ''Ljava/util/List;''
     \<and> ArgType_of declared (StdList T) = ListArgType (ArgType_of declared T)"
  by (simp add: join_def CompositeArgType_type_sig_def)

text \<open>
  C8, as the code has it. A \<open>std::vector<T>\<close> has the flat array representation exactly
  when \<open>T\<close> is one of the thirteen fundamental types other than \<open>bool\<close>: its signature is
  an opening bracket followed by the one-character code of \<open>T\<close>, the outbound conversion
  makes two JNI calls whatever the length (the allocation and one region copy) and the
  inbound conversion two (the length and one region copy), with no boxing. Every other
  \<open>std::vector<T>\<close> (that of \<open>bool\<close> included) and every \<open>std::list<T>\<close> (those of numbers
  included) has the signature of \<open>java/util/List\<close>; outbound, after creating the list, the
  conversion performs for each element in order the element's \<open>java_value\<close>, its
  \<open>java_box\<close> and one call of \<open>add\<close>; inbound, after one call of \<open>size\<close>, it performs for each
  element in order one call of \<open>get\<close>, the element's \<open>java_unbox\<close> and its \<open>native_value\<close>.
  The element conversions are described by what they return and what they log.
\<close>

theorem sequence_wire_representation:
  assumes "\<forall>x\<in>set xs. \<forall>env. vm_ok ord env \<longrightarrow>
             java_value (ArgType_of declared T) x env = (Inr (jv x), logged env (l1 x))
             \<and> java_box (ArgType_of declared T) (jv x) env = (Inr (jb x), logged env (l2 x))"
    and "\<forall>j\<in>set js. \<forall>env. vm_ok ord env \<longrightarrow>
             java_unbox (ArgType_of declared T) j env = (Inr (ju j), logged env (l3 j))
             \<and> native_value (ArgType_of declared T) (ju j) env = (Inr (nv j), logged env (l4 j))"
    and "vm_ok ord env"
  shows "vector_is_FundamentalArgArrayType T = (\<exists>F. T = Fundamental F \<and> F \<noteq> bool_t)
     \<and> (if vector_is_FundamentalArgArrayType T
         then (\<exists>F. T = Fundamental F
                \<and> type_sig (StdVector T) = ''['' @ fundamental_type_sig F
                \<and> length (fundamental_type_sig F) = 1
                \<and> java_value (ArgType_of declared (StdVector T)) (CSequence xs) env
                    = (Inr (JArray (map (static_cast_to_java (java_type F)) xs)),
                       logged env [NewArray (length xs), SetArrayRegion (length xs)])
                \<and> native_value (ArgType_of declared (StdVector T)) (JArray js) env
                    = (Inr (CSequence (map static_cast_to_native js)),
                       logged env [GetArrayLength, GetArrayRegion (length js)]))
         else (type_sig (StdVector T) = ''Ljava/util/List;''
                \<and> java_value (ArgType_of declared (StdVector T)) (CSequence xs) env
                    = (Inr (JArrayList (map jb xs)),
                       logged env (NewObject ''java/util/ArrayList''
                         # concat (map (\<lambda>x. l1 x @ l2 x @ [CallMethod ''add'']) xs)))
                \<and> native_value (ArgType_of declared (StdVector T)) (JArrayList js) env
                    = (Inr (CSequence (map nv js)),
                       logged env (CallMethod ''size''
                         # concat (map (\<lambda>j. CallMethod ''get'' # l3 j @ l4 j) js)))))
     \<and> type_sig (StdList T) = ''Ljava/util/List;''
     \<and> java_value (ArgType_of declared (StdList T)) (CSequence xs) env
         = (Inr (JArrayList (map jb xs)),
            logged env (NewObject ''java/util/ArrayList''
              # concat (map (\<lambda>x. l1 x @ l2 x @ [CallMethod ''add'']) xs)))
     \<and> native_value (ArgType_of declared (StdList T)) (JArrayList js) env
         = (Inr (CSequence (map nv js)),
            logged env (CallMethod ''size''
              # concat (map (\<lambda>j. CallMethod ''get'' # l3 j @ l4 j) js)))"
proof -
  have which: "vector_is_FundamentalArgArrayType T = (\<exists>F. T = Fundamental F \<and> F \<noteq> bool_t)"
    by (induction T rule: vector_is_FundamentalArgArrayType.induct) simp_all
  have lists: "type_sig (StdList T) = ''Ljava/util/List;''
     \<and> java_value (ArgType_of declared (StdList T)) (CSequence xs) env
         = (Inr (JArrayList (map jb xs)),
            logged env (NewObject ''java/util/ArrayList''
              # concat (map (\<lambda>x. l1 x @ l2 x @ [CallMethod ''add'']) xs)))
     \<and> native_value (ArgType_of declared (StdList T)) (JArrayList js) env
         = (Inr (CSequence (map nv js)),
            logged env (CallMethod ''size''
              # concat (map (\<lambda>j. CallMethod ''get'' # l3 j @ l4 j) js)))"
    using list_dispatch [of T declared] list_java_value [OF assms(1) assms(3)]
      list_native_value [OF assms(2) assms(3)]
    by simp
  show ?thesis
  proof (cases "vector_is_FundamentalArgArrayType T")
    case True
    from vector_dispatch [OF True, of declared] obtain F where
      F: "T = Fundamental F" "F \<noteq> bool_t"
        "type_sig (StdVector T) = ''['' @ fundamental_type_sig F"
        "length (fundamental_type_sig F) = 1"
        "ArgType_of declared (StdVector T) = FundamentalArgArrayType F"
      by blast
    have "\<exists>F. T = Fundamental F
                \<and> type_sig (StdVector T) = ''['' @ fundamental_type_sig F
                \<and> length (fundamental_type_sig F) = 1
                \<and> java_value (ArgType_of declared (StdVector T)) (CSequence xs) env
                    = (Inr (JArray (map (static_cast_to_java (java_type F)) xs)),
                       logged env [NewArray (length xs), SetArrayRegion (length xs)])
                \<and> native_value (ArgType_of declared (StdVector T)) (JArray js) env
                    = (Inr (CSequence (map static_cast_to_native js)),
                       logged env [GetArrayLength, GetArrayRegion (length js)])"
      using F array_java_value [OF assms(3), of F xs] array_native_value [of F js env]
      by (intro exI [of _ F]) simp
    with True which lists show ?thesis by simp
  next
    case False
    from vector_dispatch_list [OF False, of declared]
    have "type_sig (StdVector T) = ''Ljava/util/List;''
                \<and> java_value (ArgType_of declared (StdVector T)) (CSequence xs) env
                    = (Inr (JArrayList (map jb xs)),
                       logged env (NewObject ''java/util/ArrayList''
                         # concat (map (\<lambda>x. l1 x @ l2 x @ [CallMethod ''add'']) xs)))
                \<and> native_value (ArgType_of declared (StdVector T)) (JArrayList js) env
                    = (Inr (CSequence (map nv js)),
                       logged env (CallMethod ''size''
                         # concat (map (\<lambda>j. CallMethod ''get'' # l3 j @ l4 j) js)))"
      using list_java_value [OF assms(1) assms(3)] list_native_value [OF assms(2) assms(3)]
      by simp
    with False which lists show ?thesis by simp
  qed
qed

lemma vm_ok_example: "vm_ok reversed (example_env\<lparr>iteration_order := reversed\<rparr>)"
  by (auto simp: vm_ok_def example_env_def reversed_def bootstrap_classes_def)

text \<open>
  The vector and the list of the strings \<open>A\<close> and the empty string, out and back.
\<close>

theorem sequence_wire_representation_witness:
  "java_value (ArgType_of nothing_declared (StdVector StdString)) (CSequence [CString ''A'', CString []])
       (example_env\<lparr>iteration_order := reversed\<rparr>)
     = (Inr (JArrayList [JString ''A'', JString []]),
        logged (example_env\<lparr>iteration_order := reversed\<rparr>)
          [NewObject ''java/util/ArrayList'', NewStringUTF, CallMethod ''add'',
           NewStringUTF, CallMethod ''add''])
   \<and> native_value (ArgType_of nothing_declared (StdList StdString)) (JArrayList [JString ''A'', JString []])
       (example_env\<lparr>iteration_order := reversed\<rparr>)
     = (Inr (CSequence [CString ''A'', CString []]),
        logged (example_env\<lparr>iteration_order := reversed\<rparr>)
          [CallMethod ''size'', CallMethod ''get'', GetStringUTFLength, GetStringUTFChars,
           CallMethod ''get'', GetStringUTFLength])"
proof -
  let ?env = "example_env\<lparr>iteration_order := reversed\<rparr>"
  have outbound: "\<forall>x\<in>set [CString ''A'', CString []]. \<forall>env. vm_ok reversed env \<longrightarrow>
             java_value (ArgType_of nothing_declared StdString) x env
               = (Inr (string_to_java x), logged env [NewStringUTF])
             \<and> java_box (ArgType_of nothing_declared StdString) (string_to_java x) env
               = (Inr (string_to_java x), logged env [])"
    by (simp add: StringArgType_def String_java_value_def allocate_ok string_to_java_def
        jni_return_def NewStringUTF_string_def c_str_def)
  have inbound: "\<forall>j\<in>set [JString ''A'', JString []]. \<forall>env. vm_ok reversed env \<longrightarrow>
             java_unbox (ArgType_of nothing_declared StdString) j env = (Inr j, logged env [])
             \<and> native_value (ArgType_of nothing_declared StdString) j env
               = (Inr (string_to_native j), logged env (string_native_log j))"
    by (simp add: StringArgType_def String_native_value_def string_to_native_def
        string_native_log_def jni_return_def jni_bind_def jni_log_logged)
  from sequence_wire_representation [OF outbound inbound vm_ok_example]
  show ?thesis
    by (simp add: string_to_java_def string_to_native_def string_native_log_def)
qed

text \<open>
  C8 as stated fails for \<open>std::list<int>\<close>: an ordered sequence of a fixed-width numeric
  primitive whose wire representation is not the flat array \<open>[I\<close> but \<open>java/util/List\<close>,
  each element being boxed.
\<close>

theorem list_of_int_counterexample:
  "type_sig (StdList (Fundamental int_t)) = ''Ljava/util/List;''
   \<and> type_sig (StdList (Fundamental int_t)) \<noteq> ''['' @ type_sig (Fundamental int_t)
   \<and> fst (java_value (ArgType_of nothing_declared (StdList (Fundamental int_t)))
            (CSequence [CInt32 7]) example_env)
       = Inr (JArrayList [JBoxed ''java/lang/Integer'' (JInt 7)])"
  by (simp add: join_def CompositeArgType_type_sig_def ListArgType_def ListArgType_java_value_def
      FundamentalArgType_def Fundamental_java_box_def ArrayList_add_def allocate_def
      adapter_defs example_env_def)

section \<open>Properties of the value conversions\<close>

subsection \<open>Rules for computations that return\<close>

lemma kept_refl [simp]: "kept env env"
  by (simp add: kept_def)

lemma kept_trans: "kept env env' \<Longrightarrow> kept env' env'' \<Longrightarrow> kept env env''"
  by (simp add: kept_def)

lemma kept_logged: "data_accesses l = [] \<Longrightarrow> kept env (logged env l)"
  by (simp add: kept_def logged_def data_accesses_def)

lemma returns_return: "Q x \<Longrightarrow> returns ord (jni_return x) Q"
  by (simp add: returns_def jni_return_def)

lemma returns_bind:
  assumes "returns ord m P" and "\<And>x. P x \<Longrightarrow> returns ord (f x) Q"
  shows "returns ord (jni_bind m f) Q"
  unfolding returns_def
proof (intro allI impI)
  fix env assume "vm_ok ord env"
  with assms(1) obtain r env' where m: "m env = (Inr r, env')" "vm_ok ord env'" "kept env env'" "P r"
    unfolding returns_def by blast
  from assms(2) [OF m(4)] m(2) obtain r' env'' where
    f: "f r env' = (Inr r', env'')" "vm_ok ord env''" "kept env' env''" "Q r'"
    unfolding returns_def by blast
  from m(3) f(3) have "kept env env''" by (rule kept_trans)
  with m f show "\<exists>r env'. jni_bind m f env = (Inr r, env') \<and> vm_ok ord env' \<and> kept env env' \<and> Q r"
    by (simp add: jni_bind_def)
qed

lemma returns_weaken: "returns ord m P \<Longrightarrow> (\<And>x. P x \<Longrightarrow> Q x) \<Longrightarrow> returns ord m Q"
  unfolding returns_def by blast

lemma returns_conj:
  assumes "returns ord m P" and "returns ord m Q"
  shows "returns ord m (\<lambda>r. P r \<and> Q r)"
  unfolding returns_def
proof (intro allI impI)
  fix env assume v: "vm_ok ord env"
  with assms(1) obtain r env' where m: "m env = (Inr r, env')" "vm_ok ord env'" "kept env env'" "P r"
    unfolding returns_def by blast
  from assms(2) v m(1) have "Q r"
    unfolding returns_def by fastforce
  with m show "\<exists>r env'. m env = (Inr r, env') \<and> vm_ok ord env' \<and> kept env env' \<and> P r \<and> Q r"
    by simp
qed

lemma returns_same:
  assumes "returns ord m P" and "returns ord m Q" and "vm_ok ord env0"
  shows "\<exists>r. P r \<and> Q r"
  using returns_conj [OF assms(1,2)] assms(3) unfolding returns_def by blast

lemma returns_log_gen: "data_accesses [c] = [] \<Longrightarrow> returns ord (jni_log c) (\<lambda>u. True)"
  by (simp add: returns_def jni_log_logged kept_logged)

lemma returns_bind_log_gen:
  "data_accesses [c] = [] \<Longrightarrow> returns ord (f ()) Q \<Longrightarrow> returns ord (jni_bind (jni_log c) f) Q"
  by (rule returns_bind [OF returns_log_gen]) simp_all

lemma returns_bind_log:
  "returns ord (f ()) Q \<Longrightarrow> returns ord (jni_bind (jni_log (CallMethod n)) f) Q"
  "returns ord (f ()) Q \<Longrightarrow> returns ord (jni_bind (jni_log (CallStaticMethod c n)) f) Q"
  "returns ord (f ()) Q \<Longrightarrow> returns ord (jni_bind (jni_log GetStringUTFLength) f) Q"
  "returns ord (f ()) Q \<Longrightarrow> returns ord (jni_bind (jni_log GetStringUTFChars) f) Q"
  "returns ord (f ()) Q \<Longrightarrow> returns ord (jni_bind (jni_log (SetArrayRegion k)) f) Q"
  "returns ord (f ()) Q \<Longrightarrow> returns ord (jni_bind (jni_log GetArrayLength) f) Q"
  "returns ord (f ()) Q \<Longrightarrow> returns ord (jni_bind (jni_log (GetArrayRegion k)) f) Q"
  by (rule returns_bind_log_gen, simp add: data_accesses_def, assumption)+

lemma returns_allocate_gen:
  "data_accesses [c] = [] \<Longrightarrow> returns ord (allocate c obj) (\<lambda>r. r = obj)"
  by (simp add: returns_def allocate_ok kept_logged)

lemma returns_bind_allocate_gen:
  "data_accesses [c] = [] \<Longrightarrow> returns ord (f obj) Q \<Longrightarrow> returns ord (jni_bind (allocate c obj) f) Q"
  by (rule returns_bind [OF returns_allocate_gen]) simp_all

lemma returns_bind_allocate:
  "returns ord (f obj) Q \<Longrightarrow> returns ord (jni_bind (allocate (NewObject c) obj) f) Q"
  "returns ord (f obj) Q \<Longrightarrow> returns ord (jni_bind (allocate (NewArray k) obj) f) Q"
  by (rule returns_bind_allocate_gen, simp add: data_accesses_def, assumption)+

lemma returns_NewStringUTF: "returns ord (allocate NewStringUTF obj) (\<lambda>r. r = obj)"
  by (rule returns_allocate_gen) (simp add: data_accesses_def)

lemma returns_LocalClassRef:
  "n \<in> set bootstrap_classes \<Longrightarrow> returns ord (LocalClassRef n) (\<lambda>r. r = n)"
  by (simp add: returns_def LocalClassRef_ok)

lemma returns_foldl_gen:
  assumes "\<And>pre x post s. whole = pre @ x # post \<Longrightarrow> I pre s \<Longrightarrow> returns ord (body s x) (I (pre @ [x]))"
    and "I pre s" and "whole = pre @ xs"
  shows "returns ord (jni_foldl body s xs) (I whole)"
  using assms(2,3)
proof (induction xs arbitrary: pre s)
  case Nil
  then show ?case by (simp add: returns_return)
next
  case (Cons x xs)
  have st: "returns ord (body s x) (I (pre @ [x]))"
    using assms(1) [of pre x xs s] Cons.prems by simp
  show ?case
    unfolding jni_foldl.simps
  proof (rule returns_bind [OF st])
    fix s' assume "I (pre @ [x]) s'"
    then show "returns ord (jni_foldl body s' xs) (I whole)"
      using Cons.prems by (intro Cons.IH) simp_all
  qed
qed

lemma returns_foldl:
  assumes "I [] s"
    and "\<And>pre x post s. xs = pre @ x # post \<Longrightarrow> I pre s \<Longrightarrow> returns ord (body s x) (I (pre @ [x]))"
  shows "returns ord (jni_foldl body s xs) (I xs)"
  using returns_foldl_gen [of xs I ord body "[]" s xs] assms by simp

lemma Top_mono: "(\<And>y. E x y \<Longrightarrow> E' x y) \<Longrightarrow> Top ord E A x j \<Longrightarrow> Top ord E' A x j"
  unfolding Top_def by (erule returns_weaken)

lemma Rep_mono: "(\<And>y. E x y \<Longrightarrow> E' x y) \<Longrightarrow> Rep ord E A x b \<Longrightarrow> Rep ord E' A x b"
  unfolding Rep_def by (erule returns_weaken) (rule Top_mono)

lemma Out_mono:
  assumes "\<And>y. E x y \<Longrightarrow> E' x y" and "Out ord E A x"
  shows "Out ord E' A x"
  using assms(2) unfolding Out_def
proof (rule returns_weaken)
  fix j assume a: "Top ord E A x j \<and> returns ord (java_box A j) (Rep ord E A x)"
  have "returns ord (java_box A j) (Rep ord E' A x)"
    using a assms(1) by (auto elim!: returns_weaken intro: Rep_mono)
  with a assms(1) show "Top ord E' A x j \<and> returns ord (java_box A j) (Rep ord E' A x)"
    by (auto intro: Top_mono)
qed

lemma exact_same: "exact x y \<Longrightarrow> same x y"
  by (simp add: exact_def same_def)

lemma Out_exact_same: "Out ord exact A x \<Longrightarrow> Out ord same A x"
  by (rule Out_mono [where E = exact]) (simp_all add: exact_same)

text \<open>
  The outbound conversion followed by boxing, as the loops of the containers run them.
\<close>

lemma Out_boxed:
  assumes "Out ord E A x" and "C \<Longrightarrow> boxes_Comparable ord A x"
  shows "returns ord (java_value A x)
           (\<lambda>j. returns ord (java_box A j) (\<lambda>b. Rep ord E A x b \<and> (\<not> C \<or> Comparable b)))"
proof (cases C)
  case False
  show ?thesis
    by (rule returns_weaken [OF assms(1) [unfolded Out_def]])
       (auto elim!: returns_weaken simp: False)
next
  case True
  have "returns ord (java_value A x)
          (\<lambda>j. (Top ord E A x j \<and> returns ord (java_box A j) (Rep ord E A x))
               \<and> returns ord (java_box A j) Comparable)"
    using assms(1) [unfolded Out_def] assms(2) [OF True, unfolded boxes_Comparable_def]
    by (rule returns_conj)
  then show ?thesis
    by (rule returns_weaken) (auto intro: returns_weaken [OF returns_conj])
qed

subsection \<open>Fundamental types and strings\<close>

lemma cast_round_trip:
  "has_fundamental J x \<Longrightarrow> static_cast_to_native (static_cast_to_java J x) = x"
  by (cases J; cases x) simp_all

lemma fundamental_class_bootstrap: "fundamental_class_name T \<in> set bootstrap_classes"
  by (cases T) (simp_all add: bootstrap_classes_def)

lemma Fundamental_fields:
  "native_value (FundamentalArgType T) v = jni_return (static_cast_to_native v)"
  "java_value (FundamentalArgType T) x = jni_return (static_cast_to_java (java_type T) x)"
  "java_box (FundamentalArgType T) = Fundamental_java_box T"
  "java_unbox (FundamentalArgType T) = Fundamental_java_unbox T"
  by (simp_all add: FundamentalArgType_def)

lemma String_fields:
  "native_value StringArgType = String_native_value"
  "java_value StringArgType = String_java_value"
  "java_box StringArgType = jni_return"
  "java_unbox StringArgType = jni_return"
  by (simp_all add: StringArgType_def)

lemma Out_Fundamental:
  assumes "has_fundamental (java_type T) x"
  shows "Out ord exact (FundamentalArgType T) x"
proof -
  let ?A = "FundamentalArgType T"
  let ?j = "static_cast_to_java (java_type T) x"
  have top: "Top ord exact ?A x ?j"
    by (simp add: Top_def Fundamental_fields returns_return exact_def cast_round_trip [OF assms])
  have rep: "Rep ord exact ?A x (JBoxed c ?j)" for c
    unfolding Rep_def
    by (simp add: Fundamental_fields Fundamental_java_unbox_def)
       (rule returns_bind_log, rule returns_return, rule top)
  have box: "returns ord (java_box ?A ?j) (Rep ord exact ?A x)"
    by (simp add: Fundamental_fields Fundamental_java_box_def)
       (rule returns_bind [OF returns_LocalClassRef [OF fundamental_class_bootstrap]],
        rule returns_bind_log, rule returns_return, simp add: rep)
  show ?thesis
    unfolding Out_def
    by (simp add: Fundamental_fields(2)) (rule returns_return, simp add: top box)
qed

lemma Comparable_Fundamental: "boxes_Comparable ord (FundamentalArgType T) x"
  unfolding boxes_Comparable_def
  by (simp add: Fundamental_fields Fundamental_java_box_def)
     (rule returns_return,
      rule returns_bind [OF returns_LocalClassRef [OF fundamental_class_bootstrap]],
      rule returns_bind_log, rule returns_return, simp)

lemma modified_utf8_no_zero: "modified_utf8 bytes \<Longrightarrow> CHR 0x00 \<notin> set bytes"
proof (induction bytes rule: modified_utf8.induct)
  case 1
  then show ?case by simp
next
  case (2 c cs)
  have z: "(of_char c :: nat) = 0" if "c = CHR 0x00" for c
    using that by simp
  show ?case
  proof (cases "1 \<le> (of_char c :: nat) \<and> (of_char c :: nat) < 0x80")
    case True
    with 2 z show ?thesis by auto
  next
    case n1: False
    show ?thesis
    proof (cases "0xC0 \<le> (of_char c :: nat) \<and> (of_char c :: nat) < 0xE0")
      case True
      with n1 "2.prems" obtain c1 cs' where cs: "cs = c1 # cs'" and k: "continuation_byte c1"
        and r: "modified_utf8 cs'"
        by (cases cs) auto
      from k z [of c1] have "c1 \<noteq> CHR 0x00" by (auto simp: continuation_byte_def)
      moreover from True z [of c] have "c \<noteq> CHR 0x00" by auto
      moreover from "2.IH"(2) [OF n1 True cs r] have "CHR 0x00 \<notin> set cs'" .
      ultimately show ?thesis by (simp add: cs)
    next
      case n2: False
      with n1 "2.prems" have r3: "0xE0 \<le> (of_char c :: nat) \<and> (of_char c :: nat) < 0xF0"
        by (auto split: if_splits)
      with n1 n2 "2.prems" obtain c1 c2 cs' where cs: "cs = c1 # c2 # cs'"
        and k: "continuation_byte c1" "continuation_byte c2" and r: "modified_utf8 cs'"
        by (cases cs; cases "tl cs") auto
      from k z [of c1] z [of c2] have "c1 \<noteq> CHR 0x00" "c2 \<noteq> CHR 0x00"
        by (auto simp: continuation_byte_def)
      moreover from r3 z [of c] have "c \<noteq> CHR 0x00" by auto
      moreover from "2.IH"(3) [OF n1 n2 r3 cs] r have "CHR 0x00 \<notin> set cs'" by simp
      ultimately show ?thesis by (simp add: cs)
    qed
  qed
qed

lemma NewStringUTF_string_modified_utf8:
  "modified_utf8 bytes \<Longrightarrow> NewStringUTF_string env bytes = bytes"
proof -
  assume m: "modified_utf8 bytes"
  from modified_utf8_no_zero [OF m] have "c_str bytes = bytes"
    unfolding c_str_def by (induction bytes) auto
  with m show ?thesis by (simp add: NewStringUTF_string_def)
qed

lemma Top_String: "Top ord exact StringArgType (CString bytes) (JString bytes)"
  unfolding Top_def
  by (auto simp: String_fields String_native_value_def exact_def
           intro!: returns_bind_log returns_return)

lemma Out_String:
  assumes "transferable StdString x"
  shows "Out ord exact StringArgType x"
proof -
  from assms obtain bytes where x: "x = CString bytes" and m: "modified_utf8 bytes"
    by (cases x) simp_all
  have top: "Top ord exact StringArgType x (JString bytes)"
    unfolding x by (rule Top_String)
  have rep: "Rep ord exact StringArgType x (JString bytes)"
    unfolding Rep_def using top by (simp add: String_fields returns_return)
  have box: "returns ord (java_box StringArgType (JString bytes)) (Rep ord exact StringArgType x)"
    using rep by (simp add: String_fields returns_return)
  have "returns ord (allocate NewStringUTF (JString bytes))
          (\<lambda>j. Top ord exact StringArgType x j
                \<and> returns ord (java_box StringArgType j) (Rep ord exact StringArgType x))"
    by (rule returns_weaken [OF returns_NewStringUTF]) (use top box in simp)
  then show ?thesis
    unfolding Out_def
    by (simp add: String_fields String_java_value_def x NewStringUTF_string_modified_utf8 [OF m])
qed

lemma Comparable_String:
  assumes "transferable StdString x"
  shows "boxes_Comparable ord StringArgType x"
proof -
  from assms obtain bytes where x: "x = CString bytes" and m: "modified_utf8 bytes"
    by (cases x) simp_all
  have "returns ord (allocate NewStringUTF (JString bytes))
          (\<lambda>j. returns ord (java_box StringArgType j) Comparable)"
    by (rule returns_weaken [OF returns_NewStringUTF]) (simp add: String_fields returns_return)
  then show ?thesis
    unfolding boxes_Comparable_def
    by (simp add: String_fields String_java_value_def x NewStringUTF_string_modified_utf8 [OF m])
qed

subsection \<open>Composite types\<close>

lemma Out_composite:
  assumes "java_box A = jni_return" and "java_unbox A = jni_return"
    and "returns ord (java_value A x) (Top ord E A x)"
  shows "Out ord E A x"
  unfolding Out_def
proof (rule returns_weaken [OF assms(3)])
  fix j assume t: "Top ord E A x j"
  have "Rep ord E A x j"
    unfolding Rep_def by (simp add: assms(2) returns_return t)
  then show "Top ord E A x j \<and> returns ord (java_box A j) (Rep ord E A x)"
    by (simp add: assms(1) returns_return t)
qed

subsection \<open>Arrays and lists\<close>

lemma Array_fields:
  "native_value (FundamentalArgArrayType F) = FundamentalArgArrayType_native_value F"
  "java_value (FundamentalArgArrayType F) = FundamentalArgArrayType_java_value F"
  "java_box (FundamentalArgArrayType F) = jni_return"
  "java_unbox (FundamentalArgArrayType F) = jni_return"
  by (simp_all add: FundamentalArgArrayType_def)

lemma Out_Array:
  assumes "list_all (has_fundamental (java_type F)) xs"
  shows "Out ord exact (FundamentalArgArrayType F) (CSequence xs)"
proof (rule Out_composite)
  let ?js = "map (static_cast_to_java (java_type F)) xs"
  have rt: "map (static_cast_to_native \<circ> static_cast_to_java (java_type F)) xs = xs"
    using assms by (intro map_idI) (simp add: list_all_iff cast_round_trip)
  have top: "Top ord exact (FundamentalArgArrayType F) (CSequence xs) (JArray ?js)"
    unfolding Top_def Array_fields FundamentalArgArrayType_native_value_def
    by (simp, intro returns_bind_log returns_return) (simp add: exact_def rt)
  show "returns ord (java_value (FundamentalArgArrayType F) (CSequence xs))
          (Top ord exact (FundamentalArgArrayType F) (CSequence xs))"
    unfolding Array_fields FundamentalArgArrayType_java_value_def
    apply simp
    apply (rule returns_bind_allocate)
    apply simp
    apply (intro returns_bind_log returns_return)
    apply (rule top)
    done
qed (simp_all add: Array_fields)

lemma List_fields:
  "native_value (ListArgType A) = ListArgType_native_value A"
  "java_value (ListArgType A) = ListArgType_java_value A"
  "java_box (ListArgType A) = jni_return"
  "java_unbox (ListArgType A) = jni_return"
  by (simp_all add: ListArgType_def)

lemma list_all2_prefix:
  assumes "list_all2 R xs ys" and "ys = pre @ b # post"
  shows "R (xs ! length pre) b" and "length pre < length xs"
proof -
  from assms have l: "length xs = length ys" by (simp add: list_all2_lengthD)
  with assms(2) show "length pre < length xs" by simp
  then have "R (xs ! length pre) (ys ! length pre)"
    using assms(1) by (simp add: list_all2_nthD)
  then show "R (xs ! length pre) b" by (simp add: assms(2))
qed

lemma Top_List:
  assumes "list_all2 (Rep ord E A) xs bs"
    and lift: "\<And>ys. list_all2 E xs ys \<Longrightarrow> E (CSequence xs) (CSequence ys)"
  shows "Top ord E (ListArgType A) (CSequence xs) (JArrayList bs)"
proof -
  let ?body = "\<lambda>nativeList listElement.
                     jni_bind (jni_log (CallMethod ''get'')) (\<lambda>u.
                     jni_bind (java_unbox A listElement) (\<lambda>unboxed.
                     jni_bind (native_value A unboxed) (\<lambda>element.
                     jni_return (nativeList @ [element]))))"
  let ?I = "\<lambda>pre acc. list_all2 E (take (length pre) xs) acc"
  have f: "returns ord (jni_foldl ?body [] bs) (?I bs)"
  proof (rule returns_foldl)
    show "?I [] []" by simp
  next
    fix pre b post acc
    assume bs: "bs = pre @ b # post" and i: "?I pre acc"
    from list_all2_prefix [OF assms(1) bs]
    have r: "Rep ord E A (xs ! length pre) b" and k: "length pre < length xs" .
    show "returns ord (?body acc b) (?I (pre @ [b]))"
    proof (rule returns_bind_log, rule returns_bind [OF r [unfolded Rep_def]],
        rule returns_bind)
      fix j assume "Top ord E A (xs ! length pre) j"
      then show "returns ord (native_value A j) (E (xs ! length pre))"
        by (simp add: Top_def)
    next
      fix y assume "E (xs ! length pre) y"
      with i k show "returns ord (jni_return (acc @ [y])) (?I (pre @ [b]))"
        by (intro returns_return) (simp add: take_Suc_conv_app_nth list_all2_appendI)
    qed
  qed
  have l: "length bs = length xs"
    using assms(1) by (simp add: list_all2_lengthD)
  show ?thesis
    unfolding Top_def List_fields ListArgType_native_value_def
    apply simp
    apply (rule returns_bind_log)
    apply (rule returns_bind [OF f])
    apply (rule returns_return)
    apply (simp add: l lift)
    done
qed

lemma Out_List:
  assumes "\<forall>x\<in>set xs. Out ord E A x"
    and lift: "\<And>ys. list_all2 E xs ys \<Longrightarrow> E (CSequence xs) (CSequence ys)"
  shows "Out ord E (ListArgType A) (CSequence xs)"
proof (rule Out_composite)
  let ?body = "\<lambda>arrayList element.
                     jni_bind (java_value A element) (\<lambda>converted.
                     jni_bind (java_box A converted) (\<lambda>arrayListElement.
                     ArrayList_add arrayList arrayListElement))"
  let ?I = "\<lambda>pre s. \<exists>bs. s = JArrayList bs \<and> list_all2 (Rep ord E A) pre bs"
  have f: "returns ord (jni_foldl ?body (JArrayList []) xs) (?I xs)"
  proof (rule returns_foldl)
    show "?I [] (JArrayList [])" by simp
  next
    fix pre x post s
    assume xs: "xs = pre @ x # post" and i: "?I pre s"
    then obtain bs where s: "s = JArrayList bs" and r: "list_all2 (Rep ord E A) pre bs"
      by blast
    from assms(1) xs have o: "Out ord E A x" by simp
    show "returns ord (?body s x) (?I (pre @ [x]))"
    proof (rule returns_bind [OF o [unfolded Out_def]], rule returns_bind)
      fix j assume "Top ord E A x j \<and> returns ord (java_box A j) (Rep ord E A x)"
      then show "returns ord (java_box A j) (Rep ord E A x)" by simp
    next
      fix b assume "Rep ord E A x b"
      with r show "returns ord (ArrayList_add s b) (?I (pre @ [x]))"
        unfolding s ArrayList_add_def
        by (simp, intro returns_bind_log returns_return)
           (simp add: list_all2_appendI)
    qed
  qed
  show "returns ord (java_value (ListArgType A) (CSequence xs))
          (Top ord E (ListArgType A) (CSequence xs))"
    unfolding List_fields ListArgType_java_value_def
    apply simp
    apply (rule returns_bind [OF returns_LocalClassRef])
     apply (simp add: bootstrap_classes_def)
    apply (rule returns_bind_allocate)
    apply simp
    apply (rule returns_weaken [OF f])
    apply (auto intro: Top_List lift)
    done
qed (simp_all add: List_fields)

lemma lift_same: "list_all2 same xs ys \<Longrightarrow> same (CSequence xs) (CSequence ys)"
  by (simp add: same_def list_all2_conv_all_nth list_eq_iff_nth_eq)

lemma lift_exact: "list_all2 exact xs ys \<Longrightarrow> exact (CSequence xs) (CSequence ys)"
  by (simp add: exact_def list_all2_conv_all_nth list_eq_iff_nth_eq)

subsection \<open>Iteration\<close>

lemma Rep_exact_inj:
  assumes "vm_ok ord env0" and "Rep ord exact A x b" and "Rep ord exact A x' b"
  shows "x = x'"
proof -
  from returns_same [OF assms(2,3) [unfolded Rep_def] assms(1)]
  obtain j where "Top ord exact A x j" and "Top ord exact A x' j" by blast
  from returns_same [OF this [unfolded Top_def] assms(1)]
  show ?thesis by (auto simp: exact_def)
qed

lemma iterate_ok: "vm_ok ord env \<Longrightarrow> iterate env es = map (\<lambda>i. es ! i) (ord (length es))"
  by (simp add: iterate_def vm_ok_def)

lemma vm_ok_order: "vm_ok ord env \<Longrightarrow> distinct (ord n) \<and> set (ord n) = {0..<n}"
  by (simp add: vm_ok_def)

lemma order_set:
  assumes "set p = {0..<length xs}"
  shows "set (map (\<lambda>i. xs ! i) p) = set xs"
  by (simp add: assms nth_image)

lemma fset_of_list_cong: "set xs = set ys \<Longrightarrow> fset_of_list xs = fset_of_list ys"
  by (metis fset_inverse fset_of_list.rep_eq)

lemma order_distinct:
  assumes "set p = {0..<length xs}" and "distinct p" and "distinct xs"
  shows "distinct (map (\<lambda>i. xs ! i) p)"
  using assms by (auto simp: distinct_map inj_on_def nth_eq_iff_index_eq)

lemma order_all2:
  assumes "set p = {0..<length xs}" and "list_all2 R xs ys"
  shows "list_all2 R (map (\<lambda>i. xs ! i) p) (map (\<lambda>i. ys ! i) p)"
proof -
  from assms(2) have "\<And>i. i < length xs \<Longrightarrow> R (xs ! i) (ys ! i)"
    by (simp add: list_all2_conv_all_nth)
  then show ?thesis
    using assms(1) by (simp add: list_all2_map1 list_all2_map2 list_all2_same)
qed

lemma returns_iterate:
  assumes "\<And>env. vm_ok ord env \<Longrightarrow> returns ord (g (map (\<lambda>i. es ! i) (ord (length es)))) Q"
  shows "returns ord (\<lambda>env. g (iterate env es) env) Q"
  using assms unfolding returns_def by (simp add: iterate_ok)

lemma take_Suc_snoc: "k < length xs \<Longrightarrow> take (Suc k) xs = take k xs @ [xs ! k]"
  by (simp add: take_Suc_conv_app_nth)

lemma distinct_take_nth: "distinct xs \<Longrightarrow> k < length xs \<Longrightarrow> xs ! k \<notin> set (take k xs)"
  by (metis distinct_take id_take_nth_drop not_distinct_conv_prefix)

subsection \<open>Sets\<close>

lemma Set_fields:
  "native_value (SetArgType cn A) = SetArgType_native_value A"
  "java_value (SetArgType cn A) = SetArgType_java_value cn A"
  "java_box (SetArgType cn A) = jni_return"
  "java_unbox (SetArgType cn A) = jni_return"
  by (simp_all add: SetArgType_def)

lemma Top_Set:
  assumes "list_all2 (Rep ord exact A) xs bs" and "distinct xs"
  shows "Top ord same (SetArgType cn A) (CSet xs) (JSet c bs)"
proof -
  let ?body = "\<lambda>nativeSet setElement.
                     jni_bind (jni_log (CallMethod ''next'')) (\<lambda>u.
                     jni_bind (java_unbox A setElement) (\<lambda>element.
                     jni_bind (native_value A element) (\<lambda>converted.
                     jni_bind (jni_log (CallMethod ''hasNext'')) (\<lambda>u.
                     jni_return (set_insert converted nativeSet)))))"
  let ?p = "ord (length bs)"
  let ?bs = "map (\<lambda>i. bs ! i) ?p"
  let ?xs = "map (\<lambda>i. xs ! i) ?p"
  let ?I = "\<lambda>pre acc. acc = take (length pre) ?xs"
  have l: "length bs = length xs"
    using assms(1) by (simp add: list_all2_lengthD)
  have loop: "returns ord (jni_bind (jni_foldl ?body [] ?bs) (\<lambda>nativeSet. jni_return (CSet nativeSet)))
                (same (CSet xs))" if v: "vm_ok ord env" for env
  proof -
    from vm_ok_order [OF v, of "length bs"]
    have p: "set ?p = {0..<length xs}" and dp: "distinct ?p" by (simp_all add: l)
    have r: "list_all2 (Rep ord exact A) ?xs ?bs"
      by (rule order_all2 [OF p assms(1)])
    have d: "distinct ?xs"
      by (rule order_distinct [OF p dp assms(2)])
    have f: "returns ord (jni_foldl ?body [] ?bs) (?I ?bs)"
    proof (rule returns_foldl)
      show "?I [] []" by simp
    next
      fix pre b post acc
      assume bs: "?bs = pre @ b # post" and i: "?I pre acc"
      from list_all2_prefix [OF r bs]
      have rb: "Rep ord exact A (?xs ! length pre) b" and k: "length pre < length ?xs" .
      show "returns ord (?body acc b) (?I (pre @ [b]))"
      proof (rule returns_bind_log, rule returns_bind [OF rb [unfolded Rep_def]],
          rule returns_bind)
        fix j assume "Top ord exact A (?xs ! length pre) j"
        then show "returns ord (native_value A j) (exact (?xs ! length pre))"
          by (simp add: Top_def)
      next
        fix y assume "exact (?xs ! length pre) y"
        then have y: "y = ?xs ! length pre" by (simp add: exact_def)
        have "set_insert y acc = take (Suc (length pre)) ?xs"
          unfolding y i set_insert_def using distinct_take_nth [OF d k] take_Suc_snoc [OF k]
          by simp
        then show "returns ord (jni_bind (jni_log (CallMethod ''hasNext''))
                      (\<lambda>u. jni_return (set_insert y acc))) (?I (pre @ [b]))"
          by (intro returns_bind_log returns_return) simp
      qed
    qed
    have "set (map abstract ?xs) = set (map abstract xs)"
      using order_set [OF p] by (metis set_map)
    then have "fset_of_list (map abstract ?xs) = fset_of_list (map abstract xs)"
      by (rule fset_of_list_cong)
    then have "same (CSet xs) (CSet ?xs)"
      by (simp only: same_def abstract.simps)
    then show ?thesis
      by (intro returns_bind [OF f] returns_return) simp
  qed
  show ?thesis
    unfolding Top_def Set_fields SetArgType_native_value_def
    apply simp
    apply (rule returns_bind [OF returns_LocalClassRef])
     apply (simp add: bootstrap_classes_def)
    apply (intro returns_bind_log)
    apply (rule returns_iterate [where g = "\<lambda>l. jni_bind (jni_foldl ?body [] l) (\<lambda>nativeSet. jni_return (CSet nativeSet))"])
    apply (erule loop)
    done
qed

lemma Set_add_returns:
  assumes "cn = ''java/util/TreeSet'' \<longrightarrow> Comparable b"
  shows "returns ord (Set_add (JSet cn bs) b) (\<lambda>s. s = JSet cn (set_insert b bs))"
  unfolding Set_add_def using assms
  by (auto intro!: returns_bind_log returns_return)

lemma Out_Set:
  assumes "\<forall>x\<in>set xs. Out ord exact A x" and "distinct xs"
    and "vm_ok ord env0" and "cn \<in> set bootstrap_classes"
    and cmp: "cn = ''java/util/TreeSet'' \<Longrightarrow> \<forall>x\<in>set xs. boxes_Comparable ord A x"
  shows "Out ord same (SetArgType cn A) (CSet xs)"
proof (rule Out_composite)
  let ?body = "\<lambda>s item.
                     jni_bind (java_value A item) (\<lambda>converted.
                     jni_bind (java_box A converted) (\<lambda>element.
                     Set_add s element))"
  let ?I = "\<lambda>pre s. \<exists>bs. s = JSet cn bs \<and> list_all2 (Rep ord exact A) pre bs"
  have f: "returns ord (jni_foldl ?body (JSet cn []) xs) (?I xs)"
  proof (rule returns_foldl)
    show "?I [] (JSet cn [])" by simp
  next
    fix pre x post s
    assume xs: "xs = pre @ x # post" and i: "?I pre s"
    then obtain bs where s: "s = JSet cn bs" and r: "list_all2 (Rep ord exact A) pre bs"
      by blast
    from assms(1) xs have o: "Out ord exact A x" by simp
    from assms(2) xs have new: "x \<notin> set pre" by simp
    have c: "cn = ''java/util/TreeSet'' \<Longrightarrow> boxes_Comparable ord A x"
      using cmp xs by simp
    show "returns ord (?body s x) (?I (pre @ [x]))"
    proof (rule returns_bind [OF Out_boxed [OF o c]], assumption, rule returns_bind, assumption)
      fix b assume bc: "Rep ord exact A x b \<and> (cn \<noteq> ''java/util/TreeSet'' \<or> Comparable b)"
      then have b: "Rep ord exact A x b" by simp
      have "b \<notin> set bs"
      proof
        assume "b \<in> set bs"
        then obtain k where k: "k < length bs" and bk: "bs ! k = b"
          by (auto simp: in_set_conv_nth)
        from r k have "Rep ord exact A (pre ! k) (bs ! k)" and "k < length pre"
          by (simp_all add: list_all2_conv_all_nth)
        with Rep_exact_inj [OF assms(3) b, of "pre ! k"] bk new show False
          by (metis nth_mem)
      qed
      with r b show "returns ord (Set_add s b) (?I (pre @ [x]))"
        unfolding s
        by (intro returns_weaken [OF Set_add_returns])
           (use bc in \<open>auto simp: set_insert_def list_all2_appendI\<close>)
    qed
  qed
  show "returns ord (java_value (SetArgType cn A) (CSet xs))
          (Top ord same (SetArgType cn A) (CSet xs))"
    unfolding Set_fields SetArgType_java_value_def
    apply simp
    apply (rule returns_bind [OF returns_LocalClassRef [OF assms(4)]])
    apply (rule returns_bind_allocate)
    apply simp
    apply (rule returns_weaken [OF f])
    apply (auto intro: Top_Set [OF _ assms(2)])
    done
qed (simp_all add: Set_fields)

subsection \<open>Maps\<close>

lemma Map_fields:
  "native_value (MapArgType cn AK AV) = MapArgType_native_value AK AV"
  "java_value (MapArgType cn AK AV) = MapArgType_java_value cn AK AV"
  "java_box (MapArgType cn AK AV) = jni_return"
  "java_unbox (MapArgType cn AK AV) = jni_return"
  by (simp_all add: MapArgType_def)

lemma entry_same_abstract:
  assumes "list_all2 entry_same m m'"
  shows "map (\<lambda>(k, v). (abstract k, abstract v)) m' = map (\<lambda>(k, v). (abstract k, abstract v)) m"
  using assms
  by (induction rule: list_all2_induct) (auto simp: entry_same_def same_def)

lemma entry_same_keys:
  assumes "list_all2 entry_same m m'"
  shows "map fst m' = map fst m"
  using assms
  by (induction rule: list_all2_induct) (auto simp: entry_same_def)

lemma Top_Map:
  assumes "list_all2 (entry_Rep ord AK AV) m es" and "distinct (map fst m)"
  shows "Top ord same (MapArgType cn AK AV) (CMap m) (JMap c es)"
proof -
  let ?body = "\<lambda>nativeMap mapEntry.
                     jni_bind (jni_log (CallMethod ''next'')) (\<lambda>u.
                     jni_bind (jni_log (CallMethod ''getKey'')) (\<lambda>u.
                     jni_bind (jni_log (CallMethod ''getValue'')) (\<lambda>u.
                     jni_bind (java_unbox AK (fst mapEntry)) (\<lambda>key.
                     jni_bind (java_unbox AV (snd mapEntry)) (\<lambda>val.
                     jni_bind (native_value AV val) (\<lambda>native_val.
                     jni_bind (native_value AK key) (\<lambda>native_key.
                     jni_bind (jni_log (CallMethod ''hasNext'')) (\<lambda>u.
                     jni_return (map_put native_key native_val nativeMap)))))))))"
  let ?p = "ord (length es)"
  let ?es = "map (\<lambda>i. es ! i) ?p"
  let ?m = "map (\<lambda>i. m ! i) ?p"
  let ?I = "\<lambda>pre acc. list_all2 entry_same (take (length pre) ?m) acc"
  have l: "length es = length m"
    using assms(1) by (simp add: list_all2_lengthD)
  have loop: "returns ord (jni_bind (jni_foldl ?body [] ?es) (\<lambda>nativeMap. jni_return (CMap nativeMap)))
                (same (CMap m))" if v: "vm_ok ord env" for env
  proof -
    from vm_ok_order [OF v, of "length es"]
    have p: "set ?p = {0..<length m}" and dp: "distinct ?p" by (simp_all add: l)
    have r: "list_all2 (entry_Rep ord AK AV) ?m ?es"
      by (rule order_all2 [OF p assms(1)])
    have "distinct (map (\<lambda>i. map fst m ! i) ?p)"
      by (rule order_distinct [OF _ dp assms(2)]) (simp add: p)
    moreover have "map (\<lambda>i. map fst m ! i) ?p = map fst ?m"
      using p by (auto simp: comp_def)
    ultimately have d: "distinct (map fst ?m)" by simp
    have f: "returns ord (jni_foldl ?body [] ?es) (?I ?es)"
    proof (rule returns_foldl)
      show "?I [] []" by simp
    next
      fix pre b post acc
      assume es: "?es = pre @ b # post" and i: "?I pre acc"
      from list_all2_prefix [OF r es]
      have rb: "entry_Rep ord AK AV (?m ! length pre) b" and k: "length pre < length ?m" .
      let ?e = "?m ! length pre"
      from rb have rk: "Rep ord exact AK (fst ?e) (fst b)" and rv: "Rep ord same AV (snd ?e) (snd b)"
        by (simp_all add: entry_Rep_def)
      have step: "returns ord (jni_bind (jni_log (CallMethod ''hasNext''))
                      (\<lambda>u. jni_return (map_put y w acc))) (?I (pre @ [b]))"
        if y: "exact (fst ?e) y" and w: "same (snd ?e) w" for y w
      proof -
        have keys: "map fst acc = take (length pre) (map fst ?m)"
          using entry_same_keys [OF i] by (simp add: take_map)
        have kd: "length pre < length (map fst ?m)" using k by simp
        have "map fst ?m ! length pre \<notin> set (take (length pre) (map fst ?m))"
          by (rule distinct_take_nth [OF d kd])
        then have "fst ?e \<notin> fst ` set acc"
          using keys k by (metis list.set_map nth_map)
        then have "map_put y w acc = acc @ [(fst ?e, w)]"
          using y by (simp add: map_put_def exact_def)
        moreover have "list_all2 entry_same (take (Suc (length pre)) ?m) (acc @ [(fst ?e, w)])"
          unfolding take_Suc_snoc [OF k] using i w
          by (intro list_all2_appendI) (simp_all add: entry_same_def)
        ultimately show ?thesis
          by (intro returns_bind_log returns_return) simp
      qed
      show "returns ord (?body acc b) (?I (pre @ [b]))"
      proof (intro returns_bind_log, rule returns_bind [OF rk [unfolded Rep_def]],
          rule returns_bind [OF rv [unfolded Rep_def]])
        fix jk jv
        assume tk: "Top ord exact AK (fst ?e) jk" and tv: "Top ord same AV (snd ?e) jv"
        show "returns ord (jni_bind (native_value AV jv) (\<lambda>native_val.
                     jni_bind (native_value AK jk) (\<lambda>native_key.
                     jni_bind (jni_log (CallMethod ''hasNext'')) (\<lambda>u.
                     jni_return (map_put native_key native_val acc))))) (?I (pre @ [b]))"
          by (rule returns_bind [OF tv [unfolded Top_def]], rule returns_bind [OF tk [unfolded Top_def]])
             (rule step)
      qed
    qed
    have "set ?m = set m"
      by (rule order_set [OF p])
    then have "set (map (\<lambda>(k, v). (abstract k, abstract v)) ?m)
             = set (map (\<lambda>(k, v). (abstract k, abstract v)) m)"
      by (metis set_map)
    then have e: "fset_of_list (map (\<lambda>(k, v). (abstract k, abstract v)) ?m)
             = fset_of_list (map (\<lambda>(k, v). (abstract k, abstract v)) m)"
      by (rule fset_of_list_cong)
    have fin: "same (CMap m) (CMap acc)" if "?I ?es acc" for acc
    proof -
      from that have "list_all2 entry_same ?m acc" by (simp add: l)
      from entry_same_abstract [OF this] e show ?thesis
        by (simp only: same_def abstract.simps)
    qed
    show ?thesis
      by (rule returns_bind [OF f], rule returns_return, rule fin)
  qed
  show ?thesis
    unfolding Top_def Map_fields MapArgType_native_value_def
    apply simp
    apply (intro returns_bind [OF returns_LocalClassRef])
       apply (simp_all add: bootstrap_classes_def)
    apply (intro returns_bind_log)
    apply (rule returns_iterate [where g = "\<lambda>l. jni_bind (jni_foldl ?body [] l) (\<lambda>nativeMap. jni_return (CMap nativeMap))"])
    apply (erule loop)
    done
qed

lemma Map_put_returns:
  assumes "cn = ''java/util/TreeMap'' \<longrightarrow> Comparable bk"
  shows "returns ord (Map_put (JMap cn es) bk bv) (\<lambda>s. s = JMap cn (map_put bk bv es))"
  unfolding Map_put_def using assms
  by (auto intro!: returns_bind_log returns_return)

lemma Out_Map:
  assumes "\<forall>e\<in>set m. Out ord exact AK (fst e) \<and> Out ord same AV (snd e)"
    and "distinct (map fst m)"
    and "vm_ok ord env0" and "cn \<in> set bootstrap_classes"
    and cmp: "cn = ''java/util/TreeMap'' \<Longrightarrow> \<forall>e\<in>set m. boxes_Comparable ord AK (fst e)"
  shows "Out ord same (MapArgType cn AK AV) (CMap m)"
proof (rule Out_composite)
  let ?body = "\<lambda>m item.
                     jni_bind (java_value AK (fst item)) (\<lambda>converted_key.
                     jni_bind (java_box AK converted_key) (\<lambda>key.
                     jni_bind (java_value AV (snd item)) (\<lambda>converted_value.
                     jni_bind (java_box AV converted_value) (\<lambda>val.
                     Map_put m key val))))"
  let ?I = "\<lambda>pre s. \<exists>es. s = JMap cn es \<and> list_all2 (entry_Rep ord AK AV) pre es"
  have f: "returns ord (jni_foldl ?body (JMap cn []) m) (?I m)"
  proof (rule returns_foldl)
    show "?I [] (JMap cn [])" by simp
  next
    fix pre x post s
    assume m: "m = pre @ x # post" and i: "?I pre s"
    then obtain es where s: "s = JMap cn es" and r: "list_all2 (entry_Rep ord AK AV) pre es"
      by blast
    from assms(1) m have ok: "Out ord exact AK (fst x)" and ov: "Out ord same AV (snd x)" by simp_all
    from assms(2) m have new: "fst x \<notin> fst ` set pre" by simp
    have c: "cn = ''java/util/TreeMap'' \<Longrightarrow> boxes_Comparable ord AK (fst x)"
      using cmp m by simp
    have put: "returns ord (Map_put s bk bv) (?I (pre @ [x]))"
      if bk: "Rep ord exact AK (fst x) bk" and bv: "Rep ord same AV (snd x) bv"
        and ck: "cn \<noteq> ''java/util/TreeMap'' \<or> Comparable bk" for bk bv
    proof -
      have "bk \<notin> fst ` set es"
      proof
        assume "bk \<in> fst ` set es"
        then obtain k where k: "k < length es" and bkk: "fst (es ! k) = bk"
          by (auto simp: in_set_conv_nth)
        from r k have "entry_Rep ord AK AV (pre ! k) (es ! k)" and kp: "k < length pre"
          by (simp_all add: list_all2_conv_all_nth)
        then have "Rep ord exact AK (fst (pre ! k)) bk"
          by (simp add: entry_Rep_def bkk)
        from Rep_exact_inj [OF assms(3) bk this] kp new show False
          by (metis image_eqI nth_mem)
      qed
      with r bk bv show ?thesis
        unfolding s
        by (intro returns_weaken [OF Map_put_returns])
           (use ck in \<open>auto simp: map_put_def list_all2_appendI entry_Rep_def\<close>)
    qed
    show "returns ord (?body s x) (?I (pre @ [x]))"
    proof (rule returns_bind [OF Out_boxed [OF ok c]], assumption, rule returns_bind, assumption)
      fix bk assume bkc: "Rep ord exact AK (fst x) bk \<and> (cn \<noteq> ''java/util/TreeMap'' \<or> Comparable bk)"
      then have bk: "Rep ord exact AK (fst x) bk" and ck: "cn \<noteq> ''java/util/TreeMap'' \<or> Comparable bk"
        by simp_all
      show "returns ord (jni_bind (java_value AV (snd x)) (\<lambda>converted_value.
                     jni_bind (java_box AV converted_value) (\<lambda>val.
                     Map_put s bk val))) (?I (pre @ [x]))"
      proof (rule returns_bind [OF ov [unfolded Out_def]], rule returns_bind)
        fix j assume "Top ord same AV (snd x) j \<and> returns ord (java_box AV j) (Rep ord same AV (snd x))"
        then show "returns ord (java_box AV j) (Rep ord same AV (snd x))" by simp
      next
        fix bv assume "Rep ord same AV (snd x) bv"
        then show "returns ord (Map_put s bk bv) (?I (pre @ [x]))"
          by (rule put [OF bk _ ck])
      qed
    qed
  qed
  show "returns ord (java_value (MapArgType cn AK AV) (CMap m))
          (Top ord same (MapArgType cn AK AV) (CMap m))"
    unfolding Map_fields MapArgType_java_value_def
    apply simp
    apply (rule returns_bind [OF returns_LocalClassRef [OF assms(4)]])
    apply (rule returns_bind_allocate)
    apply simp
    apply (rule returns_weaken [OF f])
    apply (auto intro: Top_Map [OF _ assms(2)])
    done
qed (simp_all add: Map_fields)

subsection \<open>The round trip\<close>


lemma keys_ok_distinct: "keys_ok ks \<Longrightarrow> distinct ks"
  by (simp add: keys_ok_def distinct_map)

lemma ordered_key_hash_key: "ordered_key t \<Longrightarrow> hash_key t"
  by (cases t) simp_all

lemma Comparable_ordered_key:
  assumes "ordered_key t" and "transferable t x"
  shows "boxes_Comparable ord (ArgType_of declared t) x"
  using assms by (cases t) (simp_all add: Comparable_Fundamental Comparable_String del: transferable.simps)

lemma Out_hash_key:
  "hash_key t \<Longrightarrow> transferable t x \<Longrightarrow> Out ord exact (ArgType_of declared t) x"
proof (induction t arbitrary: x)
  case (Fundamental T)
  then show ?case
    by (auto intro: Out_Fundamental)
next
  case StdString
  then show ?case
    by (simp del: transferable.simps add: Out_String)
next
  case (StdVector T)
  from StdVector.prems(2) obtain xs where x: "x = CSequence xs" and xs: "\<forall>x\<in>set xs. transferable T x"
    by (cases x) (auto simp: list_all_iff)
  from StdVector.prems(1) have n: "\<not> vector_is_FundamentalArgArrayType T" and h: "hash_key T"
    by simp_all
  from vector_dispatch_list [OF n, of declared]
  have A: "ArgType_of declared (StdVector T) = ListArgType (ArgType_of declared T)" by simp
  show ?case
    unfolding A x by (rule Out_List [where E = exact]) (use StdVector.IH h xs in \<open>simp_all add: lift_exact\<close>)
next
  case (StdList T)
  from StdList.prems(2) obtain xs where x: "x = CSequence xs" and xs: "\<forall>x\<in>set xs. transferable T x"
    by (cases x) (auto simp: list_all_iff)
  from StdList.prems(1) have h: "hash_key T" by simp
  have A: "ArgType_of declared (StdList T) = ListArgType (ArgType_of declared T)" by simp
  show ?case
    unfolding A x by (rule Out_List [where E = exact]) (use StdList.IH h xs in \<open>simp_all add: lift_exact\<close>)
qed simp_all

lemma Out_covered:
  assumes "vm_ok ord env0"
  shows "covered t \<Longrightarrow> transferable t x \<Longrightarrow> Out ord same (ArgType_of declared t) x"
proof (induction t arbitrary: x)
  case (Fundamental T)
  then show ?case
    by (auto intro: Out_exact_same Out_Fundamental)
next
  case StdString
  then show ?case
    by (auto simp del: transferable.simps intro: Out_exact_same Out_String)
next
  case (StdVector T)
  from StdVector.prems(2) obtain xs where x: "x = CSequence xs" and xs: "\<forall>x\<in>set xs. transferable T x"
    by (cases x) (auto simp: list_all_iff)
  show ?case
  proof (cases "vector_is_FundamentalArgArrayType T")
    case True
    from vector_dispatch [OF True, of declared] obtain F where T: "T = Fundamental F"
      and A: "ArgType_of declared (StdVector T) = FundamentalArgArrayType F" by blast
    from xs have "list_all (has_fundamental (java_type F)) xs"
      by (simp add: T list_all_iff)
    then have "Out ord exact (FundamentalArgArrayType F) (CSequence xs)"
      by (rule Out_Array)
    then show ?thesis
      unfolding A x by (rule Out_exact_same)
  next
    case False
    from vector_dispatch_list [OF False, of declared]
    have A: "ArgType_of declared (StdVector T) = ListArgType (ArgType_of declared T)" by simp
    show ?thesis
      unfolding A x
      by (rule Out_List [where E = same]) (use False StdVector.IH StdVector.prems(1) xs in \<open>simp_all add: lift_same\<close>)
  qed
next
  case (StdList T)
  from StdList.prems(2) obtain xs where x: "x = CSequence xs" and xs: "\<forall>x\<in>set xs. transferable T x"
    by (cases x) (auto simp: list_all_iff)
  have A: "ArgType_of declared (StdList T) = ListArgType (ArgType_of declared T)" by simp
  show ?case
    unfolding A x
    by (rule Out_List [where E = same]) (use StdList.IH StdList.prems(1) xs in \<open>simp_all add: lift_same\<close>)
next
  case (StdSet E)
  from StdSet.prems(2) obtain xs where x: "x = CSet xs" and k: "keys_ok xs"
    and xs: "\<forall>x\<in>set xs. transferable E x"
    by (cases x) (auto simp: list_all_iff)
  from StdSet.prems(1) have o: "ordered_key E" by simp
  from xs have e: "\<forall>x\<in>set xs. Out ord exact (ArgType_of declared E) x"
    by (simp add: Out_hash_key [OF ordered_key_hash_key [OF o]] del: transferable.simps)
  from xs have c: "\<forall>x\<in>set xs. boxes_Comparable ord (ArgType_of declared E) x"
    by (simp add: Comparable_ordered_key [OF o] del: transferable.simps)
  have A: "ArgType_of declared (StdSet E) = SetArgType ''java/util/TreeSet'' (ArgType_of declared E)"
    by simp
  show ?case
    unfolding A x
    by (rule Out_Set [OF e keys_ok_distinct [OF k] assms _ c]) (simp add: bootstrap_classes_def)
next
  case (StdUnorderedSet E)
  from StdUnorderedSet.prems(2) obtain xs where x: "x = CSet xs" and k: "keys_ok xs"
    and xs: "\<forall>x\<in>set xs. transferable E x"
    by (cases x) (auto simp: list_all_iff)
  from StdUnorderedSet.prems(1) have h: "hash_key E" by simp
  from xs have e: "\<forall>x\<in>set xs. Out ord exact (ArgType_of declared E) x"
    by (simp add: Out_hash_key [OF h] del: transferable.simps)
  have A: "ArgType_of declared (StdUnorderedSet E) = SetArgType ''java/util/HashSet'' (ArgType_of declared E)"
    by simp
  show ?case
    unfolding A x
    by (rule Out_Set [OF e keys_ok_distinct [OF k] assms]) (simp_all add: bootstrap_classes_def)
next
  case (StdMap K V)
  from StdMap.prems(2) obtain m where x: "x = CMap m" and k: "keys_ok (map fst m)"
    and m: "\<forall>e\<in>set m. transferable K (fst e) \<and> transferable V (snd e)"
    by (cases x) (auto simp: list_all_iff)
  from StdMap.prems(1) have o: "ordered_key K" and cv: "covered V" by simp_all
  from m StdMap.IH(2) [OF cv]
  have e: "\<forall>e\<in>set m. Out ord exact (ArgType_of declared K) (fst e) \<and> Out ord same (ArgType_of declared V) (snd e)"
    by (simp add: Out_hash_key [OF ordered_key_hash_key [OF o]] del: transferable.simps)
  from m have c: "\<forall>e\<in>set m. boxes_Comparable ord (ArgType_of declared K) (fst e)"
    by (simp add: Comparable_ordered_key [OF o] del: transferable.simps)
  have A: "ArgType_of declared (StdMap K V)
           = MapArgType ''java/util/TreeMap'' (ArgType_of declared K) (ArgType_of declared V)"
    by simp
  show ?case
    unfolding A x
    by (rule Out_Map [OF e keys_ok_distinct [OF k] assms _ c]) (simp add: bootstrap_classes_def)
next
  case (StdUnorderedMap K V)
  from StdUnorderedMap.prems(2) obtain m where x: "x = CMap m" and k: "keys_ok (map fst m)"
    and m: "\<forall>e\<in>set m. transferable K (fst e) \<and> transferable V (snd e)"
    by (cases x) (auto simp: list_all_iff)
  from StdUnorderedMap.prems(1) have h: "hash_key K" and cv: "covered V" by simp_all
  from m StdUnorderedMap.IH(2) [OF cv]
  have e: "\<forall>e\<in>set m. Out ord exact (ArgType_of declared K) (fst e) \<and> Out ord same (ArgType_of declared V) (snd e)"
    by (simp add: Out_hash_key [OF h] del: transferable.simps)
  have A: "ArgType_of declared (StdUnorderedMap K V)
           = MapArgType ''java/util/HashMap'' (ArgType_of declared K) (ArgType_of declared V)"
    by simp
  show ?case
    unfolding A x
    by (rule Out_Map [OF e keys_ok_distinct [OF k] assms]) (simp_all add: bootstrap_classes_def)
qed simp_all




text \<open>
  It fails as well for a string that is UTF-8 and not modified UTF-8, as the four bytes
  \<open>F0 9F 98 80\<close> of one character outside the basic multilingual plane: what \<open>NewStringUTF\<close>
  makes of them is left to the VM, and the string that comes back is the one the VM made.
\<close>

lemma string_not_modified_utf8:
  "\<not> modified_utf8 [CHR 0xF0, CHR 0x9F, CHR 0x98, CHR 0x80]
   \<and> fst (jni_bind (java_value (ArgType_of nothing_declared StdString)
                     (CString [CHR 0xF0, CHR 0x9F, CHR 0x98, CHR 0x80]))
                 (native_value (ArgType_of nothing_declared StdString))
            (example_env\<lparr>malformed_string := f\<rparr>))
     = Inr (CString (f [CHR 0xF0, CHR 0x9F, CHR 0x98, CHR 0x80]))"
  by (simp add: conversion_defs adapter_defs example_env_def)

text \<open>
  And it fails for a \<open>std::set\<close> whose elements are not of a fundamental type or strings, as
  a \<open>std::set<std::list<std::string>>\<close>: the \<open>TreeSet\<close> refuses the \<open>ArrayList\<close>, which is not
  \<open>Comparable\<close>, the set that comes back is empty and a \<open>ClassCastException\<close> is pending.
\<close>

lemma ordered_set_of_lists:
  "fst (jni_bind (java_value (ArgType_of nothing_declared (StdSet (StdList StdString)))
                   (CSet [CSequence [CString ''a'']]))
                 (native_value (ArgType_of nothing_declared (StdSet (StdList StdString))))
          example_env)
     = Inr (CSet [])
   \<and> map_option exception_class
       (pending (snd (jni_bind (java_value (ArgType_of nothing_declared (StdSet (StdList StdString)))
                   (CSet [CSequence [CString ''a'']]))
                 (native_value (ArgType_of nothing_declared (StdSet (StdList StdString))))
          example_env)))
     = Some ''java/lang/ClassCastException''"
  by (simp add: conversion_defs adapter_defs example_env_def)

section \<open>Properties of the data class conversions\<close>

lemma push_back_Nil_foldl:
  "foldl (\<lambda>m x. push_back k x m) [(k, acc)] xs = [(k, acc @ xs)]"
  by (induction xs arbitrary: acc) simp_all

lemma register_fields_bindings:
  "bindings_of (type_sig T) (FieldBindings (register_fields T specs no_bindings))
     = map binding_of_spec specs"
proof (cases specs)
  case Nil
  then show ?thesis by (simp add: register_fields_def no_bindings_def bindings_of_def)
next
  case (Cons sp rest)
  have gen: "\<And>b. FieldBindings (register_fields T rest b)
     = foldl (\<lambda>m x. push_back (type_sig T) x m) (FieldBindings b) (map binding_of_spec rest)"
    unfolding register_fields_def
    by (induction rest) (auto simp: data_class_field_def binding_of_spec_def foldl_map split: prod.splits)
  have "FieldBindings (register_fields T (sp # rest) no_bindings)
      = foldl (\<lambda>m x. push_back (type_sig T) x m) [(type_sig T, [binding_of_spec sp])] (map binding_of_spec rest)"
    using gen [of "register_fields T [sp] no_bindings"]
    by (simp add: register_fields_def data_class_field_def binding_of_spec_def no_bindings_def
        split: prod.splits)
  then show ?thesis
    by (simp add: Cons push_back_Nil_foldl bindings_of_def)
qed

lemma jni_foldl_invariant:
  assumes "jni_foldl body s xs env = (Inr y, env')"
    and "I s env"
    and "\<And>s x env s' env'. x \<in> set xs \<Longrightarrow> I s env \<Longrightarrow> body s x env = (Inr s', env') \<Longrightarrow> I s' env'"
  shows "I y env'"
  using assms
proof (induction xs arbitrary: s env)
  case Nil
  then show ?case by (simp add: jni_return_def)
next
  case (Cons x xs)
  from Cons.prems(1) obtain s1 env1 where
    b: "body s x env = (Inr s1, env1)" and r: "jni_foldl body s1 xs env1 = (Inr y, env')"
    by (auto simp: jni_bind_def split: prod.splits sum.splits)
  have i1: "I s1 env1" using Cons.prems(3) [of x s env s1 env1] Cons.prems(2) b by simp
  have step: "\<And>s x' env s' env'. x' \<in> set xs \<Longrightarrow> I s env \<Longrightarrow> body s x' env = (Inr s', env')
      \<Longrightarrow> I s' env'"
    using Cons.prems(3) by (meson list.set_intros(2))
  show ?case by (rule Cons.IH [OF r i1 step])
qed

lemma jni_foldl_cong:
  assumes "\<And>s x. x \<in> set xs \<Longrightarrow> body s x = body' s x"
  shows "jni_foldl body s xs = jni_foldl body' s xs"
  using assms by (induction xs arbitrary: s) simp_all

lemma member_of_assign:
  "m \<noteq> m' \<Longrightarrow> member_of (member_assign (CStruct ms) m' v) m = member_of (CStruct ms) m"
proof -
  assume "m \<noteq> m'"
  then have "map_of (map (\<lambda>entry. if fst entry = m' then (m', v) else entry) ms) m = map_of ms m"
    by (induction ms) auto
  then show ?thesis by (simp add: member_of_def member_assign_def)
qed

lemma set_by_value_result:
  assumes "set_by_value (binding_of_spec sp) obj fld (CStruct ms) env = (Inr s', env')"
  shows "\<exists>v. s' = member_assign (CStruct ms) (spec_member sp) v"
  using assms
  by (auto simp: binding_of_spec_def field_binding_def spec_member_def jni_bind_def jni_return_def
      split: prod.splits sum.splits)

lemma inbound_keeps_member:
  assumes "DataClassArgType_native_value (CStruct ms0) (map binding_of_spec specs) obj env = (Inr y, env1)"
    and "m \<notin> spec_member ` set specs"
  shows "member_of y m = member_of (CStruct ms0) m"
proof -
  let ?I = "\<lambda>s (e::JNIEnv). (\<exists>ms. s = CStruct ms) \<and> member_of s m = member_of (CStruct ms0) m"
  have "?I y env1"
  proof (rule jni_foldl_invariant [where I = ?I, OF assms(1) [unfolded DataClassArgType_native_value_def]])
    show "?I (CStruct ms0) env" by simp
  next
    fix s x env s' env'
    assume x: "x \<in> set (map binding_of_spec specs)" and i: "?I s env"
      and b: "jni_bind (getField obj (field_name x) (field_signature x))
                (\<lambda>fld. set_by_value x obj fld s) env = (Inr s', env')"
    from x obtain sp where sp: "sp \<in> set specs" "x = binding_of_spec sp" by auto
    from i obtain ms where ms: "s = CStruct ms" by blast
    from b obtain fld env0 where "set_by_value x obj fld s env0 = (Inr s', env')"
      by (auto simp: jni_bind_def split: prod.splits sum.splits)
    from set_by_value_result [OF this [unfolded sp ms]] obtain v where
      s': "s' = member_assign (CStruct ms) (spec_member sp) v" by blast
    from sp assms(2) have "m \<noteq> spec_member sp" by auto
    with s' i ms show "?I s' env'"
      by (simp add: member_of_assign) (simp add: member_assign_def)
  qed
  then show ?thesis by simp
qed

lemma throw_JavaException_result:
  "throw_JavaException env \<noteq> (Inr r, env')"
  "(case throw_JavaException env of (Inl e, env') \<Rightarrow> (Inl e, env') | (Inr x, env') \<Rightarrow> f x env')
     = throw_JavaException env"
  by (simp_all add: throw_JavaException_def split: prod.splits sum.splits)

lemma inbound_reads_registered_only:
  assumes "fst ` set fs' = fst ` set fs"
    and "\<forall>sp\<in>set specs. map_of fs' (spec_field sp) = map_of fs (spec_field sp)"
  shows "DataClassArgType_native_value d (map binding_of_spec specs) (JObject cls fs')
       = DataClassArgType_native_value d (map binding_of_spec specs) (JObject cls fs)"
  unfolding DataClassArgType_native_value_def
proof (rule jni_foldl_cong)
  fix s x
  assume "x \<in> set (map binding_of_spec specs)"
  then obtain sp where sp: "sp \<in> set specs" "x = binding_of_spec sp" by auto
  obtain member member_type A name where q: "sp = (member, member_type, A, name)"
    by (cases sp)
  from assms(2) sp q have m: "map_of fs' (name, type_sig member_type) = map_of fs (name, type_sig member_type)"
    by (auto simp: spec_field_def)
  show "jni_bind (getField (JObject cls fs') (field_name x) (field_signature x))
          (\<lambda>fld. set_by_value x (JObject cls fs') fld s)
      = jni_bind (getField (JObject cls fs) (field_name x) (field_signature x))
          (\<lambda>fld. set_by_value x (JObject cls fs) fld s)"
  proof (cases "(name, type_sig member_type) \<in> fst ` set fs")
    case True
    with assms(1) m show ?thesis
      by (intro ext)
         (simp add: sp q binding_of_spec_def field_binding_def getField_def jni_bind_def
            native_field_value_def Get_Field_def jni_log_def jni_return_def)
  next
    case False
    with assms(1) show ?thesis
      by (intro ext)
         (simp add: sp q binding_of_spec_def field_binding_def getField_def jni_bind_def
            throw_JavaException_result)
  qed
qed

lemma outbound_reads_registered_only:
  assumes "\<forall>sp\<in>set specs. member_of (CStruct ms') (spec_member sp) = member_of (CStruct ms) (spec_member sp)"
  shows "DataClassArgType_java_value ts (map binding_of_spec specs) (CStruct ms')
       = DataClassArgType_java_value ts (map binding_of_spec specs) (CStruct ms)"
proof -
  have e: "\<And>obj. jni_foldl (\<lambda>obj binding.
                  jni_bind (getField obj (field_name binding) (field_signature binding)) (\<lambda>fld.
                  get_by_value binding obj fld (CStruct ms')))
               obj (map binding_of_spec specs)
      = jni_foldl (\<lambda>obj binding.
                  jni_bind (getField obj (field_name binding) (field_signature binding)) (\<lambda>fld.
                  get_by_value binding obj fld (CStruct ms)))
               obj (map binding_of_spec specs)"
  proof (rule jni_foldl_cong)
    fix obj s x
    assume "x \<in> set (map binding_of_spec specs)"
    then obtain sp where sp: "sp \<in> set specs" "x = binding_of_spec sp" by auto
    obtain member member_type A name where q: "sp = (member, member_type, A, name)"
      by (cases sp)
    from assms sp q have "member_of (CStruct ms') member = member_of (CStruct ms) member"
      by (auto simp: spec_member_def)
    then show "jni_bind (getField s (field_name x) (field_signature x))
          (\<lambda>fld. get_by_value x s fld (CStruct ms'))
      = jni_bind (getField s (field_name x) (field_signature x))
          (\<lambda>fld. get_by_value x s fld (CStruct ms))"
      by (simp add: sp q binding_of_spec_def field_binding_def)
  qed
  show ?thesis unfolding DataClassArgType_java_value_def e by (rule refl)
qed

lemma jni_foldl_trace:
  assumes "jni_foldl body s xs env = (Inr y, env')"
    and "I s env"
    and "\<And>s x env s' env'. x \<in> set xs \<Longrightarrow> I s env \<Longrightarrow> body s x env = (Inr s', env')
           \<Longrightarrow> I s' env' \<and> tr env' = tr env @ [g x]"
  shows "tr env' = tr env @ map g xs"
  using assms
proof (induction xs arbitrary: s env)
  case Nil
  then show ?case by (simp add: jni_return_def)
next
  case (Cons x xs)
  from Cons.prems(1) obtain s1 env1 where
    b: "body s x env = (Inr s1, env1)" and r: "jni_foldl body s1 xs env1 = (Inr y, env')"
    by (auto simp: jni_bind_def split: prod.splits sum.splits)
  have t1: "I s1 env1 \<and> tr env1 = tr env @ [g x]"
    using Cons.prems(3) [of x s env s1 env1] Cons.prems(2) b by simp
  have step: "\<And>s x' env s' env'. x' \<in> set xs \<Longrightarrow> I s env \<Longrightarrow> body s x' env = (Inr s', env')
      \<Longrightarrow> I s' env' \<and> tr env' = tr env @ [g x']"
    using Cons.prems(3) by (meson list.set_intros(2))
  from Cons.IH [OF r _ step] t1 show ?case by simp
qed

lemma map_of_update_other:
  "fld \<noteq> fld' \<Longrightarrow>
   map_of (map (\<lambda>entry. if fst entry = fld' then (fld', v) else entry) fs) fld = map_of fs fld"
  by (induction fs) auto

lemma map_fst_update:
  "map (fst \<circ> (\<lambda>entry. if fst entry = fld' then (fld', v) else entry)) fs = map fst fs"
  by (induction fs) auto

lemma get_by_value_result:
  assumes "jni_bind (getField obj (field_name (binding_of_spec sp)) (field_signature (binding_of_spec sp)))
             (\<lambda>fld. get_by_value (binding_of_spec sp) obj fld x) env = (Inr obj', env')"
    and "obj = JObject cls fs"
  shows "\<exists>v. obj' = JObject cls (map (\<lambda>entry. if fst entry = spec_field sp then (spec_field sp, v) else entry) fs)"
proof -
  obtain member member_type A name where q: "sp = (member, member_type, A, name)"
    by (cases sp)
  show ?thesis
  proof (cases "(name, type_sig member_type) \<in> fst ` set fs")
    case True
    with assms show ?thesis
      by (auto simp: q binding_of_spec_def field_binding_def spec_field_def getField_def
          jni_bind_def java_field_value_def Set_Field_def jni_log_def jni_return_def
          split: prod.splits sum.splits)
  next
    case False
    with assms show ?thesis
      by (simp add: q binding_of_spec_def field_binding_def getField_def jni_bind_def
          throw_JavaException_result)
  qed
qed

lemma outbound_keeps_field:
  assumes "DataClassArgType_java_value ts (map binding_of_spec specs) x env = (Inr j, env')"
    and "classes env ts = Some c"
    and "fld \<notin> spec_field ` set specs"
  shows "\<exists>fs. j = JObject ts fs \<and> map fst fs = instance_fields c
           \<and> map_of fs fld = map_of (map (\<lambda>f. (f, jvm_default (snd f))) (instance_fields c)) fld"
proof -
  let ?d = "map (\<lambda>f. (f, jvm_default (snd f))) (instance_fields c)"
  let ?body = "\<lambda>obj binding.
                  jni_bind (getField obj (field_name binding) (field_signature binding)) (\<lambda>fld.
                  get_by_value binding obj fld x)"
  let ?I = "\<lambda>obj (e::JNIEnv). \<exists>fs. obj = JObject ts fs \<and> map fst fs = instance_fields c
           \<and> map_of fs fld = map_of ?d fld"
  have l: "LocalClassRef ts env = (Inr ts, env)"
    using assms(2) by (simp add: LocalClassRef_def FindClass_def)
  have noom: "\<not> out_of_memory env"
  proof
    assume "out_of_memory env"
    then have "Alloc_Object ts env = (Inr JNull, raise ''java/lang/OutOfMemoryError'' [] env)"
      using assms(2) by (simp add: Alloc_Object_def allocate_def)
    with assms(1) l show False
      by (simp add: DataClassArgType_java_value_def jni_bind_def throw_JavaException_result)
  qed
  then have a: "Alloc_Object ts env = (Inr (JObject ts ?d), env\<lparr>calls := calls env @ [AllocObject ts]\<rparr>)"
    using assms(2) by (simp add: Alloc_Object_def allocate_def)
  from assms(1) l a have f: "jni_foldl ?body (JObject ts ?d) (map binding_of_spec specs)
      (env\<lparr>calls := calls env @ [AllocObject ts]\<rparr>) = (Inr j, env')"
    by (simp add: DataClassArgType_java_value_def jni_bind_def)
  have "?I j env'"
  proof (rule jni_foldl_invariant [where I = ?I, OF f])
    show "?I (JObject ts ?d) (env\<lparr>calls := calls env @ [AllocObject ts]\<rparr>)"
      by (simp add: comp_def)
  next
    fix s b e s' e'
    assume b: "b \<in> set (map binding_of_spec specs)" and i: "?I s e" and r: "?body s b e = (Inr s', e')"
    from b obtain sp where sp: "sp \<in> set specs" "b = binding_of_spec sp" by auto
    from i obtain fs where fs: "s = JObject ts fs" "map fst fs = instance_fields c"
      "map_of fs fld = map_of ?d fld" by blast
    from get_by_value_result [OF r [unfolded sp] fs(1)] obtain v where
      s': "s' = JObject ts (map (\<lambda>entry. if fst entry = spec_field sp then (spec_field sp, v) else entry) fs)"
      by blast
    from sp assms(3) have "fld \<noteq> spec_field sp" by auto
    with s' fs show "?I s' e'"
      by (simp add: map_of_update_other map_fst_update)
  qed
  then show ?thesis by simp
qed

lemma field_accesses_of_snoc:
  "field_accesses_of cls (l @ [GetFieldOf cls n]) = field_accesses_of cls l @ [GetFieldOf cls n]"
  "field_accesses_of cls (l @ [SetFieldOf cls n]) = field_accesses_of cls l @ [SetFieldOf cls n]"
  "field_accesses_of cls (l @ [AllocObject c]) = field_accesses_of cls l"
  by (simp_all add: field_accesses_of_def)

lemma inbound_field_accesses:
  assumes "DataClassArgType_native_value d (map binding_of_spec specs) (JObject cls fs) env = (Inr y, env')"
    and "vm_ok ord env"
    and "\<forall>sp\<in>set specs. quiet_on ord cls (native_value (spec_ArgType sp) (the (map_of fs (spec_field sp))))"
  shows "field_accesses_of cls (calls env')
       = field_accesses_of cls (calls env) @ map (\<lambda>sp. GetFieldOf cls (fst (spec_field sp))) specs"
proof -
  have "field_accesses_of cls (calls env')
       = field_accesses_of cls (calls env)
         @ map (\<lambda>b. GetFieldOf cls (field_name b)) (map binding_of_spec specs)"
  proof (rule jni_foldl_trace [where tr = "\<lambda>e. field_accesses_of cls (calls e)"
        and I = "\<lambda>s e. vm_ok ord e", OF assms(1) [unfolded DataClassArgType_native_value_def]])
    show "vm_ok ord env" by (rule assms(2))
  next
    fix s b e s' e'
    assume b: "b \<in> set (map binding_of_spec specs)" and ok: "vm_ok ord e"
      and r: "jni_bind (getField (JObject cls fs) (field_name b) (field_signature b))
                (\<lambda>fld. set_by_value b (JObject cls fs) fld s) e = (Inr s', e')"
    from b obtain sp where sp: "sp \<in> set specs" "b = binding_of_spec sp" by auto
    obtain member member_type A name where q: "sp = (member, member_type, A, name)"
      by (cases sp)
    let ?fld = "(name, type_sig member_type)"
    from assms(3) sp q have qa: "quiet_on ord cls (native_value A (the (map_of fs ?fld)))"
      by (auto simp: spec_ArgType_def spec_field_def)
    show "vm_ok ord e'
        \<and> field_accesses_of cls (calls e') = field_accesses_of cls (calls e) @ [GetFieldOf cls (field_name b)]"
    proof (cases "?fld \<in> fst ` set fs")
      case True
      then obtain v where v: "map_of fs ?fld = Some v"
        by (metis map_of_eq_None_iff not_Some_eq)
      let ?e1 = "logged e [GetFieldOf cls name]"
      from True r v have e': "e' = snd (native_value A (the (map_of fs ?fld)) ?e1)"
        by (auto simp: sp q binding_of_spec_def field_binding_def getField_def jni_bind_def
            native_field_value_def Get_Field_def jni_log_def jni_return_def logged_def
            split: prod.splits sum.splits)
      from ok have "vm_ok ord ?e1" by simp
      with qa have "vm_ok ord e'"
        and "field_accesses_of cls (calls e') = field_accesses_of cls (calls ?e1)"
        unfolding e' quiet_on_def by blast+
      then show ?thesis
        by (simp add: logged_def field_accesses_of_snoc sp q binding_of_spec_def field_binding_def)
    next
      case False
      with r show ?thesis
        by (simp add: sp q binding_of_spec_def field_binding_def getField_def jni_bind_def
            throw_JavaException_result)
    qed
  qed
  also have "map (\<lambda>b. GetFieldOf cls (field_name b)) (map binding_of_spec specs)
       = map (\<lambda>sp. GetFieldOf cls (fst (spec_field sp))) specs"
    by (auto simp: binding_of_spec_def field_binding_def spec_field_def split: prod.splits)
  finally show ?thesis .
qed

lemma outbound_field_accesses:
  assumes "DataClassArgType_java_value ts (map binding_of_spec specs) x env = (Inr j, env')"
    and "classes env ts = Some c"
    and "vm_ok ord env"
    and "\<forall>sp\<in>set specs. quiet_on ord ts (java_value (spec_ArgType sp) (member_of x (spec_member sp)))"
  shows "field_accesses_of ts (calls env')
       = field_accesses_of ts (calls env) @ map (\<lambda>sp. SetFieldOf ts (fst (spec_field sp))) specs"
proof -
  let ?d = "map (\<lambda>f. (f, jvm_default (snd f))) (instance_fields c)"
  let ?body = "\<lambda>obj binding.
                  jni_bind (getField obj (field_name binding) (field_signature binding)) (\<lambda>fld.
                  get_by_value binding obj fld x)"
  let ?env1 = "logged env [AllocObject ts]"
  have l: "LocalClassRef ts env = (Inr ts, env)"
    using assms(2) by (simp add: LocalClassRef_def FindClass_def)
  from assms(3) have noom: "\<not> out_of_memory env"
    by (simp add: vm_ok_def)
  then have a: "Alloc_Object ts env = (Inr (JObject ts ?d), ?env1)"
    using assms(2) by (simp add: Alloc_Object_def allocate_def logged_def)
  from assms(1) l a have f: "jni_foldl ?body (JObject ts ?d) (map binding_of_spec specs) ?env1 = (Inr j, env')"
    by (simp add: DataClassArgType_java_value_def jni_bind_def)
  have "field_accesses_of ts (calls env')
       = field_accesses_of ts (calls ?env1)
         @ map (\<lambda>b. SetFieldOf ts (field_name b)) (map binding_of_spec specs)"
  proof (rule jni_foldl_trace [where tr = "\<lambda>e. field_accesses_of ts (calls e)"
        and I = "\<lambda>s e. (\<exists>fs. s = JObject ts fs) \<and> vm_ok ord e", OF f])
    show "(\<exists>fs. JObject ts ?d = JObject ts fs) \<and> vm_ok ord ?env1"
      using assms(3) by simp
  next
    fix s b e s' e'
    assume b: "b \<in> set (map binding_of_spec specs)"
      and i: "(\<exists>fs. s = JObject ts fs) \<and> vm_ok ord e"
      and r: "?body s b e = (Inr s', e')"
    from i obtain fs0 where fs0: "s = JObject ts fs0" and ok: "vm_ok ord e" by blast
    from b obtain sp where sp: "sp \<in> set specs" "b = binding_of_spec sp" by auto
    from get_by_value_result [OF r [unfolded sp] fs0] have i': "\<exists>fs. s' = JObject ts fs" by blast
    obtain member member_type A name where q: "sp = (member, member_type, A, name)"
      by (cases sp)
    from assms(4) sp q have qa: "quiet_on ord ts (java_value A (member_of x member))"
      by (auto simp: spec_ArgType_def spec_member_def)
    from r obtain fld e0 where g: "getField s (field_name b) (field_signature b) e = (Inr fld, e0)"
      and v: "get_by_value b s fld x e0 = (Inr s', e')"
      by (auto simp: jni_bind_def split: prod.splits sum.splits)
    from g have e0: "e0 = e" "fld = (name, type_sig member_type)"
      by (auto simp: fs0 getField_def sp q binding_of_spec_def field_binding_def
          throw_JavaException_result split: if_splits)
    from v obtain jv e1 where jv: "java_value A (member_of x member) e = (Inr jv, e1)"
      and st: "Set_Field s fld jv e1 = (Inr s', e')"
      by (auto simp: e0 sp q binding_of_spec_def field_binding_def java_field_value_def
          jni_bind_def split: prod.splits sum.splits)
    from qa ok jv have t1: "vm_ok ord e1"
      "field_accesses_of ts (calls e1) = field_accesses_of ts (calls e)"
      unfolding quiet_on_def by (metis snd_conv)+
    from st have e': "e' = logged e1 [SetFieldOf ts name]"
      by (auto simp: fs0 Set_Field_def e0 jni_bind_def jni_log_def jni_return_def logged_def)
    from e' t1 have ok': "vm_ok ord e'" by simp
    from e' t1 have "field_accesses_of ts (calls e')
        = field_accesses_of ts (calls e) @ [SetFieldOf ts (field_name b)]"
      by (simp add: logged_def field_accesses_of_snoc sp q binding_of_spec_def field_binding_def)
    with ok' i' show "((\<exists>fs. s' = JObject ts fs) \<and> vm_ok ord e')
        \<and> field_accesses_of ts (calls e') = field_accesses_of ts (calls e) @ [SetFieldOf ts (field_name b)]"
      by simp
  qed
  also have "map (\<lambda>b. SetFieldOf ts (field_name b)) (map binding_of_spec specs)
       = map (\<lambda>sp. SetFieldOf ts (fst (spec_field sp))) specs"
    by (auto simp: binding_of_spec_def field_binding_def spec_field_def split: prod.splits)
  finally show ?thesis by (simp add: logged_def field_accesses_of_snoc)
qed

text \<open>
  The conversions of the fundamental types, of strings and of the sequences, sets and maps
  of the round trip access no field, in either direction.
\<close>

lemma field_accesses_of_data_accesses:
  "field_accesses_of cls (data_accesses l) = field_accesses_of cls l"
  by (induction l) (auto simp: field_accesses_of_def data_accesses_def split: jni_call.splits)

lemma returns_quiet_on:
  assumes "returns ord m Q"
  shows "quiet_on ord cls m"
  unfolding quiet_on_def
proof (intro allI impI)
  fix env assume "vm_ok ord env"
  with assms obtain r env' where m: "m env = (Inr r, env')" and v: "vm_ok ord env'"
    and k: "kept env env'"
    unfolding returns_def by blast
  from k have "field_accesses_of cls (data_accesses (calls env'))
             = field_accesses_of cls (data_accesses (calls env))"
    by (simp add: kept_def)
  with m v show "vm_ok ord (snd (m env))
      \<and> field_accesses_of cls (calls (snd (m env))) = field_accesses_of cls (calls env)"
    by (simp add: field_accesses_of_data_accesses)
qed

lemma quiet_on_outbound:
  assumes "covered t" and "transferable t x" and "vm_ok ord env0"
  shows "quiet_on ord cls (java_value (ArgType_of declared t) x)"
  using Out_covered [OF assms(3,1,2), of declared] unfolding Out_def
  by (rule returns_quiet_on)

lemma quiet_on_inbound:
  assumes "covered t" and "transferable t x" and "vm_ok ord env0"
    and "fst (java_value (ArgType_of declared t) x env0) = Inr j"
  shows "quiet_on ord cls (native_value (ArgType_of declared t) j)"
proof -
  from Out_covered [OF assms(3,1,2), of declared] assms(3,4)
  have "Top ord same (ArgType_of declared t) x j"
    unfolding Out_def returns_def by fastforce
  then show ?thesis
    unfolding Top_def by (rule returns_quiet_on)
qed

text \<open>
  C6. A data class converted in either direction, in a VM in which the conversions run to
  their end, touches the registered fields, in the order of registration, and nothing
  else. Inbound (\<open>native_value\<close>): a member that is not registered has the value the default
  constructor gave it; the result does not depend on the fields of the Java object that are
  not registered; and the fields of the object read are the registered ones, in order.
  Outbound (\<open>java_value\<close>): a field that is not registered has the value \<open>AllocObject\<close> gave it;
  the result does not depend on the members that are not registered; and the fields of the
  object written are the registered ones, in order. The conversion of the value of each
  registered field, and that of each registered member, is assumed to leave the VM as said and
  to access no field of an object of the class converted: so do the conversions of the
  fundamental types, strings, sequences, sets and maps of the round trip, and those of a
  data class of another class whose own fields are of such types.
\<close>

theorem data_class_touches_registered_fields:
  assumes "A_T = DataClassArgType T (CStruct ms0) (register_fields T specs no_bindings)"
    and "native_value A_T (JObject cls fs) env = (Inr y, env1)"
    and "java_value A_T (CStruct ms) env2 = (Inr j, env3)"
    and "classes env2 (type_sig T) = Some c"
    and "member \<notin> spec_member ` set specs"
    and "fld \<notin> spec_field ` set specs"
    and "fst ` set fs' = fst ` set fs"
    and "\<forall>sp\<in>set specs. map_of fs' (spec_field sp) = map_of fs (spec_field sp)"
    and "\<forall>sp\<in>set specs. member_of (CStruct ms') (spec_member sp) = member_of (CStruct ms) (spec_member sp)"
    and "vm_ok ord env" and "vm_ok ord env2"
    and "\<forall>sp\<in>set specs.
           quiet_on ord cls (native_value (spec_ArgType sp) (the (map_of fs (spec_field sp))))"
    and "\<forall>sp\<in>set specs.
           quiet_on ord (type_sig T)
             (java_value (spec_ArgType sp) (member_of (CStruct ms) (spec_member sp)))"
  shows "member_of y member = member_of (CStruct ms0) member
       \<and> native_value A_T (JObject cls fs') = native_value A_T (JObject cls fs)
       \<and> field_accesses_of cls (calls env1)
           = field_accesses_of cls (calls env) @ map (\<lambda>sp. GetFieldOf cls (fst (spec_field sp))) specs
       \<and> (\<exists>fs_j. j = JObject (type_sig T) fs_j \<and> map fst fs_j = instance_fields c
             \<and> map_of fs_j fld
                 = map_of (map (\<lambda>f. (f, jvm_default (snd f))) (instance_fields c)) fld)
       \<and> java_value A_T (CStruct ms') = java_value A_T (CStruct ms)
       \<and> field_accesses_of (type_sig T) (calls env3)
           = field_accesses_of (type_sig T) (calls env2)
             @ map (\<lambda>sp. SetFieldOf (type_sig T) (fst (spec_field sp))) specs"
proof -
  have n: "native_value A_T = DataClassArgType_native_value (CStruct ms0) (map binding_of_spec specs)"
    and v: "java_value A_T = DataClassArgType_java_value (type_sig T) (map binding_of_spec specs)"
    by (simp_all add: assms(1) DataClassArgType_def register_fields_bindings)
  show ?thesis
    using inbound_keeps_member [OF assms(2) [unfolded n] assms(5)]
      inbound_reads_registered_only [OF assms(7) assms(8), of "CStruct ms0" cls]
      inbound_field_accesses [OF assms(2) [unfolded n] assms(10) assms(12)]
      outbound_keeps_field [OF assms(3) [unfolded v] assms(4) assms(6)]
      outbound_reads_registered_only [OF assms(9), of "type_sig T"]
      outbound_field_accesses [OF assms(3) [unfolded v] assms(4) assms(11) assms(13)]
    by (simp add: n v)
qed

text \<open>
  The data class of the test program in both directions. The member \<open>unregistered\<close> keeps
  the value of the default constructor, 5, and the field \<open>extra\<close> that of \<open>AllocObject\<close>, 0;
  neither result depends on the other side's value of them; and the fields read and written
  are the eleven registered ones, in the order of registration.
\<close>

lemmas data_defs =
  Data_ArgType_def Data_type_def Data_specs_def Data_members_def Data_default_def Data_value_def
  Data_object_def Data_fields_def data_env_def
  DataClassArgType_def DataClassArgType_native_value_def DataClassArgType_java_value_def
  register_fields_def data_class_field_def field_binding_def no_bindings_def bindings_of_def
  getField_def Get_Field_def Set_Field_def Alloc_Object_def allocate_def jvm_default_def
  native_field_value_def java_field_value_def member_of_def member_assign_def
  FundamentalArgType_def FundamentalArgArrayType_def FundamentalArgArrayType_java_value_def
  FundamentalArgArrayType_native_value_def CompositeArgType_type_sig_def join_def replace_def
  spec_member_def spec_field_def spec_ArgType_def field_accesses_of_def

theorem data_class_touches_registered_fields_witness:
  "fst (native_value Data_ArgType (JObject ''com/kheiron/ktbind/Data'' (Data_object (JInt 99))) data_env)
     = Inr (CStruct (Data_value (CInt32 5)))
   \<and> field_accesses_of ''com/kheiron/ktbind/Data''
       (calls (snd (native_value Data_ArgType
                      (JObject ''com/kheiron/ktbind/Data'' (Data_object (JInt 99))) data_env)))
     = map (GetFieldOf ''com/kheiron/ktbind/Data'')
         [''b'', ''s'', ''i'', ''l'', ''f'', ''d'', ''str'', ''short_arr'', ''int_arr'', ''long_arr'', ''map'']
   \<and> native_value Data_ArgType (JObject ''com/kheiron/ktbind/Data'' (Data_object (JInt 1)))
     = native_value Data_ArgType (JObject ''com/kheiron/ktbind/Data'' (Data_object (JInt 99)))
   \<and> fst (java_value Data_ArgType (CStruct (Data_value (CInt32 77))) data_env)
     = Inr (JObject ''Lcom/kheiron/ktbind/Data;'' (Data_object (JInt 0)))
   \<and> field_accesses_of ''Lcom/kheiron/ktbind/Data;''
       (calls (snd (java_value Data_ArgType (CStruct (Data_value (CInt32 77))) data_env)))
     = map (SetFieldOf ''Lcom/kheiron/ktbind/Data;'')
         [''b'', ''s'', ''i'', ''l'', ''f'', ''d'', ''str'', ''short_arr'', ''int_arr'', ''long_arr'', ''map'']
   \<and> java_value Data_ArgType (CStruct (Data_value (CInt32 1)))
     = java_value Data_ArgType (CStruct (Data_value (CInt32 77)))"
proof -
  let ?cls = "''com/kheiron/ktbind/Data''"
  let ?ts = "''Lcom/kheiron/ktbind/Data;''"
  let ?in = "native_value Data_ArgType (JObject ?cls (Data_object (JInt 99))) data_env"
  let ?out = "java_value Data_ArgType (CStruct (Data_value (CInt32 77))) data_env"
  have vm: "vm_ok (upt 0) data_env"
    by (auto simp: vm_ok_def data_env_def example_env_def bootstrap_classes_def)
  have ts: "type_sig Data_type = ?ts"
    by (simp add: data_defs)
  have h1: "Data_ArgType = DataClassArgType Data_type (CStruct Data_default)
                    (register_fields Data_type Data_specs no_bindings)"
    by (simp add: Data_ArgType_def)
  have r_in: "?in = (Inr (CStruct (Data_value (CInt32 5))), snd ?in)"
    and t_in: "field_accesses_of ?cls (calls (snd ?in))
     = map (GetFieldOf ?cls)
         [''b'', ''s'', ''i'', ''l'', ''f'', ''d'', ''str'', ''short_arr'', ''int_arr'', ''long_arr'', ''map'']"
    by (simp_all add: data_defs conversion_defs adapter_defs example_env_def)
  have r_out: "?out = (Inr (JObject ?ts (Data_object (JInt 0))), snd ?out)"
    and t_out: "field_accesses_of ?ts (calls (snd ?out))
     = map (SetFieldOf ?ts)
         [''b'', ''s'', ''i'', ''l'', ''f'', ''d'', ''str'', ''short_arr'', ''int_arr'', ''long_arr'', ''map'']"
    by (simp_all add: data_defs conversion_defs adapter_defs example_env_def)
  have h4: "classes data_env (type_sig Data_type)
     = Some \<lparr>instance_fields = Data_fields, native_methods = []\<rparr>"
    by (simp add: ts) (simp add: data_env_def)
  have h5: "''unregistered'' \<notin> spec_member ` set Data_specs"
    by (simp add: Data_specs_def Data_members_def spec_member_def)
  have h6: "(''extra'', ''I'') \<notin> spec_field ` set Data_specs"
    by (simp add: Data_specs_def Data_members_def spec_field_def)
  have h7: "fst ` set (Data_object (JInt 1)) = fst ` set (Data_object (JInt 99))"
    by (simp add: Data_object_def)
  have h8: "\<forall>sp\<in>set Data_specs. map_of (Data_object (JInt 1)) (spec_field sp)
              = map_of (Data_object (JInt 99)) (spec_field sp)"
    by (simp add: Data_specs_def Data_members_def spec_field_def Data_object_def
                  CompositeArgType_type_sig_def join_def)
  have h9: "\<forall>sp\<in>set Data_specs.
      member_of (CStruct (Data_value (CInt32 1))) (spec_member sp)
      = member_of (CStruct (Data_value (CInt32 77))) (spec_member sp)"
    by (simp add: Data_specs_def Data_members_def spec_member_def Data_value_def member_of_def)
  have m: "\<forall>(n, t)\<in>set Data_members.
             covered t \<and> transferable t (member_of (CStruct (Data_value (CInt32 77))) n)"
    by (simp add: Data_members_def Data_value_def member_of_def keys_ok_def)
  have o: "\<forall>(n, t)\<in>set Data_members.
             fst (java_value (ArgType_of nothing_declared t)
                    (member_of (CStruct (Data_value (CInt32 77))) n) data_env)
             = Inr (the (map_of (Data_object (JInt 99)) (n, type_sig t)))"
    by (simp add: data_defs conversion_defs adapter_defs example_env_def)
  have h12: "\<forall>sp\<in>set Data_specs.
      quiet_on (upt 0) ?cls (native_value (spec_ArgType sp)
                               (the (map_of (Data_object (JInt 99)) (spec_field sp))))"
  proof -
    have "quiet_on (upt 0) ?cls (native_value (ArgType_of nothing_declared t)
                                   (the (map_of (Data_object (JInt 99)) (n, type_sig t))))"
      if "(n, t) \<in> set Data_members" for n t
      using m o that by (intro quiet_on_inbound [OF _ _ vm]) auto
    then show ?thesis
      by (auto simp: Data_specs_def spec_ArgType_def spec_field_def)
  qed
  have h13: "\<forall>sp\<in>set Data_specs.
      quiet_on (upt 0) (type_sig Data_type)
        (java_value (spec_ArgType sp) (member_of (CStruct (Data_value (CInt32 77))) (spec_member sp)))"
  proof -
    have "quiet_on (upt 0) (type_sig Data_type)
            (java_value (ArgType_of nothing_declared t) (member_of (CStruct (Data_value (CInt32 77))) n))"
      if "(n, t) \<in> set Data_members" for n t
      using m that by (intro quiet_on_outbound [OF _ _ vm]) auto
    then show ?thesis
      by (auto simp: Data_specs_def spec_ArgType_def spec_member_def)
  qed
  note touched = data_class_touches_registered_fields
                   [OF h1 r_in r_out h4 h5 h6 h7 h8 h9 vm vm h12 h13]
  have e_in: "native_value Data_ArgType (JObject ?cls (Data_object (JInt 1)))
            = native_value Data_ArgType (JObject ?cls (Data_object (JInt 99)))"
    by (rule touched [THEN conjunct2, THEN conjunct1])
  have e_out: "java_value Data_ArgType (CStruct (Data_value (CInt32 1)))
             = java_value Data_ArgType (CStruct (Data_value (CInt32 77)))"
    by (rule touched [THEN conjunct2, THEN conjunct2, THEN conjunct2, THEN conjunct2, THEN conjunct1])
  from r_in have f_in: "fst ?in = Inr (CStruct (Data_value (CInt32 5)))"
    by (metis fst_conv)
  from r_out have f_out: "fst ?out = Inr (JObject ?ts (Data_object (JInt 0)))"
    by (metis fst_conv)
  show ?thesis
    by (intro conjI f_in t_in e_in f_out t_out e_out)
qed

section \<open>Properties of the execution context\<close>

lemma step_invariant:
  assumes "step jvm e s = Some s'"
    and "Environment_attached s = (jvm_thread s = AttachedByNative)"
    and "Environment_attached s \<longrightarrow> Environment_env s \<noteq> None"
    and "detach_calls s = 0"
  shows "Environment_attached s' = (jvm_thread s' = AttachedByNative)
       \<and> (Environment_attached s' \<longrightarrow> Environment_env s' \<noteq> None) \<and> detach_calls s' = 0"
proof (cases e)
  case (Load v)
  with assms show ?thesis by (auto simp: load_def split: if_splits)
next
  case (Unload v)
  with assms show ?thesis by (auto simp: unload_def split: if_splits)
next
  case (SetEnv x)
  with assms show ?thesis by (auto simp: setEnv_def split: if_splits)
next
  case GetEnvCall
  with assms show ?thesis
    by (auto simp: getEnv_def GetEnv_def AttachCurrentThread_def JNI_OK_def JNI_ERR_def
        JNI_EDETACHED_def JNI_EVERSION_def split: if_splits)
next
  case HostAttach
  with assms show ?thesis by (auto split: if_splits)
qed

lemma run_invariant:
  assumes "run jvm es s = Some s'"
    and "Environment_attached s = (jvm_thread s = AttachedByNative)"
    and "Environment_attached s \<longrightarrow> Environment_env s \<noteq> None"
    and "detach_calls s = 0"
  shows "Environment_attached s' = (jvm_thread s' = AttachedByNative)
       \<and> (Environment_attached s' \<longrightarrow> Environment_env s' \<noteq> None) \<and> detach_calls s' = 0"
  using assms
proof (induction es arbitrary: s)
  case Nil
  then show ?case by simp
next
  case (Cons e es)
  from Cons.prems(1) obtain s1 where s1: "step jvm e s = Some s1" and r: "run jvm es s1 = Some s'"
    by (auto split: option.splits)
  from step_invariant [OF s1 Cons.prems(2) Cons.prems(3) Cons.prems(4)]
  show ?case using Cons.IH [OF r] by blast
qed

text \<open>
  C9, as the code has it. After any sequence of events on a thread, the flag \<open>_attached\<close>
  is set exactly when this layer attached the thread; at thread termination the
  destructor calls \<open>DetachCurrentThread\<close> (once) exactly when this layer attached the
  thread and the static VM handle is still registered; a thread attached by the host is
  left as it is.
\<close>

theorem detach_iff_attached_by_native:
  assumes "run jvm es (new_thread v host_attached) = Some s"
  shows "Environment_attached s = (jvm_thread s = AttachedByNative)
       \<and> (detach_calls (Environment_destructor s) = 1)
           = (jvm_thread s = AttachedByNative \<and> Environment_vm s \<noteq> None)
       \<and> (detach_calls (Environment_destructor s) = 0)
           = (\<not> (jvm_thread s = AttachedByNative \<and> Environment_vm s \<noteq> None))
       \<and> (if jvm_thread s = AttachedByHost then Environment_destructor s = s else True)"
proof -
  have inv: "Environment_attached s = (jvm_thread s = AttachedByNative)
       \<and> (Environment_attached s \<longrightarrow> Environment_env s \<noteq> None) \<and> detach_calls s = 0"
    by (rule run_invariant [OF assms]) (simp_all add: new_thread_def)
  then show ?thesis
    by (auto simp: Environment_destructor_def DetachCurrentThread_def)
qed

theorem detach_iff_attached_by_native_witness:
  "run \<lparr>handle = 1, thread_env = 7, version_supported = True, attach_succeeds = True\<rparr>
       [Load 1, GetEnvCall] (new_thread None False) \<noteq> None
   \<and> detach_calls (Environment_destructor
       (the (run \<lparr>handle = 1, thread_env = 7, version_supported = True, attach_succeeds = True\<rparr>
          [Load 1, GetEnvCall] (new_thread None False)))) = 1"
proof -
  let ?jvm = "\<lparr>handle = 1, thread_env = 7, version_supported = True, attach_succeeds = True\<rparr>"
  let ?s = "\<lparr>Environment_vm = Some 1, Environment_env = Some 7, Environment_attached = True, jvm_thread = AttachedByNative,
            detach_calls = 0\<rparr>"
  have r: "run ?jvm [Load 1, GetEnvCall] (new_thread None False) = Some ?s"
    by (simp add: new_thread_def load_def getEnv_def GetEnv_def AttachCurrentThread_def
        JNI_OK_def JNI_EDETACHED_def)
  from detach_iff_attached_by_native [OF r] show ?thesis
    using r by simp
qed

text \<open>
  C9 as stated (detached if and only if this layer attached the thread) fails when the
  library is unloaded before the thread ends: the thread was attached by this layer, and
  the destructor does not detach it.
\<close>

theorem detach_iff_attached_counterexample:
  "\<not> (\<forall>es s. run \<lparr>handle = 1, thread_env = 7, version_supported = True, attach_succeeds = True\<rparr>
              es (new_thread None False) = Some s
         \<longrightarrow> (detach_calls (Environment_destructor s) = 1)
              = (jvm_thread s = AttachedByNative))"
proof
  let ?jvm = "\<lparr>handle = 1, thread_env = 7, version_supported = True, attach_succeeds = True\<rparr>"
  let ?s = "\<lparr>Environment_vm = None, Environment_env = Some 7, Environment_attached = True, jvm_thread = AttachedByNative,
            detach_calls = 0\<rparr>"
  assume a: "\<forall>es s. run ?jvm es (new_thread None False) = Some s
         \<longrightarrow> (detach_calls (Environment_destructor s) = 1)
              = (jvm_thread s = AttachedByNative)"
  have r: "run ?jvm [Load 1, GetEnvCall, Unload 1] (new_thread None False) = Some ?s"
    by (simp add: new_thread_def load_def unload_def getEnv_def GetEnv_def
        AttachCurrentThread_def JNI_OK_def JNI_EDETACHED_def)
  from a r have "(detach_calls (Environment_destructor ?s) = 1)
              = (jvm_thread ?s = AttachedByNative)" by blast
  then show False by (simp add: Environment_destructor_def)
qed

section \<open>Properties of the call adapters\<close>

lemma exception_handler_result:
  assumes "classes env1 ''java/lang/Exception'' \<noteq> None"
  shows "exception_handler w env1 =
          (Inr (), if pending env1 = None
                   then raise ''java/lang/Exception'' w env1
                   else env1)"
  using assms
  by (auto simp: exception_handler_def ExceptionCheck_def LocalClassRef_def FindClass_def
      ThrowNew_def split: option.splits)

lemma JavaException_ctor_result:
  assumes "pending env0 = Some (Throwable i c m)"
  shows "JavaException_ctor env0
           = (Inr \<lparr>ex = Some (Throwable i c m), message = m\<rparr>,
              env0\<lparr>pending := None,
                   calls := calls env0 @ [CallMethod ''getMessage'', GetStringUTFChars]\<rparr>)"
  using assms
  by (simp add: JavaException_ctor_def ExceptionCheck_def ExceptionOccurred_def ExceptionClear_def)

text \<open>
  C3, for an exception that has a message. When a Java exception \<open>e\<close> whose \<open>getMessage()\<close>
  returns a string is pending, the constructor of \<open>JavaException\<close> stores a reference to
  \<open>e\<close> and the message of \<open>e\<close>, and clears the pending exception. When the wrapper so built
  leaves the \<open>try\<close> block of an adapter, the adapter returns the default value and the
  pending exception is \<open>e\<close> again: the same object, not a new one.
\<close>

theorem java_exception_rethrown:
  assumes "pending env0 = Some (Throwable i c m)"
    and "JavaException_ctor env0 = (Inr w, env0')"
    and "Adapter_try func Args result_type args env1 = (Inl (ThrownJavaException w), env2)"
    and "MemberAdapter_try cn mfunc Args' result_type' obj args' env3
           = (Inl (ThrownJavaException w), env4)"
  shows "w = \<lparr>ex = Some (Throwable i c m), message = m\<rparr>
       \<and> pending env0' = None
       \<and> Adapter_invoke func Args result_type args env1
           = (Inr (default_result result_type), env2\<lparr>pending := Some (Throwable i c m)\<rparr>)
       \<and> MemberAdapter_invoke cn mfunc Args' result_type' obj args' env3
           = (Inr (default_result result_type'), env4\<lparr>pending := Some (Throwable i c m)\<rparr>)"
proof -
  from assms(2) JavaException_ctor_result [OF assms(1)]
  have w: "w = \<lparr>ex = Some (Throwable i c m), message = m\<rparr>" and p: "pending env0' = None"
    by auto
  have a: "Adapter_invoke func Args result_type args env1
           = (Inr (default_result result_type), env2\<lparr>pending := Some (Throwable i c m)\<rparr>)"
    using assms(3) by (simp add: Adapter_invoke_def Adapter_catch_def innerException_def w Throw_def)
  have m: "MemberAdapter_invoke cn mfunc Args' result_type' obj args' env3
           = (Inr (default_result result_type'), env4\<lparr>pending := Some (Throwable i c m)\<rparr>)"
    using assms(4) by (simp add: MemberAdapter_invoke_def Adapter_catch_def innerException_def w Throw_def)
  from w p a m show ?thesis by simp
qed

theorem java_exception_rethrown_witness:
  "Adapter_invoke callback_raises [] None [] example_env
     = (Inr JVoid,
        example_env\<lparr>pending := Some (Throwable 5 ''java/lang/Exception'' ''non-critical error''),
                    calls := [CallMethod ''getMessage'', GetStringUTFChars]\<rparr>)
   \<and> MemberAdapter_invoke ''Sample'' (\<lambda>ptr. callback_raises) [] None 1 [] example_env
     = (Inr JVoid,
        example_env\<lparr>pending := Some (Throwable 5 ''java/lang/Exception'' ''non-critical error''),
                    calls := [GetField ''nativePointer'', CallMethod ''getMessage'', GetStringUTFChars]\<rparr>)"
proof -
  let ?e = "Throwable 5 ''java/lang/Exception'' ''non-critical error''"
  let ?w = "\<lparr>ex = Some ?e, message = ''non-critical error''\<rparr>"
  let ?env0 = "Throw (Some ?e) example_env"
  let ?env2 = "example_env\<lparr>calls := [CallMethod ''getMessage'', GetStringUTFChars]\<rparr>"
  let ?env4 = "example_env\<lparr>calls := [GetField ''nativePointer'', CallMethod ''getMessage'', GetStringUTFChars]\<rparr>"
  have p: "pending ?env0 = Some ?e" by (simp add: Throw_def)
  have c: "JavaException_ctor ?env0 = (Inr ?w, ?env2)"
    by (simp add: JavaException_ctor_def ExceptionCheck_def ExceptionOccurred_def ExceptionClear_def
        Throw_def example_env_def)
  have t: "Adapter_try callback_raises [] None [] example_env = (Inl (ThrownJavaException ?w), ?env2)"
    by (simp add: adapter_defs callback_raises_def example_env_def)
  have m: "MemberAdapter_try ''Sample'' (\<lambda>ptr. callback_raises) [] None 1 [] example_env
           = (Inl (ThrownJavaException ?w), ?env4)"
    by (simp add: adapter_defs callback_raises_def example_env_def)
  from java_exception_rethrown [OF p c t m] show ?thesis
    by (simp add: default_result_def)
qed

text \<open>
  C3 at an exception that has no message. A callback raises \<open>RuntimeException()\<close>, whose
  \<open>getMessage()\<close> returns null. The constructor of \<open>JavaException\<close> passes the null reference
  to \<open>GetStringUTFChars\<close> and assigns the result to a \<open>std::string\<close>: the behaviour is
  undefined, no wrapper is built and the adapter does not reach its \<open>catch\<close> clauses.
\<close>

theorem java_exception_without_message:
  "JavaException_ctor (Throw (Some (Throwable_without_message 5 ''java/lang/RuntimeException'')) example_env)
     = (Inl Undefined_behaviour, example_env\<lparr>calls := [CallMethod ''getMessage'']\<rparr>)
   \<and> Adapter_invoke callback_raises_without_message [] None [] example_env
     = (Inl Undefined_behaviour, example_env\<lparr>calls := [CallMethod ''getMessage'']\<rparr>)
   \<and> MemberAdapter_invoke ''Sample'' (\<lambda>ptr. callback_raises_without_message) [] None 1 [] example_env
     = (Inl Undefined_behaviour,
        example_env\<lparr>calls := [GetField ''nativePointer'', CallMethod ''getMessage'']\<rparr>)"
  by (simp add: adapter_defs callback_raises_without_message_def example_env_def)




text \<open>
  C10. The outbound conversion of a \<open>std::function\<close> throws a \<open>std::runtime_error\<close> for
  every value and in every environment. Hence an adapter whose result type is a
  \<open>std::function\<close>, be it that of a free function or that of a member function, never
  returns anything but a null reference; and when the arguments convert and the wrapped
  function returns normally (for a member function: on a holder whose handle is not
  null), the adapter leaves a Java exception pending: a new \<open>java/lang/Exception\<close> with
  the message of the \<open>runtime_error\<close>, unless one was pending already.
\<close>

theorem function_result_not_supported:
  assumes "jni_bind (convert_arguments Args args) func env0 = (Inr v, env1)"
    and "classes env1 ''java/lang/Exception'' \<noteq> None"
    and "nativePointer env2 obj = Some p" and "p \<noteq> 0"
    and "jni_bind (convert_arguments Args' args') (mfunc p)
           (env2\<lparr>calls := calls env2 @ [GetField ''nativePointer'']\<rparr>) = (Inr v', env3)"
    and "classes env3 ''java/lang/Exception'' \<noteq> None"
  shows "Function_java_value f env
           = (Inl (ThrownStdException
                ''C++ functions returning a function object to Java/Kotlin are not supported.''), env)
       \<and> Adapter_invoke func Args (Some Function_ArgType) args env0
           = (Inr JNull,
              if pending env1 = None
              then env1\<lparr>pending := Some (Throwable (next_identity env1) ''java/lang/Exception''
                          ''C++ functions returning a function object to Java/Kotlin are not supported.''),
                        next_identity := next_identity env1 + 1\<rparr>
              else env1)
       \<and> pending (snd (Adapter_invoke func Args (Some Function_ArgType) args env0)) \<noteq> None
       \<and> MemberAdapter_invoke cn mfunc Args' (Some Function_ArgType) obj args' env2
           = (Inr JNull,
              if pending env3 = None
              then env3\<lparr>pending := Some (Throwable (next_identity env3) ''java/lang/Exception''
                          ''C++ functions returning a function object to Java/Kotlin are not supported.''),
                        next_identity := next_identity env3 + 1\<rparr>
              else env3)
       \<and> pending (snd (MemberAdapter_invoke cn mfunc Args' (Some Function_ArgType) obj args' env2)) \<noteq> None
       \<and> (\<forall>func' Args' args' env' r env''.
             Adapter_invoke func' Args' (Some Function_ArgType) args' env' = (Inr r, env'')
             \<longrightarrow> r = JNull)
       \<and> (\<forall>cn mfunc Args' obj args' env' r env''.
             MemberAdapter_invoke cn mfunc Args' (Some Function_ArgType) obj args' env' = (Inr r, env'')
             \<longrightarrow> r = JNull)"
proof -
  have j: "\<And>f env. Function_java_value f env
           = (Inl (ThrownStdException
                ''C++ functions returning a function object to Java/Kotlin are not supported.''), env)"
    by (simp add: Function_java_value_def jni_throw_def)
  have t: "Adapter_try func Args (Some Function_ArgType) args env0
           = (Inl (ThrownStdException
                ''C++ functions returning a function object to Java/Kotlin are not supported.''), env1)"
    using assms(1)
    by (auto simp: Adapter_try_def jni_bind_def Function_ArgType_def j split: prod.splits sum.splits)
  have a: "Adapter_invoke func Args (Some Function_ArgType) args env0
           = (Inr JNull,
              if pending env1 = None
              then env1\<lparr>pending := Some (Throwable (next_identity env1) ''java/lang/Exception''
                          ''C++ functions returning a function object to Java/Kotlin are not supported.''),
                        next_identity := next_identity env1 + 1\<rparr>
              else env1)"
    using t assms(2)
    by (simp add: Adapter_invoke_def Adapter_catch_def exception_handler_result raise_def
        default_result_def Function_ArgType_def)
  have t': "Adapter_try (mfunc p) Args' (Some Function_ArgType) args'
              (env2\<lparr>calls := calls env2 @ [GetField ''nativePointer'']\<rparr>)
           = (Inl (ThrownStdException
                ''C++ functions returning a function object to Java/Kotlin are not supported.''), env3)"
    using assms(5)
    by (auto simp: Adapter_try_def jni_bind_def Function_ArgType_def j split: prod.splits sum.splits)
  have mt: "MemberAdapter_try cn mfunc Args' (Some Function_ArgType) obj args' env2
           = (Inl (ThrownStdException
                ''C++ functions returning a function object to Java/Kotlin are not supported.''), env3)"
    using assms(3,4) t'
    by (simp add: MemberAdapter_try_def getField_nativePointer_def pointer_native_field_value_def
        jni_bind_def)
  have b: "MemberAdapter_invoke cn mfunc Args' (Some Function_ArgType) obj args' env2
           = (Inr JNull,
              if pending env3 = None
              then env3\<lparr>pending := Some (Throwable (next_identity env3) ''java/lang/Exception''
                          ''C++ functions returning a function object to Java/Kotlin are not supported.''),
                        next_identity := next_identity env3 + 1\<rparr>
              else env3)"
    using mt assms(6)
    by (simp add: MemberAdapter_invoke_def Adapter_catch_def exception_handler_result raise_def
        default_result_def Function_ArgType_def)
  have n1: "\<And>func' Args' args' env' r env''.
             Adapter_invoke func' Args' (Some Function_ArgType) args' env' = (Inr r, env'')
             \<Longrightarrow> r = JNull"
    by (auto simp: Adapter_invoke_def Adapter_catch_def Adapter_try_def jni_bind_def
        default_result_def Function_ArgType_def j
        split: prod.splits sum.splits cpp_exception.splits)
  have n2: "\<And>cn mfunc Args' obj args' env' r env''.
             MemberAdapter_invoke cn mfunc Args' (Some Function_ArgType) obj args' env' = (Inr r, env'')
             \<Longrightarrow> r = JNull"
    by (auto simp: MemberAdapter_invoke_def MemberAdapter_try_def Adapter_catch_def Adapter_try_def
        jni_bind_def jni_throw_def default_result_def Function_ArgType_def j
        split: prod.splits sum.splits cpp_exception.splits if_splits)
  from j a b n1 n2 show ?thesis by (auto simp: a b)
qed

text \<open>
  A function and a member function that return a function object, each invoked with no
  exception pending: both adapters return the null reference and leave the exception
  pending.
\<close>

theorem function_result_not_supported_witness:
  "Adapter_invoke returns_function [] (Some Function_ArgType) [] example_env
     = (Inr JNull,
        example_env\<lparr>pending := Some (Throwable 100 ''java/lang/Exception''
                       ''C++ functions returning a function object to Java/Kotlin are not supported.''),
                    next_identity := 101\<rparr>)
   \<and> MemberAdapter_invoke ''Sample'' (\<lambda>ptr. returns_function) [] (Some Function_ArgType) 1 [] example_env
     = (Inr JNull,
        example_env\<lparr>pending := Some (Throwable 100 ''java/lang/Exception''
                       ''C++ functions returning a function object to Java/Kotlin are not supported.''),
                    next_identity := 101,
                    calls := [GetField ''nativePointer'']\<rparr>)"
proof -
  have b: "jni_bind (convert_arguments [] []) returns_function example_env
             = (Inr (CFunction 0), example_env)"
    by (simp add: convert_arguments_def jni_bind_def jni_return_def returns_function_def example_env_def)
  have k: "classes example_env ''java/lang/Exception'' \<noteq> None"
    by (simp add: example_env_def bootstrap_classes_def)
  let ?env3 = "example_env\<lparr>calls := calls example_env @ [GetField ''nativePointer'']\<rparr>"
  have h: "nativePointer example_env 1 = Some 4096" "(4096 :: 64 word) \<noteq> 0"
    by (simp_all add: example_env_def)
  have b': "jni_bind (convert_arguments [] []) ((\<lambda>ptr. returns_function) (4096 :: 64 word)) ?env3
             = (Inr (CFunction 0), ?env3)"
    by (simp add: convert_arguments_def jni_bind_def jni_return_def returns_function_def example_env_def)
  have k3: "classes ?env3 ''java/lang/Exception'' \<noteq> None"
    by (simp add: example_env_def bootstrap_classes_def)
  from function_result_not_supported [OF b k h b' k3, of "CFunction 0" example_env "''Sample''"]
  show ?thesis
    by (simp add: example_env_def bootstrap_classes_def)
qed

text \<open>
  C2. Let a holder object have a \<open>nativePointer\<close> field holding \<open>p\<close>. The dispose adapter
  returns normally, applies \<open>delete\<close> to \<open>p\<close> (once, when \<open>p\<close> is not null), stores the null
  handle in the field and leaves the pending exception as it was. Invoked again on the
  same holder it returns normally, applies \<open>delete\<close> to nothing more, leaves the pending
  exception as it was and the field null. A member adapter invoked (with no exception
  pending, as at every entry from Java) on a holder whose field is null does not call
  the wrapped function: it returns the default value with a new \<open>java/lang/Exception\<close>
  pending whose message says that the object has already been disposed of.
\<close>

theorem disposal_idempotent_and_gating:
  assumes "nativePointer env0 obj = Some p"
    and "nativePointer env3 obj' = Some 0"
    and "pending env3 = None"
    and "classes env3 ''java/lang/Exception'' \<noteq> None"
  shows "fst (DestroyObjectAdapter_invoke obj env0) = Inr JVoid
       \<and> deleted (snd (DestroyObjectAdapter_invoke obj env0))
           = deleted env0 @ (if p = 0 then [] else [p])
       \<and> nativePointer (snd (DestroyObjectAdapter_invoke obj env0)) obj = Some 0
       \<and> pending (snd (DestroyObjectAdapter_invoke obj env0)) = pending env0
       \<and> fst (DestroyObjectAdapter_invoke obj (snd (DestroyObjectAdapter_invoke obj env0))) = Inr JVoid
       \<and> deleted (snd (DestroyObjectAdapter_invoke obj (snd (DestroyObjectAdapter_invoke obj env0))))
           = deleted (snd (DestroyObjectAdapter_invoke obj env0))
       \<and> nativePointer (snd (DestroyObjectAdapter_invoke obj (snd (DestroyObjectAdapter_invoke obj env0))))
           = nativePointer (snd (DestroyObjectAdapter_invoke obj env0))
       \<and> pending (snd (DestroyObjectAdapter_invoke obj (snd (DestroyObjectAdapter_invoke obj env0))))
           = pending env0
       \<and> MemberAdapter_invoke cn mfunc Args result_type obj' args env3
           = (Inr (default_result result_type),
              env3\<lparr>pending := Some (Throwable (next_identity env3) ''java/lang/Exception''
                         (''Object '' @ cn @ '' has already been disposed of.'')),
                    next_identity := next_identity env3 + 1,
                    calls := calls env3 @ [GetField ''nativePointer'']\<rparr>)"
proof -
  let ?env1 = "env0\<lparr>nativePointer := (nativePointer env0)(obj := Some 0),
                    calls := calls env0 @ [GetField ''nativePointer'', SetField ''nativePointer''],
                    deleted := deleted env0 @ (if p = 0 then [] else [p])\<rparr>"
  let ?env2 = "?env1\<lparr>calls := calls ?env1 @ [GetField ''nativePointer'', SetField ''nativePointer'']\<rparr>"
  have d1: "DestroyObjectAdapter_invoke obj env0 = (Inr JVoid, ?env1)"
    using assms(1) by (simp add: adapter_defs)
  have d2: "DestroyObjectAdapter_invoke obj ?env1 = (Inr JVoid, ?env2)"
    by (simp add: adapter_defs fun_upd_idem_iff)
  have m: "MemberAdapter_invoke cn mfunc Args result_type obj' args env3
           = (Inr (default_result result_type),
              env3\<lparr>pending := Some (Throwable (next_identity env3) ''java/lang/Exception''
                         (''Object '' @ cn @ '' has already been disposed of.'')),
                    next_identity := next_identity env3 + 1,
                    calls := calls env3 @ [GetField ''nativePointer'']\<rparr>)"
    using assms(2,3,4) by (auto simp: adapter_defs split: option.splits)
  show ?thesis
    by (simp add: d1 d2 m)
qed

text \<open>
  The holder 1 of the example environment holds the native object at 4096: it is
  disposed of twice, then a method is invoked on it.
\<close>

theorem disposal_idempotent_and_gating_witness:
  "deleted (snd (DestroyObjectAdapter_invoke 1 example_env)) = [4096]
   \<and> deleted (snd (DestroyObjectAdapter_invoke 1 (snd (DestroyObjectAdapter_invoke 1 example_env)))) = [4096]
   \<and> pending (snd (DestroyObjectAdapter_invoke 1 (snd (DestroyObjectAdapter_invoke 1 example_env)))) = None
   \<and> fst (MemberAdapter_invoke ''com/kheiron/ktbind/Sample'' (\<lambda>ptr. returns_function) [] None 1 []
            (example_env\<lparr>nativePointer := (\<lambda>obj. if obj = 1 then Some 0 else None)\<rparr>)) = Inr JVoid
   \<and> pending (snd (MemberAdapter_invoke ''com/kheiron/ktbind/Sample'' (\<lambda>ptr. returns_function) [] None 1 []
            (example_env\<lparr>nativePointer := (\<lambda>obj. if obj = 1 then Some 0 else None)\<rparr>)))
       = Some (Throwable 100 ''java/lang/Exception''
            ''Object com/kheiron/ktbind/Sample has already been disposed of.'')"
proof -
  let ?env3 = "example_env\<lparr>nativePointer := (\<lambda>obj. if obj = 1 then Some 0 else None)\<rparr>"
  have h1: "nativePointer example_env 1 = Some 4096" by (simp add: example_env_def bootstrap_classes_def)
  have h2: "nativePointer ?env3 1 = Some 0" by simp
  have h3: "pending ?env3 = None" by (simp add: example_env_def bootstrap_classes_def)
  have h4: "classes ?env3 ''java/lang/Exception'' \<noteq> None" by (simp add: example_env_def bootstrap_classes_def)
  from disposal_idempotent_and_gating [OF h1 h2 h3 h4, of "''com/kheiron/ktbind/Sample''"
      "\<lambda>ptr. returns_function" "[]" None "[]"]
  show ?thesis by (simp add: example_env_def default_result_def bootstrap_classes_def)
qed

end
